theory Spec2Isabelle
  imports Main
begin

section \<open>Strings and formatting\<close>

text \<open>
  Go strings are byte sequences; they are modelled as \<open>string\<close>. An \<open>error\<close> value is a
  \<open>string option\<close> (\<open>None\<close> is \<open>nil\<close>, \<open>Some m\<close> an error whose text is \<open>m\<close>), and
  \<open>fmt.Errorf\<close> / \<open>fmt.Sprintf\<close> are written out as concatenations.
\<close>

definition dquote :: string where
  "dquote = [CHR 0x22]"

definition squote :: string where
  "squote = [CHR 0x27]"

text \<open>The verb \<open>%d\<close>: the decimal digits of an integer, with a sign when negative.\<close>

fun showNat :: "nat \<Rightarrow> string" where
  "showNat n =
     (if n < 10 then [''0123456789'' ! n]
      else showNat (n div 10) @ [''0123456789'' ! (n mod 10)])"

declare showNat.simps [simp del]

definition showInt :: "int \<Rightarrow> string" where
  "showInt i = (if i < 0 then CHR ''-'' # showNat (nat (- i)) else showNat (nat i))"

text \<open>
  \<open>strings.TrimSpace\<close> removes the leading and the trailing white space, as Unicode
  defines it, from a string that holds UTF-8. \<open>whiteSpace\<close> lists the encodings of
  the code points for which \<open>unicode.IsSpace\<close> holds: the six ASCII ones, U+0085,
  U+00A0, U+1680, U+2000 to U+200A, U+2028, U+2029, U+202F, U+205F and U+3000. Any other
  bytes, among them those that are not valid UTF-8, end the trimming.
\<close>

definition whiteSpace :: "string list" where
  "whiteSpace =
     [[CHR 0x09], [CHR 0x0A], [CHR 0x0B], [CHR 0x0C], [CHR 0x0D], [CHR 0x20],
      [CHR 0xC2, CHR 0x85], [CHR 0xC2, CHR 0xA0], [CHR 0xE1, CHR 0x9A, CHR 0x80]] @
     map (\<lambda>b. [CHR 0xE2, CHR 0x80, b])
       [CHR 0x80, CHR 0x81, CHR 0x82, CHR 0x83, CHR 0x84, CHR 0x85, CHR 0x86, CHR 0x87,
        CHR 0x88, CHR 0x89, CHR 0x8A, CHR 0xA8, CHR 0xA9, CHR 0xAF] @
     [[CHR 0xE2, CHR 0x81, CHR 0x9F], [CHR 0xE3, CHR 0x80, CHR 0x80]]"

text \<open>
  The number of bytes of the code among \<open>codes\<close> with which \<open>s\<close> starts, and \<open>0\<close>
  when it starts with none of them.
\<close>

definition spaceWidth :: "string list \<Rightarrow> string \<Rightarrow> nat" where
  "spaceWidth codes s =
     (case find (\<lambda>code. take (length code) s = code) codes of
        None \<Rightarrow> 0
      | Some code \<Rightarrow> length code)"

function TrimLeftFunc :: "string list \<Rightarrow> string \<Rightarrow> string" where
  "TrimLeftFunc codes s =
     (if spaceWidth codes s = 0 then s
      else TrimLeftFunc codes (drop (spaceWidth codes s) s))"
  by pat_completeness auto

termination
proof (relation "measure (\<lambda>(codes, s). length s)")
  fix codes :: "string list" and s :: string
  assume "spaceWidth codes s \<noteq> 0"
  then obtain code where "take (length code) s = code" and "length code \<noteq> 0"
    by (auto simp add: spaceWidth_def find_Some_iff split: option.splits)
  then have "s \<noteq> []" by auto
  with \<open>spaceWidth codes s \<noteq> 0\<close>
  show "((codes, drop (spaceWidth codes s) s), (codes, s)) \<in> measure (\<lambda>(codes, s). length s)"
    by simp
qed simp

declare TrimLeftFunc.simps [simp del]

text \<open>The trailing white space is the leading one of the reversed string, read backwards.\<close>

definition TrimSpace :: "string \<Rightarrow> string" where
  "TrimSpace s = rev (TrimLeftFunc (map rev whiteSpace) (rev (TrimLeftFunc whiteSpace s)))"

section \<open>Regular expressions of the argument validator\<close>

text \<open>
  \<open>regexp.MustCompile\<close> patterns are embedded as a datatype; \<open>MatchString\<close> on a pattern
  anchored with \<open>^\<close> and \<open>$\<close> is a whole-string match, computed by derivatives.
  A character class is a list of inclusive ranges.
\<close>

datatype rx =
  Void
| Eps
| Class "(char \<times> char) list"
| Seq rx rx
| Alt rx rx
| Star rx

definition inClass :: "(char \<times> char) list \<Rightarrow> char \<Rightarrow> bool" where
  "inClass rs c =
     list_ex (\<lambda>(lo, hi). (of_char lo :: nat) \<le> of_char c \<and> (of_char c :: nat) \<le> of_char hi) rs"

fun nullable :: "rx \<Rightarrow> bool" where
  "nullable Void = False"
| "nullable Eps = True"
| "nullable (Class rs) = False"
| "nullable (Seq r s) = (nullable r \<and> nullable s)"
| "nullable (Alt r s) = (nullable r \<or> nullable s)"
| "nullable (Star r) = True"

fun deriv :: "char \<Rightarrow> rx \<Rightarrow> rx" where
  "deriv c Void = Void"
| "deriv c Eps = Void"
| "deriv c (Class rs) = (if inClass rs c then Eps else Void)"
| "deriv c (Seq r s) =
     (if nullable r then Alt (Seq (deriv c r) s) (deriv c s) else Seq (deriv c r) s)"
| "deriv c (Alt r s) = Alt (deriv c r) (deriv c s)"
| "deriv c (Star r) = Seq (deriv c r) (Star r)"

definition MatchString :: "rx \<Rightarrow> string \<Rightarrow> bool" where
  "MatchString r s = nullable (foldl (\<lambda>q c. deriv c q) r s)"

definition Opt :: "rx \<Rightarrow> rx" where
  "Opt r = Alt r Eps"

text \<open>\<open>[a-z0-9]\<close>, \<open>[-a-z0-9]\<close> and \<open>\.\<close>\<close>

definition alnumClass :: rx where
  "alnumClass = Class [(CHR ''a'', CHR ''z''), (CHR ''0'', CHR ''9'')]"

definition dashAlnumClass :: rx where
  "dashAlnumClass = Class [(CHR ''-'', CHR ''-''), (CHR ''a'', CHR ''z''), (CHR ''0'', CHR ''9'')]"

definition dotClass :: rx where
  "dotClass = Class [(CHR ''.'', CHR ''.'')]"

text \<open>\<^verbatim>\<open>^[a-z0-9]([-a-z0-9]*[a-z0-9])?$\<close>\<close>

definition dns1123LabelRegex :: rx where
  "dns1123LabelRegex = Seq alnumClass (Opt (Seq (Star dashAlnumClass) alnumClass))"

text \<open>\<^verbatim>\<open>^[a-z0-9]([-a-z0-9]*[a-z0-9])?(\.[a-z0-9]([-a-z0-9]*[a-z0-9])?)*$\<close>\<close>

definition dns1123DomainRegex :: rx where
  "dns1123DomainRegex =
     Seq dns1123LabelRegex (Star (Seq dotClass dns1123LabelRegex))"

text \<open>
  The grammars the two patterns are meant to recognise, in the words of the validator's
  own messages: a DNS-1123 label consists of lower case alphanumeric characters or
  \<open>-\<close>, and starts and ends with an alphanumeric character; a DNS-1123 subdomain is a
  sequence of such labels separated by single dots.
\<close>

definition lowerAlnum :: "char \<Rightarrow> bool" where
  "lowerAlnum c =
     (((of_char (CHR ''a'') :: nat) \<le> of_char c \<and> (of_char c :: nat) \<le> of_char (CHR ''z'')) \<or>
      ((of_char (CHR ''0'') :: nat) \<le> of_char c \<and> (of_char c :: nat) \<le> of_char (CHR ''9'')))"

definition isDNS1123Label :: "string \<Rightarrow> bool" where
  "isDNS1123Label s =
     (s \<noteq> [] \<and> list_all (\<lambda>c. lowerAlnum c \<or> c = CHR ''-'') s \<and>
      lowerAlnum (hd s) \<and> lowerAlnum (last s))"

fun splitDots :: "string \<Rightarrow> string list" where
  "splitDots [] = [[]]"
| "splitDots (c # cs) =
     (if c = CHR ''.'' then [] # splitDots cs
      else (case splitDots cs of [] \<Rightarrow> [[c]] | l # ls \<Rightarrow> (c # l) # ls))"

definition isDNS1123Subdomain :: "string \<Rightarrow> bool" where
  "isDNS1123Subdomain s = list_all isDNS1123Label (splitDots s)"

section \<open>Data model\<close>

text \<open>
  Cluster facts. The flavor and version accessors of the cluster client return values of
  these types.
\<close>

datatype flavor = FlavorKubernetes | FlavorOpenShift

type_synonym version = "nat \<times> nat \<times> nat"

text \<open>
  Modelled from the spec: \<open>utils.Version.AtLeast\<close> is not among the sources; the spec
  only says that the cluster version must meet a minimum feature floor. A version is its
  (major, minor, patch) triple, compared lexicographically.
\<close>

definition AtLeast :: "version \<Rightarrow> version \<Rightarrow> bool" where
  "AtLeast v m =
     (case v of (a, b, c) \<Rightarrow> (case m of (x, y, z) \<Rightarrow>
        x < a \<or> (a = x \<and> (y < b \<or> (b = y \<and> z \<le> c)))))"

text \<open>
  A Go \<open>map[string]string\<close> that may be \<open>nil\<close>. Reading a key that is absent (or
  reading a \<open>nil\<close> map) gives the empty string.
\<close>

type_synonym labels = "(string \<rightharpoonup> string) option"

definition labelAt :: "labels \<Rightarrow> string \<Rightarrow> string" where
  "labelAt ls k =
     (case ls of None \<Rightarrow> []
      | Some m \<Rightarrow> (case m k of None \<Rightarrow> [] | Some v \<Rightarrow> v))"

text \<open>Phases are string-typed in the cluster API.\<close>

abbreviation ClaimLost :: string where "ClaimLost \<equiv> ''Lost''"
abbreviation ClaimBound :: string where "ClaimBound \<equiv> ''Bound''"
abbreviation VolumeReleased :: string where "VolumeReleased \<equiv> ''Released''"
abbreviation VolumeFailed :: string where "VolumeFailed \<equiv> ''Failed''"
abbreviation VolumeBound :: string where "VolumeBound \<equiv> ''Bound''"
abbreviation PodRunning :: string where "PodRunning \<equiv> ''Running''"

record pvc =
  pvcPhase :: string
  pvcVolumeName :: string
  pvcLabels :: labels
  pvcName' :: string
  pvcNamespace :: string

record pv =
  pvPhase :: string
  pvClaimRef :: "(string \<times> string) option"
  pvLabels :: labels
  pvCapacityStorage :: "int option"

record pod =
  podName :: string
  podPhase :: string
  podMessage :: string

text \<open>
  A deployment, stateful-set or daemon-set read from an override file: its labels, the
  labels of its pod template, and the (name, image) pairs of the template's containers.
  A service has labels only.
\<close>

record workload =
  objLabels :: labels
  templateLabels :: labels
  containers :: "(string \<times> string) list"

text \<open>
  The backend's allocation result, with \<open>Config.AccessInfo\<close> flattened.
  \<open>CHAPSecretName\<close> is the value of \<open>volume.ConstructExternal().GetCHAPSecretName()\<close>.
\<close>

record volume =
  NfsServerIP :: string
  NfsPath :: string
  IscsiTargetPortal :: string
  IscsiTargetIQN :: string
  IscsiLunNumber :: int
  IscsiUsername :: string
  IscsiInitiatorSecret :: string
  IscsiTargetSecret :: string
  CHAPSecretName :: string

record volumeConfig =
  vcVersion :: string
  vcName :: string
  vcSize :: string
  vcProtocol :: string

text \<open>
  A live backend: \<open>Storage\<close> lists the pool names in the order in which this run's
  iteration over the pool map yields them (Go randomises it), \<open>AddVolume\<close> is the
  backend's answer to an allocation request.
\<close>

record backend =
  backendName :: string
  Storage :: "string list"
  GetProtocol :: string
  GetDriverName :: string
  AddVolume :: "volumeConfig \<Rightarrow> string \<Rightarrow> string + volume"

text \<open>
  Rendered manifests. The renderers of \<open>k8s_client\<close> are outside the sources; a rendered
  body is represented by the renderer's name applied to its arguments.
\<close>

datatype yaml =
  GetNamespaceYAML string
| GetServiceAccountYAML bool
| GetClusterRoleYAML flavor version bool
| GetClusterRoleBindingYAML string flavor version bool
| GetPVCYAML string string string string
| GetDeploymentYAML string string string string bool
| GetCSIServiceYAML string
| GetCSIStatefulSetYAML string string string string bool
| GetCSIDaemonSetYAML string string bool
| GetNFSPVYAML string string string string string string string
| GetISCSIPVYAML string string string string string string int string
| GetCHAPISCSIPVYAML string string string string string string string int string
| GetCHAPSecretYAML string string string string

text \<open>The file paths prepared by \<open>prepareYAMLFilePaths\<close>.\<close>

datatype path =
  setupPath
| backendConfigFilePath
| namespacePath
| serviceAccountPath
| clusterRolePath
| clusterRoleBindingPath
| pvcPath
| deploymentPath
| csiServicePath
| csiStatefulSetPath
| csiDaemonSetPath

text \<open>
  What a run does to its collaborators, in order: calls of the cluster client that create
  or delete objects, calls of the external-authorization (UCP) client, the file-system and
  driver-factory calls of \<open>loadStorageDriver\<close>, the allocation request to the backend,
  and the warnings logged.
\<close>

datatype event =
  CreateObjectByYAML yaml
| CreateObjectByFile path
| DeleteObjectByYAML yaml bool
| AddTridentUserToOpenShiftSCC
| RemoveTridentUserFromOpenShiftSCC
| CreateTridentRole
| AddTridentRoleToServiceAccount string
| RemoveTridentRoleFromServiceAccount string
| DeleteTridentRole
| Stat path
| ReadFile path
| NewStorageBackendForConfig string
| BackendAddVolume volumeConfig string
| Remove path
| WriteFile path yaml
| Warning string

section \<open>Configuration and collaborators\<close>

text \<open>
  The package-level variables read by the installer (CLI flags and the values derived from
  them), and the constants it takes from other packages.
\<close>

record config =
  dryRun :: bool
  generateYAML :: bool
  useYAML :: bool
  csi :: bool
  pvName :: string
  pvcName :: string
  volumeName :: string
  volumeSize :: string
  tridentImage :: string
  etcdImage :: string
  k8sTimeout :: int
  useKubernetesRBAC :: bool
  TridentPodNamespace :: string
  Debug :: bool
  appLabel :: string
  appLabelKey :: string
  appLabelValue :: string
  OrchestratorName :: string
  TridentLabel :: string
  TridentLabelKey :: string
  TridentLabelValue :: string
  TridentCSILabel :: string
  TridentCSILabelKey :: string
  TridentCSILabelValue :: string
  TridentNodeLabelKey :: string
  TridentNodeLabelValue :: string
  ContainerTrident :: string
  KubernetesCSIVersionMin :: version

text \<open>
  The answers of the external collaborators: the cluster client, the UCP client, the file
  system, the driver factory and the library functions. \<open>fails ev\<close> is the error, if
  any, with which the call \<open>ev\<close> returns. A polled query takes the number of the call.
  \<open>backoffAttempts\<close> is the number of further attempts that an exponential back-off
  with a positive maximum elapsed time grants after the first one before that time is
  exceeded.
\<close>

record world =
  Version :: version
  ShortString :: "version \<Rightarrow> string"
  Flavor :: flavor
  Namespace :: string
  CLI :: string
  ParseQuantity :: "string \<Rightarrow> string + int"
  isTridentInstalled :: "string + (bool \<times> string)"
  isCSITridentInstalled :: "string + (bool \<times> string)"
  CheckNamespaceExists :: "string \<Rightarrow> string + bool"
  CheckPVCExists :: "string \<Rightarrow> string + bool"
  GetPVC :: "string \<Rightarrow> string + pvc"
  CheckPVExists :: "string \<Rightarrow> string + bool"
  GetPV :: "string \<Rightarrow> string + pv"
  CheckPVCBound :: "string \<Rightarrow> nat \<Rightarrow> string + bool"
  GetPodByLabel :: "string \<Rightarrow> nat \<Rightarrow> string + pod"
  Exec :: "string \<Rightarrow> nat \<Rightarrow> string \<times> string option"
  UnmarshalVersion :: "string \<Rightarrow> string + string"
  CheckSecretExistsError :: "string \<Rightarrow> string option"
  fails :: "event \<Rightarrow> string option"
  backoffAttempts :: nat
  fileExists :: "path \<Rightarrow> bool"
  ReadDeploymentFromFile :: "path \<Rightarrow> string + workload"
  ReadServiceFromFile :: "path \<Rightarrow> string + workload"
  ReadStatefulSetFromFile :: "path \<Rightarrow> string + workload"
  ReadDaemonSetFromFile :: "path \<Rightarrow> string + workload"
  ReadPVCFromFile :: "path \<Rightarrow> string + pvc"
  StatNotExist :: "path \<Rightarrow> string option"
  ReadFileResult :: "path \<Rightarrow> string + string"
  NewStorageBackend :: "string \<Rightarrow> string + backend"

text \<open>
  The part of the cluster that the installer writes and later reads back within one
  run: the names of the secrets that exist.
\<close>

record cluster =
  secrets :: "string list"

section \<open>Actions\<close>

text \<open>
  An action runs against the cluster and yields its outcome, the events it performed in
  order, and the cluster afterwards. The outcome is the value returned, or \<open>Inl\<close> of
  the way in which no value is returned: \<open>Error m\<close> when the error \<open>m\<close> is
  returned, \<open>NoReturn\<close> when the call never returns (a wait that retries for ever).
\<close>

datatype failure = Error string | NoReturn

type_synonym 'a action = "cluster \<Rightarrow> (failure + 'a) \<times> event list \<times> cluster"

definition succeed :: "'a \<Rightarrow> 'a action" where
  "succeed x = (\<lambda>s. (Inr x, [], s))"

definition failWith :: "string \<Rightarrow> 'a action" where
  "failWith e = (\<lambda>s. (Inl (Error e), [], s))"

definition neverReturns :: "'a action" where
  "neverReturns = (\<lambda>s. (Inl NoReturn, [], s))"

definition andThen :: "'a action \<Rightarrow> ('a \<Rightarrow> 'b action) \<Rightarrow> 'b action" where
  "andThen m f =
     (\<lambda>s. case m s of
        (Inl e, evs, s') \<Rightarrow> (Inl e, evs, s')
      | (Inr x, evs, s') \<Rightarrow> (case f x s' of (r, evs', s'') \<Rightarrow> (r, evs @ evs', s'')))"

text \<open>
  Modelled from the spec: the cluster client is not among the sources. Creating an object
  from a rendered body makes it exist; the only objects whose existence the installer
  queries after creating them are secrets.
\<close>

fun effect :: "event \<Rightarrow> cluster \<Rightarrow> cluster" where
  "effect (CreateObjectByYAML (GetCHAPSecretYAML n u i t)) s = s\<lparr>secrets := n # secrets s\<rparr>"
| "effect ev s = s"

text \<open>
  A call of a collaborator: it is recorded, takes effect when it succeeds, and hands its
  error value back to the caller (it never returns on the caller's behalf).
\<close>

definition attempt :: "world \<Rightarrow> event \<Rightarrow> string option action" where
  "attempt w ev =
     (\<lambda>s. (Inr (fails w ev), [ev], if fails w ev = None then effect ev s else s))"

text \<open>The caller's \<open>fmt.Errorf\<close> around an error that a callee returned.\<close>

definition wrapError :: "(string \<Rightarrow> string) \<Rightarrow> 'a action \<Rightarrow> 'a action" where
  "wrapError f m =
     (\<lambda>s. case m s of
        (Inl (Error e), evs, s') \<Rightarrow> (Inl (Error (f e)), evs, s')
      | (Inl NoReturn, evs, s') \<Rightarrow> (Inl NoReturn, evs, s')
      | (Inr x, evs, s') \<Rightarrow> (Inr x, evs, s'))"

definition warn :: "string \<Rightarrow> unit action" where
  "warn m = (\<lambda>s. (Inr (), [Warning m], s))"

text \<open>
  Modelled from the spec: the cluster client's secret query answers found or not found,
  distinctly from a transport error.
\<close>

definition CheckSecretExists :: "world \<Rightarrow> string \<Rightarrow> (string + bool) action" where
  "CheckSecretExists w n =
     (\<lambda>s. (Inr (case CheckSecretExistsError w n of
                   Some e \<Rightarrow> Inl e
                 | None \<Rightarrow> Inr (n \<in> set (secrets s))), [], s))"

definition outcome :: "(failure + 'a) \<times> event list \<times> cluster \<Rightarrow> failure + 'a" where
  "outcome r = fst r"

definition events :: "(failure + 'a) \<times> event list \<times> cluster \<Rightarrow> event list" where
  "events r = fst (snd r)"

definition final :: "(failure + 'a) \<times> event list \<times> cluster \<Rightarrow> cluster" where
  "final r = snd (snd r)"

text \<open>
  \<open>backoff.RetryNotify\<close> with an exponential back-off: the operation is called until
  it succeeds or the back-off stops, and the error returned is the operation's last one.
  An operation yields its error, or the value it leaves in the variable it captured;
  \<open>i\<close> is the number of the call.

  The back-off stops once the time elapsed exceeds its \<open>MaxElapsedTime\<close>, unless that
  is zero: then it never stops, and \<open>RetryNotify\<close> returns only when the operation
  succeeds (\<open>None\<close> is the call that does not return). A negative maximum is exceeded
  at once; \<open>n\<close> is the number of further attempts that a positive one grants.
\<close>

fun retryUntilStop :: "(nat \<Rightarrow> string + 'a) \<Rightarrow> nat \<Rightarrow> nat \<Rightarrow> string + 'a" where
  "retryUntilStop operation i 0 = operation i"
| "retryUntilStop operation i (Suc n) =
     (case operation i of Inr x \<Rightarrow> Inr x | Inl e \<Rightarrow> retryUntilStop operation (Suc i) n)"

partial_function (option) retryForever :: "(nat \<Rightarrow> string + 'a) \<Rightarrow> nat \<Rightarrow> 'a option" where
  "retryForever operation i =
     (case operation i of Inr x \<Rightarrow> Some x | Inl e \<Rightarrow> retryForever operation (Suc i))"

definition RetryNotify ::
  "(nat \<Rightarrow> string + 'a) \<Rightarrow> nat \<Rightarrow> int \<Rightarrow> nat \<Rightarrow> (string + 'a) option" where
  "RetryNotify operation i maxElapsedTime n =
     (if maxElapsedTime = 0 then map_option Inr (retryForever operation i)
      else if maxElapsedTime < 0 then Some (retryUntilStop operation i 0)
      else Some (retryUntilStop operation i n))"

section \<open>Argument processing and validation\<close>

definition processInstallationArguments :: "config \<Rightarrow> config" where
  "processInstallationArguments c =
     (let c1 = (if pvcName c = [] then
                  (if csi c then c\<lparr>pvcName := OrchestratorName c @ ''-csi''\<rparr>
                   else c\<lparr>pvcName := OrchestratorName c\<rparr>)
                else c);
          c2 = (if pvName c1 = [] then
                  (if csi c1 then c1\<lparr>pvName := OrchestratorName c1 @ ''-csi''\<rparr>
                   else c1\<lparr>pvName := OrchestratorName c1\<rparr>)
                else c1);
          c3 = (if volumeName c2 = [] then
                  (if csi c2 then c2\<lparr>volumeName := OrchestratorName c2 @ ''-csi''\<rparr>
                   else c2\<lparr>volumeName := OrchestratorName c2\<rparr>)
                else c2)
      in if csi c3 then
           c3\<lparr>appLabel := TridentCSILabel c3, appLabelKey := TridentCSILabelKey c3,
              appLabelValue := TridentCSILabelValue c3\<rparr>
         else
           c3\<lparr>appLabel := TridentLabel c3, appLabelKey := TridentLabelKey c3,
              appLabelValue := TridentLabelValue c3\<rparr>)"

definition labelFormat :: string where
  "labelFormat =
     ''a DNS-1123 label must consist of lower case alphanumeric characters or '' @ squote @
     ''-'' @ squote @ '', '' @ ''and must start and end with an alphanumeric character''"

definition subdomainFormat :: string where
  "subdomainFormat =
     ''a DNS-1123 subdomain must consist of lower case alphanumeric characters, '' @ squote @
     ''-'' @ squote @ '' or '' @ squote @ ''.'' @ squote @ '', '' @
     ''and must start and end with an alphanumeric character''"

definition validateInstallationArguments :: "config \<Rightarrow> string option" where
  "validateInstallationArguments c =
     (if \<not> MatchString dns1123LabelRegex (TridentPodNamespace c) then
        Some (squote @ TridentPodNamespace c @ squote @ '' is not a valid namespace name; '' @
              labelFormat)
      else if \<not> MatchString dns1123DomainRegex (pvcName c) then
        Some (squote @ pvcName c @ squote @ '' is not a valid PVC name; '' @ subdomainFormat)
      else if \<not> MatchString dns1123DomainRegex (pvName c) then
        Some (squote @ pvName c @ squote @ '' is not a valid PV name; '' @ subdomainFormat)
      else None)"

section \<open>Manifest generation\<close>

definition cleanYAMLFiles :: "unit action" where
  "cleanYAMLFiles =
     (\<lambda>s. (Inr (),
        map Remove [namespacePath, serviceAccountPath, clusterRolePath, clusterRoleBindingPath,
                    pvcPath, deploymentPath, csiServicePath, csiStatefulSetPath,
                    csiDaemonSetPath], s))"

definition writeFile :: "world \<Rightarrow> string \<Rightarrow> path \<Rightarrow> yaml \<Rightarrow> unit action" where
  "writeFile w what p y =
     andThen (attempt w (WriteFile p y)) (\<lambda>err.
       case err of
         Some e \<Rightarrow> failWith (''could not write '' @ what @ '' YAML file; '' @ e)
       | None \<Rightarrow> succeed ())"

definition prepareYAMLFiles :: "config \<Rightarrow> world \<Rightarrow> unit action" where
  "prepareYAMLFiles c w =
     andThen cleanYAMLFiles (\<lambda>_.
     andThen (writeFile w ''namespace'' namespacePath (GetNamespaceYAML (TridentPodNamespace c))) (\<lambda>_.
     andThen (writeFile w ''service account'' serviceAccountPath (GetServiceAccountYAML False)) (\<lambda>_.
     andThen (writeFile w ''cluster role'' clusterRolePath
                (GetClusterRoleYAML (Flavor w) (Version w) False)) (\<lambda>_.
     andThen (writeFile w ''cluster role binding'' clusterRoleBindingPath
                (GetClusterRoleBindingYAML (TridentPodNamespace c) (Flavor w) (Version w) False)) (\<lambda>_.
     andThen (writeFile w ''PVC'' pvcPath
                (GetPVCYAML (pvcName c) (TridentPodNamespace c) (volumeSize c) (appLabelValue c))) (\<lambda>_.
     writeFile w ''deployment'' deploymentPath
       (GetDeploymentYAML (pvcName c) (tridentImage c) (etcdImage c) (appLabelValue c) (Debug c))))))))"

definition prepareCSIYAMLFiles :: "config \<Rightarrow> world \<Rightarrow> unit action" where
  "prepareCSIYAMLFiles c w =
     andThen cleanYAMLFiles (\<lambda>_.
     andThen (writeFile w ''namespace'' namespacePath (GetNamespaceYAML (TridentPodNamespace c))) (\<lambda>_.
     andThen (writeFile w ''service account'' serviceAccountPath (GetServiceAccountYAML True)) (\<lambda>_.
     andThen (writeFile w ''cluster role'' clusterRolePath
                (GetClusterRoleYAML (Flavor w) (Version w) True)) (\<lambda>_.
     andThen (writeFile w ''cluster role binding'' clusterRoleBindingPath
                (GetClusterRoleBindingYAML (TridentPodNamespace c) (Flavor w) (Version w) True)) (\<lambda>_.
     andThen (writeFile w ''PVC'' pvcPath
                (GetPVCYAML (pvcName c) (TridentPodNamespace c) (volumeSize c) (appLabelValue c))) (\<lambda>_.
     andThen (writeFile w ''service'' csiServicePath (GetCSIServiceYAML (appLabelValue c))) (\<lambda>_.
     andThen (writeFile w ''statefulset'' csiStatefulSetPath
                (GetCSIStatefulSetYAML (pvcName c) (tridentImage c) (etcdImage c) (appLabelValue c)
                   (Debug c))) (\<lambda>_.
     writeFile w ''daemonset'' csiDaemonSetPath
       (GetCSIDaemonSetYAML (tridentImage c) (TridentNodeLabelValue c) (Debug c))))))))))"

section \<open>Validation of override files\<close>

text \<open>
  The loop over the containers keeps the image of the last container that carries the
  control-plane container's name.
\<close>

definition findTridentImage :: "config \<Rightarrow> (string \<times> string) list \<Rightarrow> string" where
  "findTridentImage c cs =
     foldl (\<lambda>img (name, image). if name = ContainerTrident c then image else img) [] cs"

definition mustHaveLabel :: "string \<Rightarrow> string \<Rightarrow> string \<Rightarrow> string" where
  "mustHaveLabel what k v =
     ''the Trident '' @ what @ '' must have the label '' @ dquote @ k @ '': '' @ v @ dquote"

definition validateTridentDeployment :: "config \<Rightarrow> world \<Rightarrow> string option" where
  "validateTridentDeployment c w =
     (case ReadDeploymentFromFile w deploymentPath of
        Inl err \<Rightarrow> Some (''could not load deployment YAML file; '' @ err)
      | Inr deployment \<Rightarrow>
          if labelAt (objLabels deployment) (appLabelKey c) \<noteq> appLabelValue c then
            Some (mustHaveLabel ''deployment'' (appLabelKey c) (appLabelValue c))
          else if labelAt (templateLabels deployment) (appLabelKey c) \<noteq> appLabelValue c then
            Some (mustHaveLabel (''deployment'' @ squote @ ''s pod template'')
                    (appLabelKey c) (appLabelValue c))
          else if findTridentImage c (containers deployment) = [] then
            Some (''the Trident deployment must define the '' @ ContainerTrident c @ '' container'')
          else None)"

definition validateTridentService :: "config \<Rightarrow> world \<Rightarrow> string option" where
  "validateTridentService c w =
     (case ReadServiceFromFile w csiServicePath of
        Inl err \<Rightarrow> Some (''could not load service YAML file; '' @ err)
      | Inr service \<Rightarrow>
          if labelAt (objLabels service) (appLabelKey c) \<noteq> appLabelValue c then
            Some (mustHaveLabel ''service'' (appLabelKey c) (appLabelValue c))
          else None)"

definition validateTridentStatefulSet :: "config \<Rightarrow> world \<Rightarrow> string option" where
  "validateTridentStatefulSet c w =
     (case ReadStatefulSetFromFile w csiStatefulSetPath of
        Inl err \<Rightarrow> Some (''could not load statefulset YAML file; '' @ err)
      | Inr statefulset \<Rightarrow>
          if labelAt (objLabels statefulset) (appLabelKey c) \<noteq> appLabelValue c then
            Some (mustHaveLabel ''statefulset'' (appLabelKey c) (appLabelValue c))
          else if labelAt (templateLabels statefulset) (appLabelKey c) \<noteq> appLabelValue c then
            Some (mustHaveLabel (''statefulset'' @ squote @ ''s pod template'')
                    (appLabelKey c) (appLabelValue c))
          else if findTridentImage c (containers statefulset) = [] then
            Some (''the Trident statefulset must define the '' @ ContainerTrident c @ '' container'')
          else None)"

definition validateTridentDaemonSet :: "config \<Rightarrow> world \<Rightarrow> string option" where
  "validateTridentDaemonSet c w =
     (case ReadDaemonSetFromFile w csiDaemonSetPath of
        Inl err \<Rightarrow> Some (''could not load daemonset YAML file; '' @ err)
      | Inr daemonset \<Rightarrow>
          if labelAt (objLabels daemonset) (TridentNodeLabelKey c) \<noteq> TridentNodeLabelValue c then
            Some (mustHaveLabel ''daemonset'' (appLabelKey c) (appLabelValue c))
          else if labelAt (templateLabels daemonset) (TridentNodeLabelKey c) \<noteq>
                  TridentNodeLabelValue c then
            Some (mustHaveLabel (''daemonset'' @ squote @ ''s pod template'')
                    (appLabelKey c) (appLabelValue c))
          else if findTridentImage c (containers daemonset) = [] then
            Some (''the Trident daemonset must define the '' @ ContainerTrident c @ '' container'')
          else None)"

definition validateTridentPVC :: "config \<Rightarrow> world \<Rightarrow> string option" where
  "validateTridentPVC c w =
     (case ReadPVCFromFile w pvcPath of
        Inl err \<Rightarrow> Some (''could not load PVC YAML file; '' @ err)
      | Inr claim \<Rightarrow>
          if labelAt (pvcLabels claim) (appLabelKey c) \<noteq> appLabelValue c then
            Some (mustHaveLabel ''PVC'' (appLabelKey c) (appLabelValue c))
          else if pvcName' claim \<noteq> pvcName c then
            Some (''the Trident PVC must be named '' @ pvcName c)
          else if pvcNamespace claim \<noteq> TridentPodNamespace c then
            Some (''the Trident PVC must specify namespace '' @ TridentPodNamespace c)
          else None)"

section \<open>The storage driver\<close>

definition stat :: "world \<Rightarrow> path \<Rightarrow> string option action" where
  "stat w p = (\<lambda>s. (Inr (StatNotExist w p), [Stat p], s))"

definition readFile :: "world \<Rightarrow> path \<Rightarrow> (string + string) action" where
  "readFile w p = (\<lambda>s. (Inr (ReadFileResult w p), [ReadFile p], s))"

definition NewStorageBackendForConfig' :: "world \<Rightarrow> string \<Rightarrow> (string + backend) action" where
  "NewStorageBackendForConfig' w config =
     (\<lambda>s. (Inr (NewStorageBackend w config), [NewStorageBackendForConfig config], s))"

text \<open>
  \<open>StatNotExist w p\<close> is the error of \<open>os.Stat\<close> when \<open>os.IsNotExist\<close> holds of it;
  any other outcome of \<open>os.Stat\<close> lets the function continue.
\<close>

definition loadStorageDriver :: "config \<Rightarrow> world \<Rightarrow> backend action" where
  "loadStorageDriver c w =
     andThen (stat w setupPath) (\<lambda>err1.
       case err1 of
         Some e \<Rightarrow> failWith (''setup directory does not exist; '' @ e)
       | None \<Rightarrow>
     andThen (stat w backendConfigFilePath) (\<lambda>err2.
       case err2 of
         Some e \<Rightarrow> failWith (''storage backend config file does not exist; '' @ e)
       | None \<Rightarrow>
     andThen (readFile w backendConfigFilePath) (\<lambda>r.
       case r of
         Inl e \<Rightarrow> failWith (''could not read the storage backend config file; '' @ e)
       | Inr configFileBytes \<Rightarrow>
     andThen (NewStorageBackendForConfig' w configFileBytes) (\<lambda>b.
       case b of
         Inl e \<Rightarrow> failWith (''could not start the storage backend driver; '' @ e)
       | Inr backend \<Rightarrow> succeed backend))))"

section \<open>RBAC objects\<close>

definition createRBACObjects :: "config \<Rightarrow> world \<Rightarrow> unit action" where
  "createRBACObjects c w =
     andThen (if useYAML c \<and> fileExists w serviceAccountPath
              then attempt w (CreateObjectByFile serviceAccountPath)
              else attempt w (CreateObjectByYAML (GetServiceAccountYAML (csi c)))) (\<lambda>err.
       case err of
         Some e \<Rightarrow> failWith (''could not create service account; '' @ e)
       | None \<Rightarrow>
     if useKubernetesRBAC c then
       andThen (if useYAML c \<and> fileExists w clusterRolePath
                then attempt w (CreateObjectByFile clusterRolePath)
                else attempt w (CreateObjectByYAML
                       (GetClusterRoleYAML (Flavor w) (Version w) (csi c)))) (\<lambda>err.
         case err of
           Some e \<Rightarrow> failWith (''could not create cluster role; '' @ e)
         | None \<Rightarrow>
       andThen (if useYAML c \<and> fileExists w clusterRoleBindingPath
                then attempt w (CreateObjectByFile clusterRoleBindingPath)
                else attempt w (CreateObjectByYAML
                       (GetClusterRoleBindingYAML (TridentPodNamespace c) (Flavor w) (Version w)
                          (csi c)))) (\<lambda>err.
         case err of
           Some e \<Rightarrow> failWith (''could not create cluster role binding; '' @ e)
         | None \<Rightarrow>
       if Flavor w = FlavorOpenShift then
         andThen (attempt w AddTridentUserToOpenShiftSCC) (\<lambda>err.
           case err of
             Some e \<Rightarrow> failWith (''could not modify security context constraint; '' @ e)
           | None \<Rightarrow> succeed ())
       else succeed ()))
     else
       andThen (attempt w CreateTridentRole) (\<lambda>clientError.
         case clientError of
           Some e \<Rightarrow> failWith (''could not create Trident UCP role; '' @ e)
         | None \<Rightarrow>
       andThen (attempt w (AddTridentRoleToServiceAccount (TridentPodNamespace c))) (\<lambda>clientError.
         case clientError of
           Some e \<Rightarrow> failWith (''could not add Trident UCP role to service account; '' @ e)
         | None \<Rightarrow> succeed ())))"

definition warnIf :: "bool \<Rightarrow> string \<Rightarrow> unit action" where
  "warnIf b m = (if b then warn m else succeed ())"

text \<open>
  The result is the flag \<open>anyErrors\<close>. In the branch of the external authorization
  service the two assignments \<open>anyErrors = true\<close> are commented out in the source.
\<close>

definition removeRBACObjects :: "config \<Rightarrow> world \<Rightarrow> bool action" where
  "removeRBACObjects c w =
     andThen
       (if useKubernetesRBAC c then
          andThen (attempt w (DeleteObjectByYAML
                     (GetClusterRoleBindingYAML (TridentPodNamespace c) (Flavor w) (Version w)
                        (csi c)) True)) (\<lambda>err1.
          andThen (warnIf (err1 \<noteq> None) ''Could not delete cluster role binding.'') (\<lambda>_.
          andThen (attempt w (DeleteObjectByYAML
                     (GetClusterRoleYAML (Flavor w) (Version w) (csi c)) True)) (\<lambda>err2.
          andThen (warnIf (err2 \<noteq> None) ''Could not delete cluster role.'') (\<lambda>_.
          succeed (err1 \<noteq> None \<or> err2 \<noteq> None)))))
        else
          andThen (attempt w (RemoveTridentRoleFromServiceAccount (TridentPodNamespace c)))
            (\<lambda>clientError1.
          andThen (warnIf (clientError1 \<noteq> None)
                     ''Could not remove Trident UCP role from service account'') (\<lambda>_.
          andThen (attempt w DeleteTridentRole) (\<lambda>clientError2.
          andThen (warnIf (clientError2 \<noteq> None) ''could not delete Trident UCP role'') (\<lambda>_.
          succeed False)))))
       (\<lambda>anyErrors.
     andThen (attempt w (DeleteObjectByYAML (GetServiceAccountYAML (csi c)) True)) (\<lambda>err3.
     andThen (warnIf (err3 \<noteq> None) ''Could not delete service account.'') (\<lambda>_.
     if useKubernetesRBAC c \<and> Flavor w = FlavorOpenShift then
       andThen (attempt w RemoveTridentUserFromOpenShiftSCC) (\<lambda>err4.
       andThen (warnIf (err4 \<noteq> None) ''Could not modify security context constraint.'') (\<lambda>_.
       succeed (anyErrors \<or> err3 \<noteq> None \<or> err4 \<noteq> None)))
     else succeed (anyErrors \<or> err3 \<noteq> None))))"

section \<open>The bootstrap volume\<close>

text \<open>The creation of the secret that holds a volume's session credentials.\<close>

definition chapSecretOf :: "volume \<Rightarrow> event" where
  "chapSecretOf v =
     CreateObjectByYAML (GetCHAPSecretYAML (CHAPSecretName v) (IscsiUsername v)
       (IscsiInitiatorSecret v) (IscsiTargetSecret v))"

definition createCHAPSecret :: "config \<Rightarrow> world \<Rightarrow> volume \<Rightarrow> string action" where
  "createCHAPSecret c w volume =
     (let secretName = CHAPSecretName volume in
      andThen (CheckSecretExists w secretName) (\<lambda>r.
        case r of
          Inl e \<Rightarrow> failWith (''could not check for existing iSCSI CHAP secret; '' @ e)
        | Inr secretExists \<Rightarrow>
            if \<not> secretExists then
              andThen (attempt w (CreateObjectByYAML
                         (GetCHAPSecretYAML secretName (IscsiUsername volume)
                            (IscsiInitiatorSecret volume) (IscsiTargetSecret volume)))) (\<lambda>err.
                case err of
                  Some e \<Rightarrow> failWith (''could not create CHAP secret; '' @ e)
                | None \<Rightarrow> succeed secretName)
            else succeed secretName))"

text \<open>The \<open>switch\<close> of \<open>createPV\<close> that chooses the manifest by the volume's access information.\<close>

definition getPVYAML :: "config \<Rightarrow> world \<Rightarrow> volume \<Rightarrow> yaml action" where
  "getPVYAML c w volume =
     (if NfsServerIP volume \<noteq> [] then
        succeed (GetNFSPVYAML (pvName c) (volumeSize c) (pvcName c) (TridentPodNamespace c)
                   (NfsServerIP volume) (NfsPath volume) (appLabelValue c))
      else if IscsiTargetPortal volume \<noteq> [] then
        (if IscsiTargetSecret volume \<noteq> [] then
           (if \<not> AtLeast (Version w) (1, 7, 0) then
              failWith ''iSCSI CHAP requires Kubernetes 1.7.0 or later''
            else
              andThen (createCHAPSecret c w volume) (\<lambda>secretName.
                succeed (GetCHAPISCSIPVYAML (pvName c) (volumeSize c) (pvcName c)
                           (TridentPodNamespace c) secretName (IscsiTargetPortal volume)
                           (IscsiTargetIQN volume) (IscsiLunNumber volume) (appLabelValue c))))
         else
           succeed (GetISCSIPVYAML (pvName c) (volumeSize c) (pvcName c) (TridentPodNamespace c)
                      (IscsiTargetPortal volume) (IscsiTargetIQN volume) (IscsiLunNumber volume)
                      (appLabelValue c)))
      else failWith ''unrecognized volume type'')"

definition addVolume :: "backend \<Rightarrow> volumeConfig \<Rightarrow> string \<Rightarrow> (string + volume) action" where
  "addVolume sb volConfig pool =
     (\<lambda>s. (Inr (AddVolume sb volConfig pool), [BackendAddVolume volConfig pool], s))"

text \<open>The volume config that \<open>createPV\<close> creates.\<close>

definition volConfigOf :: "config \<Rightarrow> backend \<Rightarrow> volumeConfig" where
  "volConfigOf c sb =
     \<lparr>vcVersion = ''1'', vcName = volumeName c, vcSize = volumeSize c,
      vcProtocol = GetProtocol sb\<rparr>"

definition createPV :: "config \<Rightarrow> world \<Rightarrow> backend \<Rightarrow> unit action" where
  "createPV c w sb =
     (case Storage sb of
        [] \<Rightarrow> failWith (''backend '' @ backendName sb @ '' has no storage pools'')
      | pool # _ \<Rightarrow>
          (let volConfig = volConfigOf c sb in
           andThen (addVolume sb volConfig pool) (\<lambda>r.
             case r of
               Inl e \<Rightarrow> failWith (''could not create a volume on the storage backend; '' @ e)
             | Inr volume \<Rightarrow>
           andThen (getPVYAML c w volume) (\<lambda>pvYAML.
           andThen (attempt w (CreateObjectByYAML pvYAML)) (\<lambda>err.
             case err of
               Some e \<Rightarrow> failWith (''could not create PV '' @ pvName c @ ''; '' @ e)
             | None \<Rightarrow> succeed ())))))"

section \<open>Readiness waits\<close>

definition checkPVCBound :: "config \<Rightarrow> world \<Rightarrow> nat \<Rightarrow> string + unit" where
  "checkPVCBound c w i =
     (case CheckPVCBound w (pvcName c) i of
        Inl e \<Rightarrow> Inl ''PVC not bound''
      | Inr bound \<Rightarrow> if \<not> bound then Inl ''PVC not bound'' else Inr ())"

text \<open>
  The wait for the claim. \<open>k8sTimeout\<close> is a \<open>time.Duration\<close>, a count of nanoseconds,
  and the message formats it with \<open>%d\<close>.
\<close>

definition waitForPVCBound :: "config \<Rightarrow> world \<Rightarrow> unit action" where
  "waitForPVCBound c w =
     (case checkPVCBound c w 0 of
        Inr _ \<Rightarrow> succeed ()
      | Inl checkError \<Rightarrow>
          (case RetryNotify (checkPVCBound c w) 1 (k8sTimeout c) (backoffAttempts w) of
             None \<Rightarrow> neverReturns
           | Some (Inl err) \<Rightarrow>
               failWith (''PVC '' @ pvcName c @ '' was not bound after '' @
                         showInt (k8sTimeout c) @ '' seconds'')
           | Some (Inr _) \<Rightarrow> succeed ()))"

definition checkPodRunning :: "config \<Rightarrow> world \<Rightarrow> nat \<Rightarrow> string + pod" where
  "checkPodRunning c w i =
     (case GetPodByLabel w (appLabel c) i of
        Inl podError \<Rightarrow> Inl ''pod not running''
      | Inr p \<Rightarrow> if podPhase p \<noteq> PodRunning then Inl ''pod not running'' else Inr p)"

text \<open>
  The two later waits return the error of \<open>RetryNotify\<close> itself; the sentence with the
  timeout (formatted with \<open>%3.2f\<close> from \<open>k8sTimeout.Seconds()\<close>) goes to the error log
  only, which is not part of the model.
\<close>

definition waitForTridentPod :: "config \<Rightarrow> world \<Rightarrow> pod action" where
  "waitForTridentPod c w =
     (case RetryNotify (checkPodRunning c w) 0 (k8sTimeout c) (backoffAttempts w) of
        None \<Rightarrow> neverReturns
      | Some (Inl err) \<Rightarrow> failWith err
      | Some (Inr p) \<Rightarrow> succeed p)"

definition checkRESTInterface :: "world \<Rightarrow> string \<Rightarrow> nat \<Rightarrow> string + string" where
  "checkRESTInterface w TridentPodName i =
     (case Exec w TridentPodName i of
        (versionJSON, Some err) \<Rightarrow>
          Inl (if versionJSON \<noteq> [] then err @ ''; '' @ TrimSpace versionJSON else err)
      | (versionJSON, None) \<Rightarrow> UnmarshalVersion w versionJSON)"

definition waitForRESTInterface :: "config \<Rightarrow> world \<Rightarrow> string \<Rightarrow> unit action" where
  "waitForRESTInterface c w TridentPodName =
     (case RetryNotify (checkRESTInterface w TridentPodName) 0 (k8sTimeout c)
             (backoffAttempts w) of
        None \<Rightarrow> neverReturns
      | Some (Inl err) \<Rightarrow> failWith err
      | Some (Inr version) \<Rightarrow> succeed ())"

section \<open>The installer\<close>

text \<open>
  \<open>installTrident\<close>, block by block in the order of the source. The first group of
  blocks are the checks made before anything is changed; they yield the values of the
  local variables \<open>namespaceExists\<close>, \<open>pvcExists\<close>, \<open>pvExists\<close> and \<open>storageBackend\<close>.
\<close>

definition validateVolumeSize :: "config \<Rightarrow> world \<Rightarrow> int action" where
  "validateVolumeSize c w =
     (case ParseQuantity w (volumeSize c) of
        Inl err \<Rightarrow>
          failWith (''volume-size '' @ squote @ volumeSize c @ squote @ '' is invalid; '' @ err)
      | Inr pvRequestedQuantity \<Rightarrow> succeed pvRequestedQuantity)"

definition ensureNotInstalled :: "config \<Rightarrow> world \<Rightarrow> unit action" where
  "ensureNotInstalled c w =
     (if \<not> csi c then
        (case isTridentInstalled w of
           Inl err \<Rightarrow> failWith (''could not check if Trident deployment exists; '' @ err)
         | Inr (installed, namespace) \<Rightarrow>
             if installed then
               failWith (''Trident is already installed in namespace '' @ namespace)
             else succeed ())
      else
        (if \<not> AtLeast (Version w) (KubernetesCSIVersionMin c) then
           failWith (''CSI Trident requires Kubernetes '' @
                     ShortString w (KubernetesCSIVersionMin c) @ '' or later'')
         else
           (case isCSITridentInstalled w of
              Inl err \<Rightarrow> failWith (''could not check if Trident statefulset exists; '' @ err)
            | Inr (installed, namespace) \<Rightarrow>
                if installed then
                  failWith (''CSI Trident is already installed in namespace '' @ namespace)
                else
                  warn (''CSI Trident for Kubernetes is a technology preview '' @
                        ''and should not be installed in production environments!''))))"

definition checkNamespace :: "config \<Rightarrow> world \<Rightarrow> bool action" where
  "checkNamespace c w =
     (case CheckNamespaceExists w (TridentPodNamespace c) of
        Inl err \<Rightarrow>
          failWith (''could not check if namespace '' @ TridentPodNamespace c @ '' exists; '' @ err)
      | Inr namespaceExists \<Rightarrow> succeed namespaceExists)"

definition checkPVC :: "config \<Rightarrow> world \<Rightarrow> bool action" where
  "checkPVC c w =
     (case CheckPVCExists w (pvcName c) of
        Inl err \<Rightarrow>
          failWith (''could not establish the presence of PVC '' @ pvcName c @ ''; '' @ err)
      | Inr pvcExists \<Rightarrow>
          if pvcExists then
            (case GetPVC w (pvcName c) of
               Inl err \<Rightarrow> failWith (''could not retrieve PVC '' @ pvcName c @ ''; '' @ err)
             | Inr claim \<Rightarrow>
                 if pvcPhase claim = ClaimLost then
                   failWith (''PVC '' @ pvcName c @
                             '' phase is Lost; please delete it and try again'')
                 else if pvcPhase claim = ClaimBound \<and> pvcVolumeName claim \<noteq> pvName c then
                   failWith (''PVC '' @ pvcName c @ '' is Bound, but not to PV '' @ pvName c @
                             ''; please specify a different PV and/or PVC'')
                 else if pvcLabels claim = None \<or>
                         labelAt (pvcLabels claim) (appLabelKey c) \<noteq> appLabelValue c then
                   failWith (''PVC '' @ pvcName c @ '' does not have '' @ appLabel c @
                             '' label; please add label or delete PVC and try again'')
                 else succeed pvcExists)
          else succeed pvcExists)"

definition checkPV :: "config \<Rightarrow> world \<Rightarrow> int \<Rightarrow> bool action" where
  "checkPV c w pvRequestedQuantity =
     (case CheckPVExists w (pvName c) of
        Inl err \<Rightarrow>
          failWith (''could not establish the presence of PV '' @ pvName c @ ''; '' @ err)
      | Inr pvExists \<Rightarrow>
          if pvExists then
            (case GetPV w (pvName c) of
               Inl err \<Rightarrow> failWith (''could not retrieve PV '' @ pvName c @ ''; '' @ err)
             | Inr vol \<Rightarrow>
                 if pvPhase vol = VolumeReleased then
                   failWith (''PV '' @ pvName c @
                             '' phase is Released; please delete it and try again'')
                 else if pvPhase vol = VolumeFailed then
                   failWith (''PV '' @ pvName c @
                             '' phase is Failed; please delete it and try again'')
                 else if pvPhase vol = VolumeBound \<and> pvClaimRef vol \<noteq> None \<and>
                         fst (the (pvClaimRef vol)) \<noteq> pvcName c then
                   failWith (''PV '' @ pvName c @ '' is Bound, but not to PVC '' @ pvcName c @
                             ''; please delete PV and try again'')
                 else if pvPhase vol = VolumeBound \<and> pvClaimRef vol \<noteq> None \<and>
                         snd (the (pvClaimRef vol)) \<noteq> TridentPodNamespace c then
                   failWith (''PV '' @ pvName c @ '' is Bound to a PVC in namespace '' @
                             snd (the (pvClaimRef vol)) @ ''; please delete PV and try again'')
                 else if pvLabels vol = None \<or>
                         labelAt (pvLabels vol) (appLabelKey c) \<noteq> appLabelValue c then
                   failWith (''PV '' @ pvName c @ '' does not have '' @ appLabel c @
                             '' label; please add label or delete PV and try again'')
                 else
                   andThen
                     (case pvCapacityStorage vol of
                        None \<Rightarrow> warn ''Could not determine size of existing PV.''
                      | Some pvActualQuantity \<Rightarrow>
                          warnIf (pvRequestedQuantity \<noteq> pvActualQuantity)
                            ''Existing PV size does not match request.'')
                     (\<lambda>_. succeed pvExists))
          else succeed pvExists)"

definition existenceChecks :: "config \<Rightarrow> world \<Rightarrow> (bool \<times> bool \<times> bool) action" where
  "existenceChecks c w =
     andThen (validateVolumeSize c w) (\<lambda>pvRequestedQuantity.
     andThen (ensureNotInstalled c w) (\<lambda>_.
     andThen (checkNamespace c w) (\<lambda>namespaceExists.
     andThen (checkPVC c w) (\<lambda>pvcExists.
     andThen (checkPV c w pvRequestedQuantity) (\<lambda>pvExists.
     succeed (namespaceExists, pvcExists, pvExists))))))"

text \<open>
  If the volume does not exist the driver is loaded, to detect any problems before the
  installation steps start.
\<close>

definition loadDriverIfNeeded :: "config \<Rightarrow> world \<Rightarrow> bool \<Rightarrow> backend option action" where
  "loadDriverIfNeeded c w pvExists =
     (if \<not> pvExists then
        andThen (loadStorageDriver c w) (\<lambda>storageBackend. succeed (Some storageBackend))
      else succeed None)"

definition preChecks ::
  "config \<Rightarrow> world \<Rightarrow> (bool \<times> bool \<times> bool \<times> backend option) action" where
  "preChecks c w =
     andThen (existenceChecks c w) (\<lambda>found.
       case found of (namespaceExists, pvcExists, pvExists) \<Rightarrow>
         andThen (loadDriverIfNeeded c w pvExists) (\<lambda>storageBackend.
           succeed (namespaceExists, pvcExists, pvExists, storageBackend)))"

text \<open>The blocks that change the cluster.\<close>

definition createNamespace :: "config \<Rightarrow> world \<Rightarrow> bool \<Rightarrow> unit action" where
  "createNamespace c w namespaceExists =
     (if \<not> namespaceExists then
        andThen (if useYAML c \<and> fileExists w namespacePath
                 then attempt w (CreateObjectByFile namespacePath)
                 else attempt w (CreateObjectByYAML (GetNamespaceYAML (TridentPodNamespace c))))
          (\<lambda>err.
            case err of
              Some e \<Rightarrow>
                failWith (''could not create namespace '' @ TridentPodNamespace c @ ''; '' @ e)
            | None \<Rightarrow> succeed ())
      else succeed ())"

definition couldNotRemove :: string where
  "couldNotRemove =
     ''could not remove one or more previous Trident artifacts; '' @
     ''please delete them manually and try again''"

definition replaceRBACObjects :: "config \<Rightarrow> world \<Rightarrow> unit action" where
  "replaceRBACObjects c w =
     andThen (removeRBACObjects c w) (\<lambda>anyCleanupErrors.
       if anyCleanupErrors then failWith couldNotRemove
       else createRBACObjects c w)"

definition createPVC :: "config \<Rightarrow> world \<Rightarrow> bool \<Rightarrow> unit action" where
  "createPVC c w pvcExists =
     (if \<not> pvcExists then
        (if useYAML c \<and> fileExists w pvcPath then
           (case validateTridentPVC c w of
              Some e \<Rightarrow> failWith (''please correct the PVC YAML file; '' @ e)
            | None \<Rightarrow>
                andThen (attempt w (CreateObjectByFile pvcPath)) (\<lambda>err.
                  case err of
                    Some e \<Rightarrow> failWith (''could not create PVC '' @ pvcName c @ ''; '' @ e)
                  | None \<Rightarrow> succeed ()))
         else
           andThen (attempt w (CreateObjectByYAML
                      (GetPVCYAML (pvcName c) (TridentPodNamespace c) (volumeSize c)
                         (appLabelValue c)))) (\<lambda>err.
             case err of
               Some e \<Rightarrow> failWith (''could not create PVC '' @ pvcName c @ ''; '' @ e)
             | None \<Rightarrow> succeed ()))
      else succeed ())"

text \<open>
  \<open>storageBackend\<close> is \<open>nil\<close> only when the volume exists, so the dereference of a
  \<open>nil\<close> backend in \<open>createPV\<close> (a panic) is never reached from \<open>installTrident\<close>.
\<close>

definition createPVIfNecessary :: "config \<Rightarrow> world \<Rightarrow> bool \<Rightarrow> backend option \<Rightarrow> unit action" where
  "createPVIfNecessary c w pvExists storageBackend =
     (if \<not> pvExists then
        (case storageBackend of
           None \<Rightarrow> failWith ''panic: invalid memory address or nil pointer dereference''
         | Some sb \<Rightarrow>
             wrapError (\<lambda>e. ''could not create PV '' @ pvName c @ ''; '' @ e) (createPV c w sb))
      else succeed ())"

definition createDeployment :: "config \<Rightarrow> world \<Rightarrow> unit action" where
  "createDeployment c w =
     (if useYAML c \<and> fileExists w deploymentPath then
        (case validateTridentDeployment c w of
           Some e \<Rightarrow> failWith (''please correct the deployment YAML file; '' @ e)
         | None \<Rightarrow>
             andThen (attempt w (CreateObjectByFile deploymentPath)) (\<lambda>err.
               case err of
                 Some e \<Rightarrow> failWith (''could not create Trident deployment; '' @ e)
               | None \<Rightarrow> succeed ()))
      else
        andThen (attempt w (CreateObjectByYAML
                   (GetDeploymentYAML (pvcName c) (tridentImage c) (etcdImage c) (appLabelValue c)
                      (Debug c)))) (\<lambda>err.
          case err of
            Some e \<Rightarrow> failWith (''could not create Trident deployment; '' @ e)
          | None \<Rightarrow> succeed ()))"

definition createService :: "config \<Rightarrow> world \<Rightarrow> unit action" where
  "createService c w =
     (if useYAML c \<and> fileExists w csiServicePath then
        (case validateTridentService c w of
           Some e \<Rightarrow> failWith (''please correct the service YAML file; '' @ e)
         | None \<Rightarrow>
             andThen (attempt w (CreateObjectByFile csiServicePath)) (\<lambda>err.
               case err of
                 Some e \<Rightarrow> failWith (''could not create Trident service; '' @ e)
               | None \<Rightarrow> succeed ()))
      else
        andThen (attempt w (CreateObjectByYAML (GetCSIServiceYAML (appLabelValue c)))) (\<lambda>err.
          case err of
            Some e \<Rightarrow> failWith (''could not create Trident service; '' @ e)
          | None \<Rightarrow> succeed ()))"

definition createStatefulSet :: "config \<Rightarrow> world \<Rightarrow> unit action" where
  "createStatefulSet c w =
     (if useYAML c \<and> fileExists w csiStatefulSetPath then
        (case validateTridentStatefulSet c w of
           Some e \<Rightarrow> failWith (''please correct the statefulset YAML file; '' @ e)
         | None \<Rightarrow>
             andThen (attempt w (CreateObjectByFile csiStatefulSetPath)) (\<lambda>err.
               case err of
                 Some e \<Rightarrow> failWith (''could not create Trident statefulset; '' @ e)
               | None \<Rightarrow> succeed ()))
      else
        andThen (attempt w (CreateObjectByYAML
                   (GetCSIStatefulSetYAML (pvcName c) (tridentImage c) (etcdImage c)
                      (appLabelValue c) (Debug c)))) (\<lambda>err.
          case err of
            Some e \<Rightarrow> failWith (''could not create Trident statefulset; '' @ e)
          | None \<Rightarrow> succeed ()))"

definition createDaemonSet :: "config \<Rightarrow> world \<Rightarrow> unit action" where
  "createDaemonSet c w =
     (if useYAML c \<and> fileExists w csiDaemonSetPath then
        (case validateTridentDaemonSet c w of
           Some e \<Rightarrow> failWith (''please correct the daemonset YAML file; '' @ e)
         | None \<Rightarrow>
             andThen (attempt w (CreateObjectByFile csiDaemonSetPath)) (\<lambda>err.
               case err of
                 Some e \<Rightarrow> failWith (''could not create Trident daemonset; '' @ e)
               | None \<Rightarrow> succeed ()))
      else
        andThen (attempt w (CreateObjectByYAML
                   (GetCSIDaemonSetYAML (tridentImage c) (TridentNodeLabelValue c) (Debug c)))) (\<lambda>err.
          case err of
            Some e \<Rightarrow> failWith (''could not create Trident daemonset; '' @ e)
          | None \<Rightarrow> succeed ()))"

definition createWorkloads :: "config \<Rightarrow> world \<Rightarrow> unit action" where
  "createWorkloads c w =
     (if \<not> csi c then createDeployment c w
      else
        andThen (createService c w) (\<lambda>_.
        andThen (createStatefulSet c w) (\<lambda>_.
        createDaemonSet c w)))"

definition waitForTrident :: "config \<Rightarrow> world \<Rightarrow> unit action" where
  "waitForTrident c w =
     andThen (waitForTridentPod c w) (\<lambda>tridentPod.
       wrapError (\<lambda>e. e @ ''; use '' @ squote @ ''tridentctl logs'' @ squote @ '' to learn more'')
         (waitForRESTInterface c w (podName tridentPod)))"

definition installSteps ::
  "config \<Rightarrow> world \<Rightarrow> bool \<times> bool \<times> bool \<times> backend option \<Rightarrow> unit action" where
  "installSteps c w locals =
     (case locals of (namespaceExists, pvcExists, pvExists, storageBackend) \<Rightarrow>
        andThen (createNamespace c w namespaceExists) (\<lambda>_.
        andThen (replaceRBACObjects c w) (\<lambda>_.
        andThen (createPVC c w pvcExists) (\<lambda>_.
        andThen (createPVIfNecessary c w pvExists storageBackend) (\<lambda>_.
        andThen (waitForPVCBound c w) (\<lambda>_.
        andThen (createWorkloads c w) (\<lambda>_.
        waitForTrident c w)))))))"

definition installTrident :: "config \<Rightarrow> world \<Rightarrow> unit action" where
  "installTrident c w =
     andThen (preChecks c w) (\<lambda>locals.
       if dryRun c then succeed ()
       else installSteps c w locals)"

text \<open>
  The \<open>install\<close> command after the discovery of the environment: \<open>PersistentPreRun\<close>
  processes and validates the arguments, \<open>Run\<close> generates the manifests or installs. A
  failure is fatal (\<open>log.Fatalf\<close>), with the message returned here.
\<close>

definition installCmd :: "config \<Rightarrow> world \<Rightarrow> unit action" where
  "installCmd c0 w =
     (let c = processInstallationArguments c0 in
      case validateInstallationArguments c of
        Some err \<Rightarrow> failWith (''Invalid arguments; '' @ err)
      | None \<Rightarrow>
          if generateYAML c then
            wrapError (\<lambda>e. ''YAML generation failed; '' @ e)
              (if csi c then prepareCSIYAMLFiles c w else prepareYAMLFiles c w)
          else
            wrapError (\<lambda>e. ''Install failed; '' @ e @ ''.  Resolve the issue; use '' @ squote @
                             ''tridentctl uninstall'' @ squote @ '' to clean up; and try again.'')
              (installTrident c w))"

section \<open>Classes of events\<close>

text \<open>
  An event changes something outside the installer unless it is a read of the file
  system, the start of the driver, or a warning.
\<close>

fun isMutation :: "event \<Rightarrow> bool" where
  "isMutation (Stat p) = False"
| "isMutation (ReadFile p) = False"
| "isMutation (NewStorageBackendForConfig config) = False"
| "isMutation (Warning m) = False"
| "isMutation ev = True"

text \<open>The calls through which \<open>loadStorageDriver\<close> reads the backend configuration.\<close>

fun isDriverLoad :: "event \<Rightarrow> bool" where
  "isDriverLoad (Stat p) = True"
| "isDriverLoad (ReadFile p) = True"
| "isDriverLoad (NewStorageBackendForConfig config) = True"
| "isDriverLoad ev = False"

text \<open>Creation of an RBAC object, and an attempt to remove one.\<close>

fun isRBACCreate :: "event \<Rightarrow> bool" where
  "isRBACCreate (CreateObjectByYAML (GetServiceAccountYAML b)) = True"
| "isRBACCreate (CreateObjectByYAML (GetClusterRoleYAML f v b)) = True"
| "isRBACCreate (CreateObjectByYAML (GetClusterRoleBindingYAML n f v b)) = True"
| "isRBACCreate (CreateObjectByFile p) =
     (p = serviceAccountPath \<or> p = clusterRolePath \<or> p = clusterRoleBindingPath)"
| "isRBACCreate AddTridentUserToOpenShiftSCC = True"
| "isRBACCreate CreateTridentRole = True"
| "isRBACCreate (AddTridentRoleToServiceAccount n) = True"
| "isRBACCreate ev = False"

fun isRBACDelete :: "event \<Rightarrow> bool" where
  "isRBACDelete (DeleteObjectByYAML y b) = True"
| "isRBACDelete RemoveTridentUserFromOpenShiftSCC = True"
| "isRBACDelete (RemoveTridentRoleFromServiceAccount n) = True"
| "isRBACDelete DeleteTridentRole = True"
| "isRBACDelete ev = False"

text \<open>Submission of a workload object, and the kind of object submitted.\<close>

datatype workloadKind = Deployment | Service | StatefulSet | DaemonSet

fun workloadKindOf :: "event \<Rightarrow> workloadKind option" where
  "workloadKindOf (CreateObjectByYAML (GetDeploymentYAML a b c d e)) = Some Deployment"
| "workloadKindOf (CreateObjectByYAML (GetCSIServiceYAML a)) = Some Service"
| "workloadKindOf (CreateObjectByYAML (GetCSIStatefulSetYAML a b c d e)) = Some StatefulSet"
| "workloadKindOf (CreateObjectByYAML (GetCSIDaemonSetYAML a b c)) = Some DaemonSet"
| "workloadKindOf (CreateObjectByFile p) =
     (if p = deploymentPath then Some Deployment
      else if p = csiServicePath then Some Service
      else if p = csiStatefulSetPath then Some StatefulSet
      else if p = csiDaemonSetPath then Some DaemonSet
      else None)"
| "workloadKindOf ev = None"

definition isWorkload :: "event \<Rightarrow> bool" where
  "isWorkload ev = (workloadKindOf ev \<noteq> None)"

fun isSecretCreate :: "event \<Rightarrow> bool" where
  "isSecretCreate (CreateObjectByYAML (GetCHAPSecretYAML n u i t)) = True"
| "isSecretCreate ev = False"

fun isBackendAddVolume :: "event \<Rightarrow> bool" where
  "isBackendAddVolume (BackendAddVolume vc pool) = True"
| "isBackendAddVolume ev = False"

text \<open>The remaining kinds of events of an installation.\<close>

fun isWarning :: "event \<Rightarrow> bool" where
  "isWarning (Warning m) = True"
| "isWarning ev = False"

fun isNamespaceCreate :: "event \<Rightarrow> bool" where
  "isNamespaceCreate (CreateObjectByYAML (GetNamespaceYAML n)) = True"
| "isNamespaceCreate (CreateObjectByFile p) = (p = namespacePath)"
| "isNamespaceCreate ev = False"

fun isPVCCreate :: "event \<Rightarrow> bool" where
  "isPVCCreate (CreateObjectByYAML (GetPVCYAML a b c d)) = True"
| "isPVCCreate (CreateObjectByFile p) = (p = pvcPath)"
| "isPVCCreate ev = False"

fun isPVCreate :: "event \<Rightarrow> bool" where
  "isPVCreate (CreateObjectByYAML (GetNFSPVYAML a b c d e f g)) = True"
| "isPVCreate (CreateObjectByYAML (GetISCSIPVYAML a b c d e f g h)) = True"
| "isPVCreate (CreateObjectByYAML (GetCHAPISCSIPVYAML a b c d e f g h i)) = True"
| "isPVCreate ev = False"

text \<open>
  The block of the installer to which an event belongs: the checks (with the loading of
  the driver), the namespace, the RBAC objects, the claim, the volume, the workload
  objects, manifest generation; warnings are logged by several blocks, and no block
  submits the setup directory or the backend configuration as an object.
\<close>

datatype phase =
  Checking | NamespacePhase | RBACPhase | ClaimPhase | VolumePhase | WorkloadPhase
| GenerationPhase | Logging | NoPhase

fun phaseOfYAML :: "yaml \<Rightarrow> phase" where
  "phaseOfYAML (GetNamespaceYAML n) = NamespacePhase"
| "phaseOfYAML (GetServiceAccountYAML b) = RBACPhase"
| "phaseOfYAML (GetClusterRoleYAML f v b) = RBACPhase"
| "phaseOfYAML (GetClusterRoleBindingYAML n f v b) = RBACPhase"
| "phaseOfYAML (GetPVCYAML a b c d) = ClaimPhase"
| "phaseOfYAML (GetDeploymentYAML a b c d e) = WorkloadPhase"
| "phaseOfYAML (GetCSIServiceYAML a) = WorkloadPhase"
| "phaseOfYAML (GetCSIStatefulSetYAML a b c d e) = WorkloadPhase"
| "phaseOfYAML (GetCSIDaemonSetYAML a b c) = WorkloadPhase"
| "phaseOfYAML (GetNFSPVYAML a b c d e f g) = VolumePhase"
| "phaseOfYAML (GetISCSIPVYAML a b c d e f g h) = VolumePhase"
| "phaseOfYAML (GetCHAPISCSIPVYAML a b c d e f g h i) = VolumePhase"
| "phaseOfYAML (GetCHAPSecretYAML a b c d) = VolumePhase"

fun phaseOfPath :: "path \<Rightarrow> phase" where
  "phaseOfPath setupPath = NoPhase"
| "phaseOfPath backendConfigFilePath = NoPhase"
| "phaseOfPath namespacePath = NamespacePhase"
| "phaseOfPath serviceAccountPath = RBACPhase"
| "phaseOfPath clusterRolePath = RBACPhase"
| "phaseOfPath clusterRoleBindingPath = RBACPhase"
| "phaseOfPath pvcPath = ClaimPhase"
| "phaseOfPath deploymentPath = WorkloadPhase"
| "phaseOfPath csiServicePath = WorkloadPhase"
| "phaseOfPath csiStatefulSetPath = WorkloadPhase"
| "phaseOfPath csiDaemonSetPath = WorkloadPhase"

fun phaseOf :: "event \<Rightarrow> phase" where
  "phaseOf (CreateObjectByYAML y) = phaseOfYAML y"
| "phaseOf (CreateObjectByFile p) = phaseOfPath p"
| "phaseOf (DeleteObjectByYAML y b) = RBACPhase"
| "phaseOf AddTridentUserToOpenShiftSCC = RBACPhase"
| "phaseOf RemoveTridentUserFromOpenShiftSCC = RBACPhase"
| "phaseOf CreateTridentRole = RBACPhase"
| "phaseOf (AddTridentRoleToServiceAccount n) = RBACPhase"
| "phaseOf (RemoveTridentRoleFromServiceAccount n) = RBACPhase"
| "phaseOf DeleteTridentRole = RBACPhase"
| "phaseOf (Stat p) = Checking"
| "phaseOf (ReadFile p) = Checking"
| "phaseOf (NewStorageBackendForConfig config) = Checking"
| "phaseOf (BackendAddVolume vc pool) = VolumePhase"
| "phaseOf (Remove p) = GenerationPhase"
| "phaseOf (WriteFile p y) = GenerationPhase"
| "phaseOf (Warning m) = Logging"

definition isRBAC :: "event \<Rightarrow> bool" where
  "isRBAC ev = (isRBACDelete ev \<or> isRBACCreate ev)"

section \<open>An example environment\<close>

text \<open>
  A single-replica installation into an empty cluster in which every call succeeds: the
  backend serves a network-filesystem volume, the claim is bound at once, the pod runs.
\<close>

definition exampleConfig :: config where
  "exampleConfig =
     \<lparr>dryRun = False, generateYAML = False, useYAML = False, csi = False,
      pvName = ''trident'', pvcName = ''trident'', volumeName = ''trident'',
      volumeSize = ''2Gi'', tridentImage = ''netapp/trident'', etcdImage = ''coreos/etcd'',
      k8sTimeout = 180 * 1000000000, useKubernetesRBAC = True,
      TridentPodNamespace = ''trident'', Debug = False,
      appLabel = ''app=trident.netapp.io'', appLabelKey = ''app'',
      appLabelValue = ''trident.netapp.io'',
      OrchestratorName = ''trident'',
      TridentLabel = ''app=trident.netapp.io'', TridentLabelKey = ''app'',
      TridentLabelValue = ''trident.netapp.io'',
      TridentCSILabel = ''app=controller.csi.trident.netapp.io'', TridentCSILabelKey = ''app'',
      TridentCSILabelValue = ''controller.csi.trident.netapp.io'',
      TridentNodeLabelKey = ''app'', TridentNodeLabelValue = ''node.csi.trident.netapp.io'',
      ContainerTrident = ''trident-main'', KubernetesCSIVersionMin = (1, 10, 0)\<rparr>"

definition exampleVolume :: volume where
  "exampleVolume =
     \<lparr>NfsServerIP = ''10.0.0.1'', NfsPath = ''/trident'', IscsiTargetPortal = [],
      IscsiTargetIQN = [], IscsiLunNumber = 0, IscsiUsername = [], IscsiInitiatorSecret = [],
      IscsiTargetSecret = [], CHAPSecretName = []\<rparr>"

definition exampleBackend :: backend where
  "exampleBackend =
     \<lparr>backendName = ''nas'', Storage = [''aggr1''], GetProtocol = ''file'',
      GetDriverName = ''ontap-nas'', AddVolume = (\<lambda>vc pool. Inr exampleVolume)\<rparr>"

definition examplePod :: pod where
  "examplePod = \<lparr>podName = ''trident-0'', podPhase = ''Running'', podMessage = []\<rparr>"

definition exampleWorkload :: workload where
  "exampleWorkload =
     \<lparr>objLabels = Some [''app'' \<mapsto> ''trident.netapp.io''],
      templateLabels = Some [''app'' \<mapsto> ''trident.netapp.io''],
      containers = [(''trident-main'', ''netapp/trident'')]\<rparr>"

definition examplePVC :: pvc where
  "examplePVC =
     \<lparr>pvcPhase = ''Bound'', pvcVolumeName = ''trident'',
      pvcLabels = Some [''app'' \<mapsto> ''trident.netapp.io''],
      pvcName' = ''trident'', pvcNamespace = ''trident''\<rparr>"

definition examplePV :: pv where
  "examplePV =
     \<lparr>pvPhase = ''Bound'', pvClaimRef = Some (''trident'', ''trident''),
      pvLabels = Some [''app'' \<mapsto> ''trident.netapp.io''],
      pvCapacityStorage = Some 1073741824\<rparr>"

definition exampleWorld :: world where
  "exampleWorld =
     \<lparr>Version = (1, 9, 0),
      ShortString = (\<lambda>v. case v of (a, b, c) \<Rightarrow> showNat a @ ''.'' @ showNat b @ ''.'' @ showNat c),
      Flavor = FlavorKubernetes, Namespace = ''trident'', CLI = ''kubectl'',
      ParseQuantity = (\<lambda>q. if q = ''2Gi'' then Inr 2147483648
                           else if q = ''0'' then Inr 0
                           else Inl ''quantities must match the regular expression''),
      isTridentInstalled = Inr (False, []),
      isCSITridentInstalled = Inr (False, []),
      CheckNamespaceExists = (\<lambda>n. Inr False),
      CheckPVCExists = (\<lambda>n. Inr False),
      GetPVC = (\<lambda>n. Inr examplePVC),
      CheckPVExists = (\<lambda>n. Inr False),
      GetPV = (\<lambda>n. Inr examplePV),
      CheckPVCBound = (\<lambda>n i. Inr True),
      GetPodByLabel = (\<lambda>l i. Inr examplePod),
      Exec = (\<lambda>p i. (''{}'', None)),
      UnmarshalVersion = (\<lambda>j. Inr ''18.04.0''),
      CheckSecretExistsError = (\<lambda>n. None),
      fails = (\<lambda>ev. None),
      backoffAttempts = 3,
      fileExists = (\<lambda>p. False),
      ReadDeploymentFromFile = (\<lambda>p. Inr exampleWorkload),
      ReadServiceFromFile = (\<lambda>p. Inr exampleWorkload),
      ReadStatefulSetFromFile = (\<lambda>p. Inr exampleWorkload),
      ReadDaemonSetFromFile = (\<lambda>p. Inr exampleWorkload),
      ReadPVCFromFile = (\<lambda>p. Inr examplePVC),
      StatNotExist = (\<lambda>p. None),
      ReadFileResult = (\<lambda>p. Inr ''{}''),
      NewStorageBackend = (\<lambda>config. Inr exampleBackend)\<rparr>"

text \<open>A backend that serves a block volume with session credentials.\<close>

definition chapVolume :: volume where
  "chapVolume =
     \<lparr>NfsServerIP = [], NfsPath = [], IscsiTargetPortal = ''10.0.0.2:3260'',
      IscsiTargetIQN = ''iqn.1992-08.com.netapp:sn.1'', IscsiLunNumber = 0,
      IscsiUsername = ''user'', IscsiInitiatorSecret = ''initiator'',
      IscsiTargetSecret = ''target'', CHAPSecretName = ''trident-chap-san-user''\<rparr>"

definition chapBackend :: backend where
  "chapBackend =
     \<lparr>backendName = ''san'', Storage = [''aggr1''], GetProtocol = ''block'',
      GetDriverName = ''solidfire-san'', AddVolume = (\<lambda>vc pool. Inr chapVolume)\<rparr>"

definition chapWorld :: world where
  "chapWorld = exampleWorld\<lparr>NewStorageBackend := (\<lambda>config. Inr chapBackend)\<rparr>"

definition emptyCluster :: cluster where
  "emptyCluster = \<lparr>secrets = []\<rparr>"

text \<open>The distributed topology, with names and labels as \<open>processInstallationArguments\<close> sets them.\<close>

definition exampleCSIConfig :: config where
  "exampleCSIConfig =
     processInstallationArguments
       (exampleConfig\<lparr>csi := True, pvName := [], pvcName := [], volumeName := []\<rparr>)"

text \<open>A daemon-set override that carries the topology's label and not the node label.\<close>

definition appLabelledDaemonSet :: workload where
  "appLabelledDaemonSet =
     \<lparr>objLabels = Some [''app'' \<mapsto> ''controller.csi.trident.netapp.io''],
      templateLabels = Some [''app'' \<mapsto> ''controller.csi.trident.netapp.io''],
      containers = [(''trident-main'', ''netapp/trident'')]\<rparr>"

text \<open>A cluster in which the claim never becomes bound.\<close>

definition neverBoundWorld :: world where
  "neverBoundWorld = exampleWorld\<lparr>CheckPVCBound := (\<lambda>n i. Inr False)\<rparr>"

text \<open>The errors of the check of an existing claim.\<close>

definition claimLostMessage :: "config \<Rightarrow> string" where
  "claimLostMessage c = ''PVC '' @ pvcName c @ '' phase is Lost; please delete it and try again''"

definition claimBoundElsewhereMessage :: "config \<Rightarrow> string" where
  "claimBoundElsewhereMessage c =
     ''PVC '' @ pvcName c @ '' is Bound, but not to PV '' @ pvName c @
     ''; please specify a different PV and/or PVC''"

definition claimUnlabelledMessage :: "config \<Rightarrow> string" where
  "claimUnlabelledMessage c =
     ''PVC '' @ pvcName c @ '' does not have '' @ appLabel c @
     '' label; please add label or delete PVC and try again''"

text \<open>
  What makes a claim that exists unusable: it is in the Lost phase, or it is Bound to a
  volume other than the intended one, or it does not carry the topology's label with
  the expected value.
\<close>

definition lacksLabel :: "labels \<Rightarrow> string \<Rightarrow> string \<Rightarrow> bool" where
  "lacksLabel ls k v = (case ls of None \<Rightarrow> True | Some m \<Rightarrow> m k \<noteq> Some v)"

definition incompatibleClaim :: "config \<Rightarrow> pvc \<Rightarrow> bool" where
  "incompatibleClaim c claim =
     (pvcPhase claim = ClaimLost \<or>
      (pvcPhase claim = ClaimBound \<and> pvcVolumeName claim \<noteq> pvName c) \<or>
      lacksLabel (pvcLabels claim) (appLabelKey c) (appLabelValue c))"

text \<open>A cluster whose claim is already bound to another volume.\<close>

definition boundElsewhereWorld :: world where
  "boundElsewhereWorld =
     exampleWorld\<lparr>CheckPVCExists := (\<lambda>n. Inr True),
                   GetPVC := (\<lambda>n. Inr (examplePVC\<lparr>pvcVolumeName := ''other-pv''\<rparr>))\<rparr>"

text \<open>A backend configuration from which the driver cannot be started.\<close>

definition brokenBackendWorld :: world where
  "brokenBackendWorld =
     exampleWorld\<lparr>NewStorageBackend := (\<lambda>config. Inl ''invalid character'')\<rparr>"

text \<open>
  A cluster in which the volume exists (with a capacity other than the requested one)
  and a host on which neither the setup directory nor the backend configuration exists.
\<close>

definition existingVolumeWorld :: world where
  "existingVolumeWorld =
     exampleWorld\<lparr>CheckPVExists := (\<lambda>n. Inr True),
                   StatNotExist := (\<lambda>p. Some ''no such file or directory'')\<rparr>"

text \<open>A cluster that meets the floor of the distributed topology.\<close>

definition csiWorld :: world where
  "csiWorld = exampleWorld\<lparr>Version := (1, 10, 0)\<rparr>"

text \<open>
  Clusters in which one removal of an RBAC object fails: that of the service account, and
  that of the role kept by the external authorization service.
\<close>

definition accountStuckWorld :: world where
  "accountStuckWorld =
     exampleWorld\<lparr>fails := (\<lambda>ev. if ev = DeleteObjectByYAML (GetServiceAccountYAML False) True
                                 then Some ''forbidden'' else None)\<rparr>"

definition roleStuckWorld :: world where
  "roleStuckWorld =
     exampleWorld\<lparr>fails := (\<lambda>ev. if ev = DeleteTridentRole then Some ''role is in use''
                                 else None)\<rparr>"

text \<open>A cluster below the floor for session credentials, with the block backend.\<close>

definition oldClusterWorld :: world where
  "oldClusterWorld = chapWorld\<lparr>Version := (1, 6, 0)\<rparr>"

text \<open>A cluster in which the volume exists and has been released.\<close>

definition releasedVolumeWorld :: world where
  "releasedVolumeWorld =
     exampleWorld\<lparr>CheckPVExists := (\<lambda>n. Inr True),
                   GetPV := (\<lambda>n. Inr (examplePV\<lparr>pvPhase := ''Released''\<rparr>))\<rparr>"

section \<open>What the properties speak of\<close>

text \<open>
  The removals of RBAC objects that an installation attempts, in their order, for the
  RBAC of the cluster and for the external authorization service; and those among them
  whose failure sets the flag \<open>anyErrors\<close>.
\<close>

definition rbacDeletions :: "config \<Rightarrow> world \<Rightarrow> event list" where
  "rbacDeletions c w =
     (if useKubernetesRBAC c then
        [DeleteObjectByYAML
           (GetClusterRoleBindingYAML (TridentPodNamespace c) (Flavor w) (Version w) (csi c)) True,
         DeleteObjectByYAML (GetClusterRoleYAML (Flavor w) (Version w) (csi c)) True]
      else [RemoveTridentRoleFromServiceAccount (TridentPodNamespace c), DeleteTridentRole]) @
     [DeleteObjectByYAML (GetServiceAccountYAML (csi c)) True] @
     (if useKubernetesRBAC c \<and> Flavor w = FlavorOpenShift
      then [RemoveTridentUserFromOpenShiftSCC] else [])"

definition fatalDeletions :: "config \<Rightarrow> world \<Rightarrow> event list" where
  "fatalDeletions c w =
     (if useKubernetesRBAC c then rbacDeletions c w
      else [DeleteObjectByYAML (GetServiceAccountYAML (csi c)) True])"

text \<open>
  The kinds of workload objects of a topology in the order of their submission, and the
  submissions of workload objects in a run.
\<close>

definition workloadOrder :: "config \<Rightarrow> workloadKind list" where
  "workloadOrder c = (if csi c then [Service, StatefulSet, DaemonSet] else [Deployment])"

definition submissions :: "config \<Rightarrow> world \<Rightarrow> cluster \<Rightarrow> event list" where
  "submissions c w s = filter isWorkload (events (installTrident c w s))"

text \<open>The error of an installation that needs session credentials on a cluster below the floor.\<close>

definition chapFloorMessage :: "config \<Rightarrow> string" where
  "chapFloorMessage c =
     ''could not create PV '' @ pvName c @ ''; '' @
     ''iSCSI CHAP requires Kubernetes 1.7.0 or later''"

text \<open>
  A volume that the check of an existing volume accepts: it is neither Released nor
  Failed, if it is Bound and names a claim then that is the installer's claim in the
  installer's namespace, and it carries the topology's label.
\<close>

definition compatibleVolume :: "config \<Rightarrow> pv \<Rightarrow> bool" where
  "compatibleVolume c vol =
     (pvPhase vol \<noteq> VolumeReleased \<and> pvPhase vol \<noteq> VolumeFailed \<and>
      (pvPhase vol = VolumeBound \<longrightarrow>
         (case pvClaimRef vol of
            None \<Rightarrow> True
          | Some (name, namespace) \<Rightarrow> name = pvcName c \<and> namespace = TridentPodNamespace c)) \<and>
      pvLabels vol \<noteq> None \<and> labelAt (pvLabels vol) (appLabelKey c) = appLabelValue c)"

text \<open>The steps of \<open>installTrident\<close> after the checks, but for the creation of the volume.\<close>

definition stepsWithoutVolume :: "config \<Rightarrow> world \<Rightarrow> bool \<Rightarrow> bool \<Rightarrow> unit action" where
  "stepsWithoutVolume c w namespaceExists pvcExists =
     andThen (createNamespace c w namespaceExists) (\<lambda>_.
     andThen (replaceRBACObjects c w) (\<lambda>_.
     andThen (createPVC c w pvcExists) (\<lambda>_.
     andThen (waitForPVCBound c w) (\<lambda>_.
     andThen (createWorkloads c w) (\<lambda>_.
     waitForTrident c w)))))"

section \<open>Notions used in the proofs\<close>

text \<open>The language of a pattern, against which the derivative matcher is justified.\<close>

inductive_set star :: "string set \<Rightarrow> string set" for A :: "string set" where
  star_nil: "[] \<in> star A"
| star_app: "u \<in> A \<Longrightarrow> v \<in> star A \<Longrightarrow> u @ v \<in> star A"

fun lang :: "rx \<Rightarrow> string set" where
  "lang Void = {}"
| "lang Eps = {[]}"
| "lang (Class rs) = {[c] | c. inClass rs c}"
| "lang (Seq r s) = {u @ v | u v. u \<in> lang r \<and> v \<in> lang s}"
| "lang (Alt r s) = lang r \<union> lang s"
| "lang (Star r) = star (lang r)"

text \<open>An action all of whose events, from any cluster, satisfy a predicate.\<close>

definition emitsOnly :: "(event \<Rightarrow> bool) \<Rightarrow> 'a action \<Rightarrow> bool" where
  "emitsOnly P m = (\<forall>s. list_all P (events (m s)))"

text \<open>An action that leaves the cluster as it found it.\<close>

definition keeps :: "'a action \<Rightarrow> bool" where
  "keeps m = (\<forall>s. final (m s) = s)"

text \<open>An action that returns, a value or an error, from every cluster.\<close>

definition returns :: "'a action \<Rightarrow> bool" where
  "returns m = (\<forall>s. outcome (m s) \<noteq> Inl NoReturn)"

section \<open>Basic facts about actions\<close>

lemma outcome_simp [simp]: "outcome (r, evs, s) = r"
  by (simp add: outcome_def)

lemma events_simp [simp]: "events (r, evs, s) = evs"
  by (simp add: events_def)

lemma final_simp [simp]: "final (r, evs, s) = s"
  by (simp add: final_def)

lemma andThen_succeed [simp]: "andThen (succeed x) f = f x"
  by (rule ext) (simp add: andThen_def succeed_def split: prod.splits)

lemma andThen_failWith [simp]: "andThen (failWith e) f = failWith e"
  by (rule ext) (simp add: andThen_def failWith_def)

lemma outcome_andThen:
  "outcome (andThen m f s) =
     (case outcome (m s) of Inl e \<Rightarrow> Inl e | Inr x \<Rightarrow> outcome (f x (final (m s))))"
  by (simp add: andThen_def outcome_def final_def split: prod.splits sum.splits)

lemma events_andThen:
  "events (andThen m f s) =
     events (m s) @ (case outcome (m s) of Inl e \<Rightarrow> [] | Inr x \<Rightarrow> events (f x (final (m s))))"
  by (simp add: andThen_def outcome_def final_def events_def split: prod.splits sum.splits)

lemma final_andThen:
  "final (andThen m f s) =
     (case outcome (m s) of Inl e \<Rightarrow> final (m s) | Inr x \<Rightarrow> final (f x (final (m s))))"
  by (simp add: andThen_def outcome_def final_def split: prod.splits sum.splits)

lemma andThen_cases:
  obtains (fail) e evs s' where "m s = (Inl e, evs, s')" "andThen m f s = (Inl e, evs, s')"
  | (ok) x evs s' r evs' s'' where "m s = (Inr x, evs, s')" "f x s' = (r, evs', s'')"
      "andThen m f s = (r, evs @ evs', s'')"
proof (cases "m s")
  case (fields r evs s')
  show ?thesis
  proof (cases r)
    case (Inl e)
    with fields show ?thesis by (intro fail [of e evs s']) (simp_all add: andThen_def)
  next
    case (Inr x)
    obtain r' evs' s'' where f: "f x s' = (r', evs', s'')" by (cases "f x s'")
    with fields Inr show ?thesis by (intro ok [of x evs s' r' evs' s'']) (simp_all add: andThen_def)
  qed
qed

lemma outcome_wrapError:
  "outcome (wrapError g m s) =
     (case outcome (m s) of
        Inl (Error e) \<Rightarrow> Inl (Error (g e))
      | Inl NoReturn \<Rightarrow> Inl NoReturn
      | Inr x \<Rightarrow> Inr x)"
  by (simp add: wrapError_def outcome_def split: prod.splits sum.splits failure.splits)

lemma events_wrapError [simp]: "events (wrapError g m s) = events (m s)"
  by (simp add: wrapError_def events_def split: prod.splits sum.splits failure.splits)

lemma final_wrapError [simp]: "final (wrapError g m s) = final (m s)"
  by (simp add: wrapError_def final_def split: prod.splits sum.splits failure.splits)

lemma succeed_simps [simp]:
  "outcome (succeed x s) = Inr x" "events (succeed x s) = []" "final (succeed x s) = s"
  by (simp_all add: succeed_def)

lemma failWith_simps [simp]:
  "outcome (failWith e s) = Inl (Error e)" "events (failWith e s) = []" "final (failWith e s) = s"
  by (simp_all add: failWith_def)

lemma neverReturns_simps [simp]:
  "outcome (neverReturns s) = Inl NoReturn" "events (neverReturns s) = []"
  "final (neverReturns s) = s"
  by (simp_all add: neverReturns_def)

lemma warn_simps [simp]:
  "outcome (warn m s) = Inr ()" "events (warn m s) = [Warning m]" "final (warn m s) = s"
  by (simp_all add: warn_def)

lemma warnIf_simps [simp]:
  "outcome (warnIf b m s) = Inr ()" "events (warnIf b m s) = (if b then [Warning m] else [])"
  "final (warnIf b m s) = s"
  by (simp_all add: warnIf_def)

lemma attempt_simps [simp]:
  "outcome (attempt w ev s) = Inr (fails w ev)" "events (attempt w ev s) = [ev]"
  "final (attempt w ev s) = (if fails w ev = None then effect ev s else s)"
  by (simp_all add: attempt_def)

lemma stat_simps [simp]:
  "outcome (stat w p s) = Inr (StatNotExist w p)" "events (stat w p s) = [Stat p]"
  "final (stat w p s) = s"
  by (simp_all add: stat_def)

lemma readFile_simps [simp]:
  "outcome (readFile w p s) = Inr (ReadFileResult w p)" "events (readFile w p s) = [ReadFile p]"
  "final (readFile w p s) = s"
  by (simp_all add: readFile_def)

lemma NewStorageBackendForConfig'_simps [simp]:
  "outcome (NewStorageBackendForConfig' w config s) = Inr (NewStorageBackend w config)"
  "events (NewStorageBackendForConfig' w config s) = [NewStorageBackendForConfig config]"
  "final (NewStorageBackendForConfig' w config s) = s"
  by (simp_all add: NewStorageBackendForConfig'_def)

lemma addVolume_simps [simp]:
  "outcome (addVolume sb vc pool s) = Inr (AddVolume sb vc pool)"
  "events (addVolume sb vc pool s) = [BackendAddVolume vc pool]"
  "final (addVolume sb vc pool s) = s"
  by (simp_all add: addVolume_def)

lemma CheckSecretExists_simps [simp]:
  "outcome (CheckSecretExists w n s) =
     Inr (case CheckSecretExistsError w n of Some e \<Rightarrow> Inl e | None \<Rightarrow> Inr (n \<in> set (secrets s)))"
  "events (CheckSecretExists w n s) = []"
  "final (CheckSecretExists w n s) = s"
  by (simp_all add: CheckSecretExists_def)

lemma emitsOnly_succeed [intro!, simp]: "emitsOnly P (succeed x)"
  by (simp add: emitsOnly_def)

lemma emitsOnly_failWith [intro!, simp]: "emitsOnly P (failWith e)"
  by (simp add: emitsOnly_def)

lemma emitsOnly_neverReturns [intro!, simp]: "emitsOnly P neverReturns"
  by (simp add: emitsOnly_def)

lemma emitsOnly_warn [intro!]: "P (Warning m) \<Longrightarrow> emitsOnly P (warn m)"
  by (simp add: emitsOnly_def)

lemma emitsOnly_warnIf [intro!]: "P (Warning m) \<Longrightarrow> emitsOnly P (warnIf b m)"
  by (simp add: emitsOnly_def)

lemma emitsOnly_attempt [intro!]: "P ev \<Longrightarrow> emitsOnly P (attempt w ev)"
  by (simp add: emitsOnly_def)

lemma emitsOnly_stat [intro!]: "P (Stat p) \<Longrightarrow> emitsOnly P (stat w p)"
  by (simp add: emitsOnly_def)

lemma emitsOnly_readFile [intro!]: "P (ReadFile p) \<Longrightarrow> emitsOnly P (readFile w p)"
  by (simp add: emitsOnly_def)

lemma emitsOnly_NewStorageBackendForConfig' [intro!]:
  "P (NewStorageBackendForConfig config) \<Longrightarrow> emitsOnly P (NewStorageBackendForConfig' w config)"
  by (simp add: emitsOnly_def)

lemma emitsOnly_addVolume [intro!]:
  "P (BackendAddVolume vc pool) \<Longrightarrow> emitsOnly P (addVolume sb vc pool)"
  by (simp add: emitsOnly_def)

lemma emitsOnly_CheckSecretExists [intro!, simp]: "emitsOnly P (CheckSecretExists w n)"
  by (simp add: emitsOnly_def)

lemma emitsOnly_andThen [intro!]:
  "emitsOnly P m \<Longrightarrow> (\<And>x. emitsOnly P (f x)) \<Longrightarrow> emitsOnly P (andThen m f)"
  by (auto simp add: emitsOnly_def events_andThen split: sum.splits)

lemma emitsOnly_wrapError [intro!]: "emitsOnly P m \<Longrightarrow> emitsOnly P (wrapError g m)"
  by (simp add: emitsOnly_def)

lemma emitsOnly_if [intro!]:
  "(b \<Longrightarrow> emitsOnly P m) \<Longrightarrow> (\<not> b \<Longrightarrow> emitsOnly P n) \<Longrightarrow> emitsOnly P (if b then m else n)"
  by simp

lemma emitsOnly_case_option [intro!]:
  "(x = None \<Longrightarrow> emitsOnly P m) \<Longrightarrow> (\<And>y. x = Some y \<Longrightarrow> emitsOnly P (f y)) \<Longrightarrow>
   emitsOnly P (case x of None \<Rightarrow> m | Some y \<Rightarrow> f y)"
  by (cases x) simp_all

lemma emitsOnly_case_sum [intro!]:
  "(\<And>e. x = Inl e \<Longrightarrow> emitsOnly P (f e)) \<Longrightarrow> (\<And>y. x = Inr y \<Longrightarrow> emitsOnly P (g y)) \<Longrightarrow>
   emitsOnly P (case x of Inl e \<Rightarrow> f e | Inr y \<Rightarrow> g y)"
  by (cases x) simp_all

lemma emitsOnly_case_prod [intro!]:
  "(\<And>a b. x = (a, b) \<Longrightarrow> emitsOnly P (f a b)) \<Longrightarrow> emitsOnly P (case x of (a, b) \<Rightarrow> f a b)"
  by (cases x) simp_all

lemma emitsOnly_case_list [intro!]:
  "(x = [] \<Longrightarrow> emitsOnly P m) \<Longrightarrow> (\<And>y ys. x = y # ys \<Longrightarrow> emitsOnly P (f y ys)) \<Longrightarrow>
   emitsOnly P (case x of [] \<Rightarrow> m | y # ys \<Rightarrow> f y ys)"
  by (cases x) simp_all

lemma emitsOnly_Let [intro!]: "emitsOnly P (f x) \<Longrightarrow> emitsOnly P (Let x f)"
  by simp

lemma emitsOnly_filter: "emitsOnly (\<lambda>e. \<not> P e) m \<Longrightarrow> filter P (events (m s)) = []"
  by (simp add: emitsOnly_def list_all_iff filter_empty_conv)

lemma emitsOnly_mono: "emitsOnly P m \<Longrightarrow> (\<And>e. P e \<Longrightarrow> Q e) \<Longrightarrow> emitsOnly Q m"
  by (auto simp add: emitsOnly_def list_all_iff)

lemma loadStorageDriver_emits: "emitsOnly isDriverLoad (loadStorageDriver c w)"
  unfolding loadStorageDriver_def by (intro emitsOnly_andThen emitsOnly_stat emitsOnly_case_option emitsOnly_case_sum emitsOnly_failWith emitsOnly_readFile emitsOnly_NewStorageBackendForConfig' emitsOnly_succeed) simp_all

lemma existenceChecks_emits: "emitsOnly (\<lambda>e. \<exists>m. e = Warning m) (existenceChecks c w)"
  unfolding existenceChecks_def validateVolumeSize_def ensureNotInstalled_def checkNamespace_def
    checkPVC_def checkPV_def
  by (intro emitsOnly_andThen emitsOnly_if emitsOnly_case_sum emitsOnly_case_option emitsOnly_case_prod emitsOnly_failWith emitsOnly_succeed emitsOnly_warn emitsOnly_warnIf) simp_all


lemmas install_defs =
  installTrident_def preChecks_def existenceChecks_def loadDriverIfNeeded_def
  validateVolumeSize_def ensureNotInstalled_def checkNamespace_def checkPVC_def checkPV_def
  loadStorageDriver_def installSteps_def createNamespace_def replaceRBACObjects_def
  removeRBACObjects_def createRBACObjects_def createPVC_def createPVIfNecessary_def createPV_def
  getPVYAML_def createCHAPSecret_def waitForPVCBound_def checkPVCBound_def createWorkloads_def
  createDeployment_def createService_def createStatefulSet_def createDaemonSet_def
  waitForTrident_def waitForTridentPod_def checkPodRunning_def waitForRESTInterface_def
  checkRESTInterface_def RetryNotify_def

lemmas action_defs =
  andThen_def succeed_def failWith_def neverReturns_def attempt_def warn_def warnIf_def wrapError_def stat_def
  readFile_def NewStorageBackendForConfig'_def addVolume_def CheckSecretExists_def

lemmas example_defs =
  exampleConfig_def exampleWorld_def exampleBackend_def exampleVolume_def examplePod_def
  examplePVC_def examplePV_def exampleWorkload_def emptyCluster_def

lemma example_install_succeeds:
  "outcome (installTrident exampleConfig exampleWorld emptyCluster) = Inr ()"
  by (simp add: install_defs action_defs example_defs numeral_3_eq_3)

lemma emitsOnly_notin: "emitsOnly P m \<Longrightarrow> \<not> P ev \<Longrightarrow> ev \<notin> set (events (m s))"
  by (auto simp add: emitsOnly_def list_all_iff)

lemma event_in_andThen:
  "ev \<in> set (events (andThen m f s)) \<Longrightarrow> ev \<notin> set (events (m s)) \<Longrightarrow>
   \<exists>x. outcome (m s) = Inr x \<and> ev \<in> set (events (f x (final (m s))))"
  by (cases "outcome (m s)") (auto simp add: events_andThen)

lemma preChecks_emits: "emitsOnly (\<lambda>e. isDriverLoad e \<or> isWarning e) (preChecks c w)"
proof -
  have "emitsOnly (\<lambda>e. isDriverLoad e \<or> isWarning e) (existenceChecks c w)"
    by (rule emitsOnly_mono [OF existenceChecks_emits]) auto
  moreover have "emitsOnly (\<lambda>e. isDriverLoad e \<or> isWarning e) (loadStorageDriver c w)"
    by (rule emitsOnly_mono [OF loadStorageDriver_emits]) auto
  ultimately show ?thesis
    unfolding preChecks_def loadDriverIfNeeded_def
    by (intro emitsOnly_andThen emitsOnly_case_prod emitsOnly_if emitsOnly_succeed)
qed

lemma createNamespace_emits: "emitsOnly isNamespaceCreate (createNamespace c w b)"
  unfolding createNamespace_def
  by (intro emitsOnly_andThen emitsOnly_if emitsOnly_case_option emitsOnly_attempt
      emitsOnly_succeed emitsOnly_failWith) simp_all

lemma removeRBACObjects_emits:
  "emitsOnly (\<lambda>e. isRBACDelete e \<or> isWarning e) (removeRBACObjects c w)"
  unfolding removeRBACObjects_def
  by (intro emitsOnly_andThen emitsOnly_if emitsOnly_attempt emitsOnly_warnIf
      emitsOnly_succeed) simp_all

lemma createRBACObjects_emits: "emitsOnly isRBACCreate (createRBACObjects c w)"
  unfolding createRBACObjects_def
  by (intro emitsOnly_andThen emitsOnly_if emitsOnly_case_option emitsOnly_attempt
      emitsOnly_succeed emitsOnly_failWith) simp_all

lemma replaceRBACObjects_emits:
  "emitsOnly (\<lambda>e. isRBACDelete e \<or> isRBACCreate e \<or> isWarning e) (replaceRBACObjects c w)"
proof -
  have "emitsOnly (\<lambda>e. isRBACDelete e \<or> isRBACCreate e \<or> isWarning e) (removeRBACObjects c w)"
    by (rule emitsOnly_mono [OF removeRBACObjects_emits]) auto
  moreover have "emitsOnly (\<lambda>e. isRBACDelete e \<or> isRBACCreate e \<or> isWarning e) (createRBACObjects c w)"
    by (rule emitsOnly_mono [OF createRBACObjects_emits]) auto
  ultimately show ?thesis
    unfolding replaceRBACObjects_def
    by (intro emitsOnly_andThen emitsOnly_if emitsOnly_failWith)
qed

lemma createPVC_emits: "emitsOnly isPVCCreate (createPVC c w b)"
  unfolding createPVC_def
  by (intro emitsOnly_andThen emitsOnly_if emitsOnly_case_option emitsOnly_attempt
      emitsOnly_succeed emitsOnly_failWith) simp_all

lemma createCHAPSecret_emits: "emitsOnly isSecretCreate (createCHAPSecret c w v)"
  unfolding createCHAPSecret_def
  by (intro emitsOnly_Let emitsOnly_andThen emitsOnly_if emitsOnly_case_option emitsOnly_case_sum
      emitsOnly_attempt emitsOnly_succeed emitsOnly_failWith emitsOnly_CheckSecretExists) simp_all

lemma createPV_emits:
  "emitsOnly (\<lambda>e. isBackendAddVolume e \<or> isSecretCreate e \<or> isPVCreate e) (createPV c w sb)"
  using createCHAPSecret_emits [of c w]
  by (auto simp add: emitsOnly_def createPV_def getPVYAML_def events_andThen outcome_andThen
      final_andThen Let_def list_all_iff split: list.splits sum.splits option.splits if_splits)

lemma createPVIfNecessary_emits:
  "emitsOnly (\<lambda>e. isBackendAddVolume e \<or> isSecretCreate e \<or> isPVCreate e)
     (createPVIfNecessary c w b sbo)"
  unfolding createPVIfNecessary_def
  by (intro emitsOnly_if emitsOnly_case_option emitsOnly_wrapError createPV_emits
      emitsOnly_succeed emitsOnly_failWith)

lemma waitForPVCBound_emits: "emitsOnly (\<lambda>e. False) (waitForPVCBound c w)"
  unfolding waitForPVCBound_def
  by (intro emitsOnly_case_sum emitsOnly_case_option emitsOnly_succeed emitsOnly_failWith
      emitsOnly_neverReturns)

lemma waitForTrident_emits: "emitsOnly (\<lambda>e. False) (waitForTrident c w)"
  unfolding waitForTrident_def waitForTridentPod_def waitForRESTInterface_def
  by (intro emitsOnly_andThen emitsOnly_wrapError emitsOnly_case_sum emitsOnly_case_option
      emitsOnly_succeed emitsOnly_failWith emitsOnly_neverReturns)

lemma createDeployment_emits: "emitsOnly isWorkload (createDeployment c w)"
  unfolding createDeployment_def
  by (intro emitsOnly_andThen emitsOnly_if emitsOnly_case_option emitsOnly_attempt
      emitsOnly_succeed emitsOnly_failWith) (simp_all add: isWorkload_def)

lemma createService_emits: "emitsOnly isWorkload (createService c w)"
  unfolding createService_def
  by (intro emitsOnly_andThen emitsOnly_if emitsOnly_case_option emitsOnly_attempt
      emitsOnly_succeed emitsOnly_failWith) (simp_all add: isWorkload_def)

lemma createStatefulSet_emits: "emitsOnly isWorkload (createStatefulSet c w)"
  unfolding createStatefulSet_def
  by (intro emitsOnly_andThen emitsOnly_if emitsOnly_case_option emitsOnly_attempt
      emitsOnly_succeed emitsOnly_failWith) (simp_all add: isWorkload_def)

lemma createDaemonSet_emits: "emitsOnly isWorkload (createDaemonSet c w)"
  unfolding createDaemonSet_def
  by (intro emitsOnly_andThen emitsOnly_if emitsOnly_case_option emitsOnly_attempt
      emitsOnly_succeed emitsOnly_failWith) (simp_all add: isWorkload_def)

lemma createWorkloads_emits: "emitsOnly isWorkload (createWorkloads c w)"
  unfolding createWorkloads_def
  by (intro emitsOnly_andThen emitsOnly_if createDeployment_emits createService_emits
      createStatefulSet_emits createDaemonSet_emits)


lemma isDriverLoad_phase: "isDriverLoad e \<Longrightarrow> phaseOf e = Checking"
  by (cases e) simp_all

lemma isWarning_phase: "isWarning e \<Longrightarrow> phaseOf e = Logging"
  by (cases e) simp_all

lemma isNamespaceCreate_phase: "isNamespaceCreate e \<Longrightarrow> phaseOf e = NamespacePhase"
  by (cases e rule: isNamespaceCreate.cases) simp_all

lemma isRBACCreate_phase: "isRBACCreate e \<Longrightarrow> phaseOf e = RBACPhase"
  by (cases e rule: isRBACCreate.cases) auto

lemma isRBACDelete_phase: "isRBACDelete e \<Longrightarrow> phaseOf e = RBACPhase"
  by (cases e rule: isRBACDelete.cases) simp_all

lemma isPVCCreate_phase: "isPVCCreate e \<Longrightarrow> phaseOf e = ClaimPhase"
  by (cases e rule: isPVCCreate.cases) simp_all

lemma isPVCreate_phase: "isPVCreate e \<Longrightarrow> phaseOf e = VolumePhase"
  by (cases e rule: isPVCreate.cases) simp_all

lemma isSecretCreate_phase: "isSecretCreate e \<Longrightarrow> phaseOf e = VolumePhase"
  by (cases e rule: isSecretCreate.cases) simp_all

lemma isBackendAddVolume_phase: "isBackendAddVolume e \<Longrightarrow> phaseOf e = VolumePhase"
  by (cases e) simp_all

lemma isWorkload_phase: "isWorkload e \<Longrightarrow> phaseOf e = WorkloadPhase"
  unfolding isWorkload_def by (cases e rule: workloadKindOf.cases) (auto split: if_splits)

lemma isMutation_phase:
  assumes "phaseOf e = Checking \<or> phaseOf e = Logging"
  shows "\<not> isMutation e"
proof (cases e)
  case (CreateObjectByYAML y)
  with assms show ?thesis by (cases y) simp_all
next
  case (CreateObjectByFile p)
  with assms show ?thesis by (cases p) simp_all
qed (use assms in simp_all)

lemma installTrident_cases [case_names precheck dry namespace rbac claim volume bound workloads ready finished]:
  obtains
    (precheck) e evs0 s0 where "preChecks c w s = (Inl e, evs0, s0)"
      "installTrident c w s = (Inl e, evs0, s0)"
  | (dry) nsE pvcE pvE sbo evs0 s0 where "dryRun c"
      "preChecks c w s = (Inr (nsE, pvcE, pvE, sbo), evs0, s0)"
      "installTrident c w s = (Inr (), evs0, s0)"
  | (namespace) nsE pvcE pvE sbo e evs0 s0 evs1 s1 where "\<not> dryRun c"
      "preChecks c w s = (Inr (nsE, pvcE, pvE, sbo), evs0, s0)"
      "createNamespace c w nsE s0 = (Inl e, evs1, s1)"
      "installTrident c w s = (Inl e, evs0 @ evs1, s1)"
  | (rbac) nsE pvcE pvE sbo e evs0 s0 evs1 s1 evs2 s2 where "\<not> dryRun c"
      "preChecks c w s = (Inr (nsE, pvcE, pvE, sbo), evs0, s0)"
      "createNamespace c w nsE s0 = (Inr (), evs1, s1)"
      "replaceRBACObjects c w s1 = (Inl e, evs2, s2)"
      "installTrident c w s = (Inl e, evs0 @ evs1 @ evs2, s2)"
  | (claim) nsE pvcE pvE sbo e evs0 s0 evs1 s1 evs2 s2 evs3 s3 where "\<not> dryRun c"
      "preChecks c w s = (Inr (nsE, pvcE, pvE, sbo), evs0, s0)"
      "createNamespace c w nsE s0 = (Inr (), evs1, s1)"
      "replaceRBACObjects c w s1 = (Inr (), evs2, s2)"
      "createPVC c w pvcE s2 = (Inl e, evs3, s3)"
      "installTrident c w s = (Inl e, evs0 @ evs1 @ evs2 @ evs3, s3)"
  | (volume) nsE pvcE pvE sbo e evs0 s0 evs1 s1 evs2 s2 evs3 s3 evs4 s4 where "\<not> dryRun c"
      "preChecks c w s = (Inr (nsE, pvcE, pvE, sbo), evs0, s0)"
      "createNamespace c w nsE s0 = (Inr (), evs1, s1)"
      "replaceRBACObjects c w s1 = (Inr (), evs2, s2)"
      "createPVC c w pvcE s2 = (Inr (), evs3, s3)"
      "createPVIfNecessary c w pvE sbo s3 = (Inl e, evs4, s4)"
      "installTrident c w s = (Inl e, evs0 @ evs1 @ evs2 @ evs3 @ evs4, s4)"
  | (bound) nsE pvcE pvE sbo e evs0 s0 evs1 s1 evs2 s2 evs3 s3 evs4 s4 evs5 s5 where "\<not> dryRun c"
      "preChecks c w s = (Inr (nsE, pvcE, pvE, sbo), evs0, s0)"
      "createNamespace c w nsE s0 = (Inr (), evs1, s1)"
      "replaceRBACObjects c w s1 = (Inr (), evs2, s2)"
      "createPVC c w pvcE s2 = (Inr (), evs3, s3)"
      "createPVIfNecessary c w pvE sbo s3 = (Inr (), evs4, s4)"
      "waitForPVCBound c w s4 = (Inl e, evs5, s5)"
      "installTrident c w s = (Inl e, evs0 @ evs1 @ evs2 @ evs3 @ evs4 @ evs5, s5)"
  | (workloads) nsE pvcE pvE sbo e evs0 s0 evs1 s1 evs2 s2 evs3 s3 evs4 s4 evs5 s5 evs6 s6 where "\<not> dryRun c"
      "preChecks c w s = (Inr (nsE, pvcE, pvE, sbo), evs0, s0)"
      "createNamespace c w nsE s0 = (Inr (), evs1, s1)"
      "replaceRBACObjects c w s1 = (Inr (), evs2, s2)"
      "createPVC c w pvcE s2 = (Inr (), evs3, s3)"
      "createPVIfNecessary c w pvE sbo s3 = (Inr (), evs4, s4)"
      "waitForPVCBound c w s4 = (Inr (), evs5, s5)"
      "createWorkloads c w s5 = (Inl e, evs6, s6)"
      "installTrident c w s = (Inl e, evs0 @ evs1 @ evs2 @ evs3 @ evs4 @ evs5 @ evs6, s6)"
  | (ready) nsE pvcE pvE sbo e evs0 s0 evs1 s1 evs2 s2 evs3 s3 evs4 s4 evs5 s5 evs6 s6 evs7 s7 where "\<not> dryRun c"
      "preChecks c w s = (Inr (nsE, pvcE, pvE, sbo), evs0, s0)"
      "createNamespace c w nsE s0 = (Inr (), evs1, s1)"
      "replaceRBACObjects c w s1 = (Inr (), evs2, s2)"
      "createPVC c w pvcE s2 = (Inr (), evs3, s3)"
      "createPVIfNecessary c w pvE sbo s3 = (Inr (), evs4, s4)"
      "waitForPVCBound c w s4 = (Inr (), evs5, s5)"
      "createWorkloads c w s5 = (Inr (), evs6, s6)"
      "waitForTrident c w s6 = (Inl e, evs7, s7)"
      "installTrident c w s = (Inl e, evs0 @ evs1 @ evs2 @ evs3 @ evs4 @ evs5 @ evs6 @ evs7, s7)"
  | (finished) nsE pvcE pvE sbo evs0 s0 evs1 s1 evs2 s2 evs3 s3 evs4 s4 evs5 s5 evs6 s6 evs7 s7 where "\<not> dryRun c"
      "preChecks c w s = (Inr (nsE, pvcE, pvE, sbo), evs0, s0)"
      "createNamespace c w nsE s0 = (Inr (), evs1, s1)"
      "replaceRBACObjects c w s1 = (Inr (), evs2, s2)"
      "createPVC c w pvcE s2 = (Inr (), evs3, s3)"
      "createPVIfNecessary c w pvE sbo s3 = (Inr (), evs4, s4)"
      "waitForPVCBound c w s4 = (Inr (), evs5, s5)"
      "createWorkloads c w s5 = (Inr (), evs6, s6)"
      "waitForTrident c w s6 = (Inr (), evs7, s7)"
      "installTrident c w s = (Inr (), evs0 @ evs1 @ evs2 @ evs3 @ evs4 @ evs5 @ evs6 @ evs7, s7)"
proof -
  obtain r0 evs0 s0 where p: "preChecks c w s = (r0, evs0, s0)"
    by (cases "preChecks c w s")
  show thesis
  proof (cases r0)
    case (Inl e)
    with p have p0: "preChecks c w s = (Inl e, evs0, s0)" by simp
    show thesis
      by (rule precheck [OF p0]) (simp add: installTrident_def andThen_def p0)
  next
    case (Inr locals)
    obtain nsE pvcE pvE sbo where "locals = (nsE, pvcE, pvE, sbo)"
      by (cases locals)
    with p Inr have p0: "preChecks c w s = (Inr (nsE, pvcE, pvE, sbo), evs0, s0)"
      by simp
    show thesis
    proof (cases "dryRun c")
      case True
      show thesis
        by (rule dry [OF True p0]) (simp add: installTrident_def andThen_def succeed_def p0 True)
    next
      case False
      note defs = installTrident_def installSteps_def andThen_def
      obtain r1 evs1 s1 where m1: "createNamespace c w nsE s0 = (r1, evs1, s1)"
        by (cases "createNamespace c w nsE s0")
      show thesis
      proof (cases r1)
        case (Inl e)
        with m1 have f1: "createNamespace c w nsE s0 = (Inl e, evs1, s1)" by simp
        show thesis
          by (rule namespace [OF False p0  f1]) (simp add: defs p0 False  f1)
      next
        case (Inr u1)
        with m1 have ok1: "createNamespace c w nsE s0 = (Inr (), evs1, s1)" by simp
        obtain r2 evs2 s2 where m2: "replaceRBACObjects c w s1 = (r2, evs2, s2)"
          by (cases "replaceRBACObjects c w s1")
        show thesis
        proof (cases r2)
          case (Inl e)
          with m2 have f2: "replaceRBACObjects c w s1 = (Inl e, evs2, s2)" by simp
          show thesis
            by (rule rbac [OF False p0 ok1 f2]) (simp add: defs p0 False ok1 f2)
        next
          case (Inr u2)
          with m2 have ok2: "replaceRBACObjects c w s1 = (Inr (), evs2, s2)" by simp
          obtain r3 evs3 s3 where m3: "createPVC c w pvcE s2 = (r3, evs3, s3)"
            by (cases "createPVC c w pvcE s2")
          show thesis
          proof (cases r3)
            case (Inl e)
            with m3 have f3: "createPVC c w pvcE s2 = (Inl e, evs3, s3)" by simp
            show thesis
              by (rule claim [OF False p0 ok1 ok2 f3]) (simp add: defs p0 False ok1 ok2 f3)
          next
            case (Inr u3)
            with m3 have ok3: "createPVC c w pvcE s2 = (Inr (), evs3, s3)" by simp
            obtain r4 evs4 s4 where m4: "createPVIfNecessary c w pvE sbo s3 = (r4, evs4, s4)"
              by (cases "createPVIfNecessary c w pvE sbo s3")
            show thesis
            proof (cases r4)
              case (Inl e)
              with m4 have f4: "createPVIfNecessary c w pvE sbo s3 = (Inl e, evs4, s4)" by simp
              show thesis
                by (rule volume [OF False p0 ok1 ok2 ok3 f4]) (simp add: defs p0 False ok1 ok2 ok3 f4)
            next
              case (Inr u4)
              with m4 have ok4: "createPVIfNecessary c w pvE sbo s3 = (Inr (), evs4, s4)" by simp
              obtain r5 evs5 s5 where m5: "waitForPVCBound c w s4 = (r5, evs5, s5)"
                by (cases "waitForPVCBound c w s4")
              show thesis
              proof (cases r5)
                case (Inl e)
                with m5 have f5: "waitForPVCBound c w s4 = (Inl e, evs5, s5)" by simp
                show thesis
                  by (rule bound [OF False p0 ok1 ok2 ok3 ok4 f5]) (simp add: defs p0 False ok1 ok2 ok3 ok4 f5)
              next
                case (Inr u5)
                with m5 have ok5: "waitForPVCBound c w s4 = (Inr (), evs5, s5)" by simp
                obtain r6 evs6 s6 where m6: "createWorkloads c w s5 = (r6, evs6, s6)"
                  by (cases "createWorkloads c w s5")
                show thesis
                proof (cases r6)
                  case (Inl e)
                  with m6 have f6: "createWorkloads c w s5 = (Inl e, evs6, s6)" by simp
                  show thesis
                    by (rule workloads [OF False p0 ok1 ok2 ok3 ok4 ok5 f6]) (simp add: defs p0 False ok1 ok2 ok3 ok4 ok5 f6)
                next
                  case (Inr u6)
                  with m6 have ok6: "createWorkloads c w s5 = (Inr (), evs6, s6)" by simp
                  obtain r7 evs7 s7 where m7: "waitForTrident c w s6 = (r7, evs7, s7)"
                    by (cases "waitForTrident c w s6")
                  show thesis
                  proof (cases r7)
                    case (Inl e)
                    with m7 have f7: "waitForTrident c w s6 = (Inl e, evs7, s7)" by simp
                    show thesis
                      by (rule ready [OF False p0 ok1 ok2 ok3 ok4 ok5 ok6 f7]) (simp add: defs p0 False ok1 ok2 ok3 ok4 ok5 ok6 f7)
                  next
                    case (Inr u7)
                    with m7 have ok7: "waitForTrident c w s6 = (Inr (), evs7, s7)" by simp
                    show thesis
                      by (rule finished [OF False p0 ok1 ok2 ok3 ok4 ok5 ok6 ok7]) (simp add: defs p0 False ok1 ok2 ok3 ok4 ok5 ok6 ok7)
                  qed
                qed
              qed
            qed
          qed
        qed
      qed
    qed
  qed
qed


lemma keeps_succeed [intro!, simp]: "keeps (succeed x)"
  by (simp add: keeps_def)

lemma keeps_failWith [intro!, simp]: "keeps (failWith e)"
  by (simp add: keeps_def)

lemma keeps_neverReturns [intro!, simp]: "keeps neverReturns"
  by (simp add: keeps_def)

lemma keeps_warn [intro!, simp]: "keeps (warn m)"
  by (simp add: keeps_def)

lemma keeps_warnIf [intro!, simp]: "keeps (warnIf b m)"
  by (simp add: keeps_def)

lemma keeps_stat [intro!, simp]: "keeps (stat w p)"
  by (simp add: keeps_def)

lemma keeps_readFile [intro!, simp]: "keeps (readFile w p)"
  by (simp add: keeps_def)

lemma keeps_NewStorageBackendForConfig' [intro!, simp]: "keeps (NewStorageBackendForConfig' w config)"
  by (simp add: keeps_def)

lemma keeps_andThen [intro!]: "keeps m \<Longrightarrow> (\<And>x. keeps (f x)) \<Longrightarrow> keeps (andThen m f)"
  by (auto simp add: keeps_def final_andThen split: sum.splits)

lemma keeps_if [intro!]:
  "(b \<Longrightarrow> keeps m) \<Longrightarrow> (\<not> b \<Longrightarrow> keeps n) \<Longrightarrow> keeps (if b then m else n)"
  by simp

lemma keeps_case_option [intro!]:
  "(x = None \<Longrightarrow> keeps m) \<Longrightarrow> (\<And>y. x = Some y \<Longrightarrow> keeps (f y)) \<Longrightarrow>
   keeps (case x of None \<Rightarrow> m | Some y \<Rightarrow> f y)"
  by (cases x) simp_all

lemma keeps_case_sum [intro!]:
  "(\<And>e. x = Inl e \<Longrightarrow> keeps (f e)) \<Longrightarrow> (\<And>y. x = Inr y \<Longrightarrow> keeps (g y)) \<Longrightarrow>
   keeps (case x of Inl e \<Rightarrow> f e | Inr y \<Rightarrow> g y)"
  by (cases x) simp_all

lemma keeps_case_prod [intro!]:
  "(\<And>a b. x = (a, b) \<Longrightarrow> keeps (f a b)) \<Longrightarrow> keeps (case x of (a, b) \<Rightarrow> f a b)"
  by (cases x) simp_all

lemma returns_succeed [intro!, simp]: "returns (succeed x)"
  by (simp add: returns_def)

lemma returns_failWith [intro!, simp]: "returns (failWith e)"
  by (simp add: returns_def)

lemma returns_warn [intro!, simp]: "returns (warn m)"
  by (simp add: returns_def)

lemma returns_warnIf [intro!, simp]: "returns (warnIf b m)"
  by (simp add: returns_def)

lemma returns_attempt [intro!, simp]: "returns (attempt w ev)"
  by (simp add: returns_def)

lemma returns_stat [intro!, simp]: "returns (stat w p)"
  by (simp add: returns_def)

lemma returns_readFile [intro!, simp]: "returns (readFile w p)"
  by (simp add: returns_def)

lemma returns_NewStorageBackendForConfig' [intro!, simp]:
  "returns (NewStorageBackendForConfig' w config)"
  by (simp add: returns_def)

lemma returns_addVolume [intro!, simp]: "returns (addVolume sb vc pool)"
  by (simp add: returns_def)

lemma returns_CheckSecretExists [intro!, simp]: "returns (CheckSecretExists w n)"
  by (simp add: returns_def)

lemma returns_andThen [intro!]: "returns m \<Longrightarrow> (\<And>x. returns (f x)) \<Longrightarrow> returns (andThen m f)"
  by (auto simp add: returns_def outcome_andThen split: sum.splits)

lemma returns_wrapError [intro!]: "returns m \<Longrightarrow> returns (wrapError g m)"
  by (auto simp add: returns_def outcome_wrapError split: sum.splits failure.splits)

lemma returns_if [intro!]:
  "(b \<Longrightarrow> returns m) \<Longrightarrow> (\<not> b \<Longrightarrow> returns n) \<Longrightarrow> returns (if b then m else n)"
  by simp

lemma returns_case_option [intro!]:
  "(x = None \<Longrightarrow> returns m) \<Longrightarrow> (\<And>y. x = Some y \<Longrightarrow> returns (f y)) \<Longrightarrow>
   returns (case x of None \<Rightarrow> m | Some y \<Rightarrow> f y)"
  by (cases x) simp_all

lemma returns_case_sum [intro!]:
  "(\<And>e. x = Inl e \<Longrightarrow> returns (f e)) \<Longrightarrow> (\<And>y. x = Inr y \<Longrightarrow> returns (g y)) \<Longrightarrow>
   returns (case x of Inl e \<Rightarrow> f e | Inr y \<Rightarrow> g y)"
  by (cases x) simp_all

lemma returns_case_prod [intro!]:
  "(\<And>a b. x = (a, b) \<Longrightarrow> returns (f a b)) \<Longrightarrow> returns (case x of (a, b) \<Rightarrow> f a b)"
  by (cases x) simp_all

lemma returns_case_list [intro!]:
  "(x = [] \<Longrightarrow> returns m) \<Longrightarrow> (\<And>y ys. x = y # ys \<Longrightarrow> returns (f y ys)) \<Longrightarrow>
   returns (case x of [] \<Rightarrow> m | y # ys \<Rightarrow> f y ys)"
  by (cases x) simp_all

lemma returns_Let [intro!]: "returns (f x) \<Longrightarrow> returns (Let x f)"
  by simp

lemma returns_run: "returns m \<Longrightarrow> m s = (Inl e, evs, s') \<Longrightarrow> \<exists>msg. e = Error msg"
  by (cases e) (auto simp add: returns_def dest: spec [of _ s])

lemma returns_outcome: "returns m \<Longrightarrow> outcome (m s) = Inl e \<Longrightarrow> \<exists>msg. e = Error msg"
  by (cases e) (auto simp add: returns_def)

lemma existenceChecks_returns: "returns (existenceChecks c w)"
  unfolding existenceChecks_def validateVolumeSize_def ensureNotInstalled_def checkNamespace_def
    checkPVC_def checkPV_def
  by (intro returns_andThen returns_if returns_case_sum returns_case_option returns_case_prod
      returns_failWith returns_succeed returns_warn returns_warnIf)

lemma loadStorageDriver_returns: "returns (loadStorageDriver c w)"
  unfolding loadStorageDriver_def
  by (intro returns_andThen returns_case_sum returns_case_option returns_failWith returns_succeed
      returns_stat returns_readFile returns_NewStorageBackendForConfig')

lemma preChecks_returns: "returns (preChecks c w)"
  unfolding preChecks_def loadDriverIfNeeded_def
  by (intro returns_andThen returns_case_prod returns_if returns_succeed existenceChecks_returns
      loadStorageDriver_returns)

lemma createNamespace_returns: "returns (createNamespace c w b)"
  unfolding createNamespace_def
  by (intro returns_andThen returns_if returns_case_option returns_attempt returns_succeed
      returns_failWith)

lemma removeRBACObjects_returns: "returns (removeRBACObjects c w)"
  unfolding removeRBACObjects_def
  by (intro returns_andThen returns_if returns_attempt returns_warnIf returns_succeed)

lemma createRBACObjects_returns: "returns (createRBACObjects c w)"
  unfolding createRBACObjects_def
  by (intro returns_andThen returns_if returns_case_option returns_attempt returns_succeed
      returns_failWith)

lemma replaceRBACObjects_returns: "returns (replaceRBACObjects c w)"
  unfolding replaceRBACObjects_def
  by (intro returns_andThen returns_if returns_failWith removeRBACObjects_returns
      createRBACObjects_returns)

lemma createPVC_returns: "returns (createPVC c w b)"
  unfolding createPVC_def
  by (intro returns_andThen returns_if returns_case_option returns_attempt returns_succeed
      returns_failWith)

lemma createCHAPSecret_returns: "returns (createCHAPSecret c w v)"
  unfolding createCHAPSecret_def
  by (intro returns_Let returns_andThen returns_if returns_case_option returns_case_sum
      returns_attempt returns_succeed returns_failWith returns_CheckSecretExists)

lemma getPVYAML_returns: "returns (getPVYAML c w v)"
  unfolding getPVYAML_def
  by (intro returns_andThen returns_if returns_succeed returns_failWith createCHAPSecret_returns)

lemma createPV_returns: "returns (createPV c w sb)"
  unfolding createPV_def
  by (intro returns_Let returns_andThen returns_case_list returns_case_sum returns_case_option
      returns_addVolume returns_attempt returns_succeed returns_failWith getPVYAML_returns)

lemma createPVIfNecessary_returns: "returns (createPVIfNecessary c w b sbo)"
  unfolding createPVIfNecessary_def
  by (intro returns_if returns_case_option returns_wrapError createPV_returns returns_succeed
      returns_failWith)

lemma createWorkloads_returns: "returns (createWorkloads c w)"
  unfolding createWorkloads_def createDeployment_def createService_def createStatefulSet_def
    createDaemonSet_def
  by (intro returns_andThen returns_if returns_case_option returns_attempt returns_succeed
      returns_failWith)

lemma existenceChecks_keeps: "keeps (existenceChecks c w)"
  unfolding existenceChecks_def validateVolumeSize_def ensureNotInstalled_def checkNamespace_def
    checkPVC_def checkPV_def
  by (intro keeps_andThen keeps_if keeps_case_sum keeps_case_option keeps_case_prod
      keeps_failWith keeps_succeed keeps_warn keeps_warnIf)

lemma loadStorageDriver_keeps: "keeps (loadStorageDriver c w)"
  unfolding loadStorageDriver_def
  by (intro keeps_andThen keeps_case_sum keeps_case_option keeps_failWith keeps_succeed
      keeps_stat keeps_readFile keeps_NewStorageBackendForConfig')

lemma preChecks_keeps: "keeps (preChecks c w)"
  unfolding preChecks_def loadDriverIfNeeded_def
  by (intro keeps_andThen keeps_case_prod keeps_if keeps_succeed existenceChecks_keeps
      loadStorageDriver_keeps)

lemma keeps_run: "keeps m \<Longrightarrow> m s = (r, evs, s') \<Longrightarrow> s' = s"
  by (auto simp add: keeps_def final_def dest: spec [of _ s])

lemma emits_run: "emitsOnly P m \<Longrightarrow> m s = (r, evs, s') \<Longrightarrow> \<forall>e\<in>set evs. P e"
  by (auto simp add: emitsOnly_def events_def list_all_iff dest: spec [of _ s])

lemma preChecks_phase:
  "preChecks c w s = (r, evs, s') \<Longrightarrow> \<forall>e\<in>set evs. phaseOf e = Checking \<or> phaseOf e = Logging"
  using emits_run [OF preChecks_emits] isDriverLoad_phase isWarning_phase by blast

lemma createNamespace_phase:
  "createNamespace c w b s = (r, evs, s') \<Longrightarrow> \<forall>e\<in>set evs. phaseOf e = NamespacePhase"
  using emits_run [OF createNamespace_emits] isNamespaceCreate_phase by blast

lemma replaceRBACObjects_phase:
  "replaceRBACObjects c w s = (r, evs, s') \<Longrightarrow>
   \<forall>e\<in>set evs. phaseOf e = RBACPhase \<or> phaseOf e = Logging"
  using emits_run [OF replaceRBACObjects_emits] isRBACDelete_phase isRBACCreate_phase
    isWarning_phase by blast

lemma createPVC_phase:
  "createPVC c w b s = (r, evs, s') \<Longrightarrow> \<forall>e\<in>set evs. phaseOf e = ClaimPhase"
  using emits_run [OF createPVC_emits] isPVCCreate_phase by blast

lemma createPVIfNecessary_phase:
  "createPVIfNecessary c w b sbo s = (r, evs, s') \<Longrightarrow> \<forall>e\<in>set evs. phaseOf e = VolumePhase"
  using emits_run [OF createPVIfNecessary_emits] isBackendAddVolume_phase isSecretCreate_phase
    isPVCreate_phase by blast

lemma waitForPVCBound_silent: "waitForPVCBound c w s = (r, evs, s') \<Longrightarrow> evs = []"
  using emits_run [OF waitForPVCBound_emits, of c w s r evs s'] by (cases evs) auto

lemma createWorkloads_phase:
  "createWorkloads c w s = (r, evs, s') \<Longrightarrow> \<forall>e\<in>set evs. phaseOf e = WorkloadPhase"
  using emits_run [OF createWorkloads_emits] isWorkload_phase by blast

lemma waitForTrident_silent: "waitForTrident c w s = (r, evs, s') \<Longrightarrow> evs = []"
  using emits_run [OF waitForTrident_emits, of c w s r evs s'] by (cases evs) auto

lemma filter_by_phase:
  "\<forall>e\<in>set evs. phaseOf e \<in> A \<Longrightarrow> (\<And>e. Q e \<Longrightarrow> phaseOf e \<notin> A) \<Longrightarrow> filter Q evs = []"
  by (auto simp add: filter_empty_conv)


lemma retryUntilStop_never:
  "(\<And>i. \<exists>e. operation i = Inl e) \<Longrightarrow> \<exists>e. retryUntilStop operation j n = Inl e"
proof (induction n arbitrary: j)
  case 0
  then show ?case by simp
next
  case (Suc n)
  from Suc.prems obtain e where "operation j = Inl e" by blast
  moreover from Suc.IH [OF Suc.prems] obtain e' where "retryUntilStop operation (Suc j) n = Inl e'"
    by blast
  ultimately show ?case by simp
qed

lemma RetryNotify_never:
  assumes "\<And>i. \<exists>e. operation i = Inl e" and "maxElapsedTime \<noteq> 0"
  shows "\<exists>e. RetryNotify operation j maxElapsedTime n = Some (Inl e)"
  using retryUntilStop_never [of operation j n, OF assms(1)]
    retryUntilStop_never [of operation j 0, OF assms(1)] assms(2)
  by (simp add: RetryNotify_def)

lemma exampleCSIConfig_labels:
  "appLabelKey exampleCSIConfig = ''app''"
  "appLabelValue exampleCSIConfig = ''controller.csi.trident.netapp.io''"
  "TridentNodeLabelKey exampleCSIConfig = ''app''"
  "TridentNodeLabelValue exampleCSIConfig = ''node.csi.trident.netapp.io''"
  "ContainerTrident exampleCSIConfig = ''trident-main''"
  by (simp_all add: exampleCSIConfig_def processInstallationArguments_def exampleConfig_def Let_def)

lemma isWorkload_iff_phase: "isWorkload e = (phaseOf e = WorkloadPhase)"
proof (cases e)
  case (CreateObjectByYAML y)
  then show ?thesis by (cases y) (simp_all add: isWorkload_def)
next
  case (CreateObjectByFile p)
  then show ?thesis by (cases p) (simp_all add: isWorkload_def)
qed (simp_all add: isWorkload_def)

lemma isRBAC_iff_phase: "isRBAC e = (phaseOf e = RBACPhase)"
proof (cases e)
  case (CreateObjectByYAML y)
  then show ?thesis by (cases y) (simp_all add: isRBAC_def)
next
  case (CreateObjectByFile p)
  then show ?thesis by (cases p) (simp_all add: isRBAC_def)
qed (simp_all add: isRBAC_def)

lemma filter_isWorkload: "filter isWorkload = filter (\<lambda>e. phaseOf e = WorkloadPhase)"
  by (rule arg_cong [of _ _ filter]) (rule ext, rule isWorkload_iff_phase)

lemma filter_isRBAC: "filter isRBAC = filter (\<lambda>e. phaseOf e = RBACPhase)"
  by (rule arg_cong [of _ _ filter]) (rule ext, rule isRBAC_iff_phase)

lemma filter_narrow: "(\<And>e. Q e \<Longrightarrow> P e) \<Longrightarrow> filter Q xs = filter Q (filter P xs)"
  by (induction xs) auto

lemma filter_empty_mono: "filter P xs = [] \<Longrightarrow> (\<And>e. Q e \<Longrightarrow> P e) \<Longrightarrow> filter Q xs = []"
  by (auto simp add: filter_empty_conv)

text \<open>
  The runs of the installer seen from one of its blocks: either the run ends before the
  block, or the block runs and the events of its phase are the block's.
\<close>

lemma rbac_focus:
  obtains (none) "filter (\<lambda>e. phaseOf e = RBACPhase) (events (installTrident c w s)) = []"
      "dryRun c \<or> (\<exists>e. outcome (installTrident c w s) = Inl (Error e))"
  | (some) t r evs t' where "replaceRBACObjects c w t = (r, evs, t')"
      "filter (\<lambda>e. phaseOf e = RBACPhase) (events (installTrident c w s)) =
         filter (\<lambda>e. phaseOf e = RBACPhase) evs"
      "\<And>e. r = Inl e \<Longrightarrow> outcome (installTrident c w s) = Inl e \<and>
         filter (\<lambda>e. phaseOf e = ClaimPhase \<or> phaseOf e = VolumePhase \<or> phaseOf e = WorkloadPhase) (events (installTrident c w s)) = []"
proof (cases c w s rule: installTrident_cases)
  case (precheck e evs0 s0)
  note ph = preChecks_phase [OF precheck(1)] returns_run [OF preChecks_returns precheck(1)]
  show thesis by (rule none) (use ph precheck in \<open>auto simp add: filter_empty_conv\<close>)
next
  case (dry nsE pvcE pvE sbo evs0 s0)
  note ph = preChecks_phase [OF dry(2)]
  show thesis by (rule none) (use ph dry in \<open>auto simp add: filter_empty_conv\<close>)
next
  case (namespace nsE pvcE pvE sbo e evs0 s0 evs1 s1)
  note ph = preChecks_phase [OF namespace(2)] createNamespace_phase [OF namespace(3)] returns_run [OF createNamespace_returns namespace(3)]
  show thesis by (rule none) (use ph namespace in \<open>auto simp add: filter_empty_conv\<close>)
next
  case (rbac nsE pvcE pvE sbo e evs0 s0 evs1 s1 evs2 s2)
  note ph = preChecks_phase [OF rbac(2)] createNamespace_phase [OF rbac(3)] replaceRBACObjects_phase [OF rbac(4)] returns_run [OF replaceRBACObjects_returns rbac(4)]
  show thesis by (rule some [OF rbac(4)]) (use ph rbac in \<open>auto simp add: filter_empty_conv filter_id_conv\<close>)
next
  case (claim nsE pvcE pvE sbo e evs0 s0 evs1 s1 evs2 s2 evs3 s3)
  note ph = preChecks_phase [OF claim(2)] createNamespace_phase [OF claim(3)] replaceRBACObjects_phase [OF claim(4)] createPVC_phase [OF claim(5)] returns_run [OF createPVC_returns claim(5)]
  show thesis by (rule some [OF claim(4)]) (use ph claim in \<open>auto simp add: filter_empty_conv filter_id_conv\<close>)
next
  case (volume nsE pvcE pvE sbo e evs0 s0 evs1 s1 evs2 s2 evs3 s3 evs4 s4)
  note ph = preChecks_phase [OF volume(2)] createNamespace_phase [OF volume(3)] replaceRBACObjects_phase [OF volume(4)] createPVC_phase [OF volume(5)] createPVIfNecessary_phase [OF volume(6)] returns_run [OF createPVIfNecessary_returns volume(6)]
  show thesis by (rule some [OF volume(4)]) (use ph volume in \<open>auto simp add: filter_empty_conv filter_id_conv\<close>)
next
  case (bound nsE pvcE pvE sbo e evs0 s0 evs1 s1 evs2 s2 evs3 s3 evs4 s4 evs5 s5)
  note ph = preChecks_phase [OF bound(2)] createNamespace_phase [OF bound(3)] replaceRBACObjects_phase [OF bound(4)] createPVC_phase [OF bound(5)] createPVIfNecessary_phase [OF bound(6)] waitForPVCBound_silent [OF bound(7)]
  show thesis by (rule some [OF bound(4)]) (use ph bound in \<open>auto simp add: filter_empty_conv filter_id_conv\<close>)
next
  case (workloads nsE pvcE pvE sbo e evs0 s0 evs1 s1 evs2 s2 evs3 s3 evs4 s4 evs5 s5 evs6 s6)
  note ph = preChecks_phase [OF workloads(2)] createNamespace_phase [OF workloads(3)] replaceRBACObjects_phase [OF workloads(4)] createPVC_phase [OF workloads(5)] createPVIfNecessary_phase [OF workloads(6)] waitForPVCBound_silent [OF workloads(7)] createWorkloads_phase [OF workloads(8)] returns_run [OF createWorkloads_returns workloads(8)]
  show thesis by (rule some [OF workloads(4)]) (use ph workloads in \<open>auto simp add: filter_empty_conv filter_id_conv\<close>)
next
  case (ready nsE pvcE pvE sbo e evs0 s0 evs1 s1 evs2 s2 evs3 s3 evs4 s4 evs5 s5 evs6 s6 evs7 s7)
  note ph = preChecks_phase [OF ready(2)] createNamespace_phase [OF ready(3)] replaceRBACObjects_phase [OF ready(4)] createPVC_phase [OF ready(5)] createPVIfNecessary_phase [OF ready(6)] waitForPVCBound_silent [OF ready(7)] createWorkloads_phase [OF ready(8)] waitForTrident_silent [OF ready(9)]
  show thesis by (rule some [OF ready(4)]) (use ph ready in \<open>auto simp add: filter_empty_conv filter_id_conv\<close>)
next
  case (finished nsE pvcE pvE sbo evs0 s0 evs1 s1 evs2 s2 evs3 s3 evs4 s4 evs5 s5 evs6 s6 evs7 s7)
  note ph = preChecks_phase [OF finished(2)] createNamespace_phase [OF finished(3)] replaceRBACObjects_phase [OF finished(4)] createPVC_phase [OF finished(5)] createPVIfNecessary_phase [OF finished(6)] waitForPVCBound_silent [OF finished(7)] createWorkloads_phase [OF finished(8)] waitForTrident_silent [OF finished(9)]
  show thesis by (rule some [OF finished(4)]) (use ph finished in \<open>auto simp add: filter_empty_conv filter_id_conv\<close>)
qed

lemma workload_focus:
  obtains (none) "filter (\<lambda>e. phaseOf e = WorkloadPhase) (events (installTrident c w s)) = []"
      "dryRun c \<or> (\<exists>e. outcome (installTrident c w s) = Inl e)"
  | (some) t r evs t' where "createWorkloads c w t = (r, evs, t')"
      "filter (\<lambda>e. phaseOf e = WorkloadPhase) (events (installTrident c w s)) = evs"
      "outcome (installTrident c w s) = Inr () \<Longrightarrow> r = Inr ()"
proof (cases c w s rule: installTrident_cases)
  case (precheck e evs0 s0)
  note ph = preChecks_phase [OF precheck(1)] returns_run [OF preChecks_returns precheck(1)]
  show thesis by (rule none) (use ph precheck in \<open>auto simp add: filter_empty_conv\<close>)
next
  case (dry nsE pvcE pvE sbo evs0 s0)
  note ph = preChecks_phase [OF dry(2)]
  show thesis by (rule none) (use ph dry in \<open>auto simp add: filter_empty_conv\<close>)
next
  case (namespace nsE pvcE pvE sbo e evs0 s0 evs1 s1)
  note ph = preChecks_phase [OF namespace(2)] createNamespace_phase [OF namespace(3)] returns_run [OF createNamespace_returns namespace(3)]
  show thesis by (rule none) (use ph namespace in \<open>auto simp add: filter_empty_conv\<close>)
next
  case (rbac nsE pvcE pvE sbo e evs0 s0 evs1 s1 evs2 s2)
  note ph = preChecks_phase [OF rbac(2)] createNamespace_phase [OF rbac(3)] replaceRBACObjects_phase [OF rbac(4)] returns_run [OF replaceRBACObjects_returns rbac(4)]
  show thesis by (rule none) (use ph rbac in \<open>auto simp add: filter_empty_conv\<close>)
next
  case (claim nsE pvcE pvE sbo e evs0 s0 evs1 s1 evs2 s2 evs3 s3)
  note ph = preChecks_phase [OF claim(2)] createNamespace_phase [OF claim(3)] replaceRBACObjects_phase [OF claim(4)] createPVC_phase [OF claim(5)] returns_run [OF createPVC_returns claim(5)]
  show thesis by (rule none) (use ph claim in \<open>auto simp add: filter_empty_conv\<close>)
next
  case (volume nsE pvcE pvE sbo e evs0 s0 evs1 s1 evs2 s2 evs3 s3 evs4 s4)
  note ph = preChecks_phase [OF volume(2)] createNamespace_phase [OF volume(3)] replaceRBACObjects_phase [OF volume(4)] createPVC_phase [OF volume(5)] createPVIfNecessary_phase [OF volume(6)] returns_run [OF createPVIfNecessary_returns volume(6)]
  show thesis by (rule none) (use ph volume in \<open>auto simp add: filter_empty_conv\<close>)
next
  case (bound nsE pvcE pvE sbo e evs0 s0 evs1 s1 evs2 s2 evs3 s3 evs4 s4 evs5 s5)
  note ph = preChecks_phase [OF bound(2)] createNamespace_phase [OF bound(3)] replaceRBACObjects_phase [OF bound(4)] createPVC_phase [OF bound(5)] createPVIfNecessary_phase [OF bound(6)] waitForPVCBound_silent [OF bound(7)]
  show thesis by (rule none) (use ph bound in \<open>auto simp add: filter_empty_conv\<close>)
next
  case (workloads nsE pvcE pvE sbo e evs0 s0 evs1 s1 evs2 s2 evs3 s3 evs4 s4 evs5 s5 evs6 s6)
  note ph = preChecks_phase [OF workloads(2)] createNamespace_phase [OF workloads(3)] replaceRBACObjects_phase [OF workloads(4)] createPVC_phase [OF workloads(5)] createPVIfNecessary_phase [OF workloads(6)] waitForPVCBound_silent [OF workloads(7)] createWorkloads_phase [OF workloads(8)] returns_run [OF createWorkloads_returns workloads(8)]
  show thesis by (rule some [OF workloads(8)]) (use ph workloads in \<open>auto simp add: filter_empty_conv filter_id_conv\<close>)
next
  case (ready nsE pvcE pvE sbo e evs0 s0 evs1 s1 evs2 s2 evs3 s3 evs4 s4 evs5 s5 evs6 s6 evs7 s7)
  note ph = preChecks_phase [OF ready(2)] createNamespace_phase [OF ready(3)] replaceRBACObjects_phase [OF ready(4)] createPVC_phase [OF ready(5)] createPVIfNecessary_phase [OF ready(6)] waitForPVCBound_silent [OF ready(7)] createWorkloads_phase [OF ready(8)] waitForTrident_silent [OF ready(9)]
  show thesis by (rule some [OF ready(8)]) (use ph ready in \<open>auto simp add: filter_empty_conv filter_id_conv\<close>)
next
  case (finished nsE pvcE pvE sbo evs0 s0 evs1 s1 evs2 s2 evs3 s3 evs4 s4 evs5 s5 evs6 s6 evs7 s7)
  note ph = preChecks_phase [OF finished(2)] createNamespace_phase [OF finished(3)] replaceRBACObjects_phase [OF finished(4)] createPVC_phase [OF finished(5)] createPVIfNecessary_phase [OF finished(6)] waitForPVCBound_silent [OF finished(7)] createWorkloads_phase [OF finished(8)] waitForTrident_silent [OF finished(9)]
  show thesis by (rule some [OF finished(8)]) (use ph finished in \<open>auto simp add: filter_empty_conv filter_id_conv\<close>)
qed

lemma volume_focus:
  obtains (none) "filter (\<lambda>e. phaseOf e = VolumePhase) (events (installTrident c w s)) = []"
      "filter (\<lambda>e. phaseOf e = WorkloadPhase) (events (installTrident c w s)) = []"
      "dryRun c \<or> (\<exists>e. outcome (installTrident c w s) = Inl (Error e))"
  | (some) nsE pvcE pvE sbo evs0 s0 t r evs t' where "preChecks c w s = (Inr (nsE, pvcE, pvE, sbo), evs0, s0)"
      "createPVIfNecessary c w pvE sbo t = (r, evs, t')"
      "filter (\<lambda>e. phaseOf e = VolumePhase) (events (installTrident c w s)) = evs"
      "\<And>e. r = Inl e \<Longrightarrow> outcome (installTrident c w s) = Inl e \<and>
         filter (\<lambda>e. phaseOf e = WorkloadPhase) (events (installTrident c w s)) = []"
proof (cases c w s rule: installTrident_cases)
  case (precheck e evs0 s0)
  note ph = preChecks_phase [OF precheck(1)] returns_run [OF preChecks_returns precheck(1)]
  show thesis by (rule none) (use ph precheck in \<open>auto simp add: filter_empty_conv\<close>)
next
  case (dry nsE pvcE pvE sbo evs0 s0)
  note ph = preChecks_phase [OF dry(2)]
  show thesis by (rule none) (use ph dry in \<open>auto simp add: filter_empty_conv\<close>)
next
  case (namespace nsE pvcE pvE sbo e evs0 s0 evs1 s1)
  note ph = preChecks_phase [OF namespace(2)] createNamespace_phase [OF namespace(3)] returns_run [OF createNamespace_returns namespace(3)]
  show thesis by (rule none) (use ph namespace in \<open>auto simp add: filter_empty_conv\<close>)
next
  case (rbac nsE pvcE pvE sbo e evs0 s0 evs1 s1 evs2 s2)
  note ph = preChecks_phase [OF rbac(2)] createNamespace_phase [OF rbac(3)] replaceRBACObjects_phase [OF rbac(4)] returns_run [OF replaceRBACObjects_returns rbac(4)]
  show thesis by (rule none) (use ph rbac in \<open>auto simp add: filter_empty_conv\<close>)
next
  case (claim nsE pvcE pvE sbo e evs0 s0 evs1 s1 evs2 s2 evs3 s3)
  note ph = preChecks_phase [OF claim(2)] createNamespace_phase [OF claim(3)] replaceRBACObjects_phase [OF claim(4)] createPVC_phase [OF claim(5)] returns_run [OF createPVC_returns claim(5)]
  show thesis by (rule none) (use ph claim in \<open>auto simp add: filter_empty_conv\<close>)
next
  case (volume nsE pvcE pvE sbo e evs0 s0 evs1 s1 evs2 s2 evs3 s3 evs4 s4)
  note ph = preChecks_phase [OF volume(2)] createNamespace_phase [OF volume(3)] replaceRBACObjects_phase [OF volume(4)] createPVC_phase [OF volume(5)] createPVIfNecessary_phase [OF volume(6)] returns_run [OF createPVIfNecessary_returns volume(6)]
  show thesis by (rule some [OF volume(2) volume(6)]) (use ph volume in \<open>auto simp add: filter_empty_conv filter_id_conv\<close>)
next
  case (bound nsE pvcE pvE sbo e evs0 s0 evs1 s1 evs2 s2 evs3 s3 evs4 s4 evs5 s5)
  note ph = preChecks_phase [OF bound(2)] createNamespace_phase [OF bound(3)] replaceRBACObjects_phase [OF bound(4)] createPVC_phase [OF bound(5)] createPVIfNecessary_phase [OF bound(6)] waitForPVCBound_silent [OF bound(7)]
  show thesis by (rule some [OF bound(2) bound(6)]) (use ph bound in \<open>auto simp add: filter_empty_conv filter_id_conv\<close>)
next
  case (workloads nsE pvcE pvE sbo e evs0 s0 evs1 s1 evs2 s2 evs3 s3 evs4 s4 evs5 s5 evs6 s6)
  note ph = preChecks_phase [OF workloads(2)] createNamespace_phase [OF workloads(3)] replaceRBACObjects_phase [OF workloads(4)] createPVC_phase [OF workloads(5)] createPVIfNecessary_phase [OF workloads(6)] waitForPVCBound_silent [OF workloads(7)] createWorkloads_phase [OF workloads(8)] returns_run [OF createWorkloads_returns workloads(8)]
  show thesis by (rule some [OF workloads(2) workloads(6)]) (use ph workloads in \<open>auto simp add: filter_empty_conv filter_id_conv\<close>)
next
  case (ready nsE pvcE pvE sbo e evs0 s0 evs1 s1 evs2 s2 evs3 s3 evs4 s4 evs5 s5 evs6 s6 evs7 s7)
  note ph = preChecks_phase [OF ready(2)] createNamespace_phase [OF ready(3)] replaceRBACObjects_phase [OF ready(4)] createPVC_phase [OF ready(5)] createPVIfNecessary_phase [OF ready(6)] waitForPVCBound_silent [OF ready(7)] createWorkloads_phase [OF ready(8)] waitForTrident_silent [OF ready(9)]
  show thesis by (rule some [OF ready(2) ready(6)]) (use ph ready in \<open>auto simp add: filter_empty_conv filter_id_conv\<close>)
next
  case (finished nsE pvcE pvE sbo evs0 s0 evs1 s1 evs2 s2 evs3 s3 evs4 s4 evs5 s5 evs6 s6 evs7 s7)
  note ph = preChecks_phase [OF finished(2)] createNamespace_phase [OF finished(3)] replaceRBACObjects_phase [OF finished(4)] createPVC_phase [OF finished(5)] createPVIfNecessary_phase [OF finished(6)] waitForPVCBound_silent [OF finished(7)] createWorkloads_phase [OF finished(8)] waitForTrident_silent [OF finished(9)]
  show thesis by (rule some [OF finished(2) finished(6)]) (use ph finished in \<open>auto simp add: filter_empty_conv filter_id_conv\<close>)
qed

lemma retryUntilStop_success:
  "retryUntilStop operation i n = Inr x \<Longrightarrow> \<exists>j. operation j = Inr x"
  by (induction n arbitrary: i) (auto split: sum.splits)

lemma retryForever_success:
  "retryForever operation i = Some x \<Longrightarrow> \<exists>j. operation j = Inr x"
proof -
  have "\<exists>j. operation j = Inr x" if "retryForever operation i = Some x"
    by (rule retryForever.raw_induct
          [where P = "\<lambda>operation i x. \<exists>j. operation j = Inr x", OF _ that])
      (auto split: sum.splits)
  then show "retryForever operation i = Some x \<Longrightarrow> \<exists>j. operation j = Inr x" .
qed

lemma RetryNotify_success:
  "RetryNotify operation i t n = Some (Inr x) \<Longrightarrow> \<exists>j. operation j = Inr x"
  by (auto simp add: RetryNotify_def dest: retryUntilStop_success retryForever_success
      split: if_splits)

lemma RetryNotify_at_once:
  "operation i = Inr x \<Longrightarrow> RetryNotify operation i t n = Some (Inr x)"
  by (cases n) (simp_all add: RetryNotify_def retryForever.simps)

section \<open>The patterns recognise the DNS-1123 grammars\<close>

lemma nullable_lang: "nullable r \<longleftrightarrow> [] \<in> lang r"
  by (induction r) (auto intro: star_nil)

lemma star_cons:
  "c # s \<in> star A \<longleftrightarrow> (\<exists>u v. s = u @ v \<and> c # u \<in> A \<and> v \<in> star A)"
proof
  assume "c # s \<in> star A"
  then show "\<exists>u v. s = u @ v \<and> c # u \<in> A \<and> v \<in> star A"
  proof (induction "c # s" arbitrary: s rule: star.induct)
    case (star_app u v)
    show ?case
    proof (cases u)
      case Nil
      with star_app show ?thesis by simp
    next
      case (Cons a u')
      with star_app.hyps have "s = u' @ v" "c # u' \<in> A" "v \<in> star A" by auto
      then show ?thesis by blast
    qed
  qed
next
  assume "\<exists>u v. s = u @ v \<and> c # u \<in> A \<and> v \<in> star A"
  then obtain u v where "s = u @ v" "c # u \<in> A" "v \<in> star A" by blast
  then have "(c # u) @ v \<in> star A" by (intro star_app)
  with \<open>s = u @ v\<close> show "c # s \<in> star A" by simp
qed

lemma deriv_lang: "s \<in> lang (deriv c r) \<longleftrightarrow> c # s \<in> lang r"
proof (induction r arbitrary: s)
  case (Seq r1 r2)
  show ?case
  proof (cases "nullable r1")
    case True
    then show ?thesis
      using Seq by (auto simp: nullable_lang Cons_eq_append_conv) 
  next
    case False
    then show ?thesis
      using Seq by (auto simp: nullable_lang Cons_eq_append_conv)
  qed
next
  case (Star r)
  then show ?case by (auto simp: star_cons)
qed auto

lemma MatchString_lang: "MatchString r s \<longleftrightarrow> s \<in> lang r"
  unfolding MatchString_def
  by (induction s arbitrary: r) (simp_all add: nullable_lang deriv_lang)


lemma lowerAlnum_alnumClass: "inClass [(CHR ''a'', CHR ''z''), (CHR ''0'', CHR ''9'')] c = lowerAlnum c"
  by (simp add: inClass_def lowerAlnum_def)

lemma of_char_dash: "((45::nat) \<le> of_char c \<and> (of_char c :: nat) \<le> 45) = (c = CHR ''-'')"
proof -
  have "(of_char c = (of_char (CHR ''-'') :: nat)) = (c = CHR ''-'')"
    by (rule of_char_eq_iff)
  then show ?thesis by auto
qed

lemma of_char_dot: "((46::nat) \<le> of_char c \<and> (of_char c :: nat) \<le> 46) = (c = CHR ''.'')"
proof -
  have "(of_char c = (of_char (CHR ''.'') :: nat)) = (c = CHR ''.'')"
    by (rule of_char_eq_iff)
  then show ?thesis by auto
qed

lemma inClass_dashAlnum:
  "inClass [(CHR ''-'', CHR ''-''), (CHR ''a'', CHR ''z''), (CHR ''0'', CHR ''9'')] c =
     (lowerAlnum c \<or> c = CHR ''-'')"
  using of_char_dash [of c] by (auto simp add: inClass_def lowerAlnum_def)

lemma inClass_dot: "inClass [(CHR ''.'', CHR ''.'')] c = (c = CHR ''.'')"
  using of_char_dot [of c] by (auto simp add: inClass_def)

lemma star_Class: "star {[c] | c. P c} = {s. list_all P s}"
proof (intro set_eqI iffI)
  fix s assume "s \<in> star {[c] | c. P c}"
  then show "s \<in> {s. list_all P s}"
    by (induction rule: star.induct) auto
next
  fix s assume "s \<in> {s. list_all P s}"
  then have "list_all P s" by simp
  then show "s \<in> star {[c] | c. P c}"
  proof (induction s)
    case Nil
    show ?case by (rule star_nil)
  next
    case (Cons a s)
    then have "[a] \<in> {[c] | c. P c}" "s \<in> star {[c] | c. P c}" by auto
    then have "[a] @ s \<in> star {[c] | c. P c}" by (rule star_app)
    then show ?case by simp
  qed
qed

lemma lang_label: "lang dns1123LabelRegex = {s. isDNS1123Label s}"
proof (intro set_eqI iffI)
  fix s assume "s \<in> lang dns1123LabelRegex"
  then show "s \<in> {s. isDNS1123Label s}"
    by (auto simp: dns1123LabelRegex_def Opt_def alnumClass_def dashAlnumClass_def
        lowerAlnum_alnumClass inClass_dashAlnum star_Class isDNS1123Label_def list_all_iff)
next
  fix s assume "s \<in> {s. isDNS1123Label s}"
  then have s: "s \<noteq> []" "list_all (\<lambda>c. lowerAlnum c \<or> c = CHR ''-'') s"
    "lowerAlnum (hd s)" "lowerAlnum (last s)"
    by (simp_all add: isDNS1123Label_def)
  then obtain c t where ct: "s = c # t" by (cases s) auto
  show "s \<in> lang dns1123LabelRegex"
  proof (cases "t = []")
    case True
    with ct s have "[c] \<in> lang alnumClass"
      by (simp add: alnumClass_def lowerAlnum_alnumClass)
    then have "[c] @ [] \<in> lang dns1123LabelRegex"
      unfolding dns1123LabelRegex_def Opt_def lang.simps by blast
    with ct True show ?thesis by simp
  next
    case False
    then obtain u d where ud: "t = u @ [d]" by (metis rev_exhaust)
    with ct s have "lowerAlnum c" "lowerAlnum d" "list_all (\<lambda>c. lowerAlnum c \<or> c = CHR ''-'') u"
      by auto
    then have "[c] \<in> lang alnumClass" "u \<in> lang (Star dashAlnumClass)" "[d] \<in> lang alnumClass"
      by (simp_all add: alnumClass_def dashAlnumClass_def lowerAlnum_alnumClass
          inClass_dashAlnum star_Class)
    then have "[c] @ (u @ [d]) \<in> lang dns1123LabelRegex"
      unfolding dns1123LabelRegex_def Opt_def lang.simps by blast
    with ct ud show ?thesis by simp
  qed
qed

lemma label_no_dot: "isDNS1123Label l \<Longrightarrow> CHR ''.'' \<notin> set l"
  by (auto simp: isDNS1123Label_def list_all_iff lowerAlnum_def)

lemma splitDots_no_dot: "CHR ''.'' \<notin> set l \<Longrightarrow> splitDots l = [l]"
  by (induction l) auto

lemma splitDots_dot: "CHR ''.'' \<notin> set l \<Longrightarrow> splitDots (l @ CHR ''.'' # r) = l # splitDots r"
  by (induction l) auto

lemma splitDots_nonempty: "splitDots s \<noteq> []"
  by (induction s) (auto split: list.splits)

lemma splitDots_decomp:
  "splitDots s = l # ls \<Longrightarrow>
     CHR ''.'' \<notin> set l \<and>
     ((ls = [] \<and> s = l) \<or> (\<exists>r. s = l @ CHR ''.'' # r \<and> splitDots r = ls))"
proof (induction s arbitrary: l ls)
  case Nil
  then show ?case by simp
next
  case (Cons c s)
  show ?case
  proof (cases "c = CHR ''.''")
    case True
    with Cons.prems show ?thesis by auto
  next
    case False
    obtain l' ls' where sp: "splitDots s = l' # ls'"
      using splitDots_nonempty [of s] by (cases "splitDots s") auto
    with Cons.prems False have "l = c # l'" "ls = ls'" by auto
    with Cons.IH [OF sp] False show ?thesis by auto
  qed
qed


lemma subdomain_sound:
  assumes "rest \<in> star {CHR ''.'' # l | l. isDNS1123Label l}" and "isDNS1123Label l0"
  shows "list_all isDNS1123Label (splitDots (l0 @ rest))"
  using assms
proof (induction arbitrary: l0 rule: star.induct)
  case star_nil
  then show ?case by (simp add: splitDots_no_dot label_no_dot)
next
  case (star_app u v)
  from star_app.hyps(1) obtain l where l: "u = CHR ''.'' # l" "isDNS1123Label l" by blast
  from star_app.IH [OF l(2)] star_app.prems l show ?case
    by (simp add: splitDots_dot label_no_dot)
qed

lemma subdomain_complete:
  assumes "splitDots s = l # ls" and "list_all isDNS1123Label (l # ls)"
  shows "\<exists>rest. s = l @ rest \<and> rest \<in> star {CHR ''.'' # l | l. isDNS1123Label l}"
  using assms
proof (induction ls arbitrary: s l)
  case Nil
  with splitDots_decomp [OF Nil.prems(1)] splitDots_nonempty have "s = l @ []" by auto
  then show ?case using star_nil by blast
next
  case (Cons l' ls')
  from splitDots_decomp [OF Cons.prems(1)]
  obtain r where r: "s = l @ CHR ''.'' # r" "splitDots r = l' # ls'" by auto
  from Cons.prems(2) have lab: "isDNS1123Label l'" "list_all isDNS1123Label (l' # ls')" by simp_all
  from Cons.IH [OF r(2) lab(2)]
  obtain rest where rest: "r = l' @ rest" "rest \<in> star {CHR ''.'' # l | l. isDNS1123Label l}"
    by blast
  from lab(1) have "CHR ''.'' # l' \<in> {CHR ''.'' # l | l. isDNS1123Label l}" by blast
  from this rest(2) have "(CHR ''.'' # l') @ rest \<in> star {CHR ''.'' # l | l. isDNS1123Label l}"
    by (rule star_app)
  with r(1) rest(1) show ?case by auto
qed

lemma lang_dotClass: "lang dotClass = {[CHR ''.'']}"
  by (auto simp: dotClass_def inClass_dot)

lemma lang_dot_label:
  "lang (Seq dotClass dns1123LabelRegex) = {CHR ''.'' # l | l. isDNS1123Label l}"
  unfolding lang.simps lang_dotClass lang_label by auto

lemma lang_domain_eq:
  "lang dns1123DomainRegex =
     {l0 @ rest | l0 rest. isDNS1123Label l0 \<and> rest \<in> star {CHR ''.'' # l | l. isDNS1123Label l}}"
proof -
  have "lang dns1123DomainRegex =
          {u @ v | u v. u \<in> lang dns1123LabelRegex \<and>
                       v \<in> star (lang (Seq dotClass dns1123LabelRegex))}"
    by (simp only: dns1123DomainRegex_def lang.simps(4) lang.simps(6))
  then show ?thesis
    by (simp only: lang_dot_label lang_label mem_Collect_eq)
qed

lemma lang_domain: "lang dns1123DomainRegex = {s. isDNS1123Subdomain s}"
proof (intro set_eqI iffI)
  fix s assume "s \<in> lang dns1123DomainRegex"
  then obtain l0 rest where "s = l0 @ rest" "isDNS1123Label l0"
    "rest \<in> star {CHR ''.'' # l | l. isDNS1123Label l}"
    unfolding lang_domain_eq by blast
  then show "s \<in> {s. isDNS1123Subdomain s}"
    by (simp add: isDNS1123Subdomain_def subdomain_sound)
next
  fix s assume "s \<in> {s. isDNS1123Subdomain s}"
  then have all: "list_all isDNS1123Label (splitDots s)"
    by (simp add: isDNS1123Subdomain_def)
  obtain l ls where sp: "splitDots s = l # ls"
    using splitDots_nonempty [of s] by (cases "splitDots s") auto
  with all have "list_all isDNS1123Label (l # ls)" by simp
  from subdomain_complete [OF sp this]
  obtain rest where "s = l @ rest" "rest \<in> star {CHR ''.'' # l | l. isDNS1123Label l}"
    by blast
  moreover from all sp have "isDNS1123Label l" by simp
  ultimately show "s \<in> lang dns1123DomainRegex"
    unfolding lang_domain_eq by blast
qed

lemma MatchString_label: "MatchString dns1123LabelRegex s = isDNS1123Label s"
  by (simp add: MatchString_lang lang_label)

lemma MatchString_domain: "MatchString dns1123DomainRegex s = isDNS1123Subdomain s"
  by (simp add: MatchString_lang lang_domain)

section \<open>Argument validation\<close>

lemma example_names_valid: "validateInstallationArguments (exampleConfig\<lparr>volumeSize := v\<rparr>) = None"
  by (simp add: validateInstallationArguments_def MatchString_label MatchString_domain
      exampleConfig_def isDNS1123Subdomain_def isDNS1123Label_def lowerAlnum_def)

text \<open>
  C3, as the code has it. The names are accepted exactly when the namespace is a DNS-1123
  label and the claim and volume names are DNS-1123 subdomains; the size is accepted
  exactly when \<open>resource.ParseQuantity\<close> returns a quantity, whatever its sign. A
  rejected name ends the command, and a rejected size ends \<open>installTrident\<close>, with an
  error, with no event and with the cluster unchanged.
\<close>

theorem argument_validation_accepts_iff:
  "(validateInstallationArguments c = None \<longleftrightarrow>
      isDNS1123Label (TridentPodNamespace c) \<and> isDNS1123Subdomain (pvcName c) \<and>
      isDNS1123Subdomain (pvName c)) \<and>
   ((\<exists>q. outcome (validateVolumeSize c w s) = Inr q) \<longleftrightarrow>
      (\<exists>q. ParseQuantity w (volumeSize c) = Inr q)) \<and>
   (validateInstallationArguments (processInstallationArguments c0) \<noteq> None \<longrightarrow>
      events (installCmd c0 w s) = [] \<and> final (installCmd c0 w s) = s \<and>
      (\<exists>e. outcome (installCmd c0 w s) = Inl (Error e))) \<and>
   ((\<forall>q. ParseQuantity w (volumeSize c) \<noteq> Inr q) \<longrightarrow>
      events (installTrident c w s) = [] \<and> final (installTrident c w s) = s \<and>
      (\<exists>e. outcome (installTrident c w s) = Inl (Error e)))"
proof (intro conjI)
  show "validateInstallationArguments c = None \<longleftrightarrow>
      isDNS1123Label (TridentPodNamespace c) \<and> isDNS1123Subdomain (pvcName c) \<and>
      isDNS1123Subdomain (pvName c)"
    by (simp add: validateInstallationArguments_def MatchString_label MatchString_domain)
  show "(\<exists>q. outcome (validateVolumeSize c w s) = Inr q) \<longleftrightarrow>
      (\<exists>q. ParseQuantity w (volumeSize c) = Inr q)"
    by (cases "ParseQuantity w (volumeSize c)") (simp_all add: validateVolumeSize_def)
  show "validateInstallationArguments (processInstallationArguments c0) \<noteq> None \<longrightarrow>
      events (installCmd c0 w s) = [] \<and> final (installCmd c0 w s) = s \<and>
      (\<exists>e. outcome (installCmd c0 w s) = Inl (Error e))"
    by (auto simp add: installCmd_def Let_def)
  show "(\<forall>q. ParseQuantity w (volumeSize c) \<noteq> Inr q) \<longrightarrow>
      events (installTrident c w s) = [] \<and> final (installTrident c w s) = s \<and>
      (\<exists>e. outcome (installTrident c w s) = Inl (Error e))"
  proof
    assume "\<forall>q. ParseQuantity w (volumeSize c) \<noteq> Inr q"
    then obtain err where "ParseQuantity w (volumeSize c) = Inl err"
      by (cases "ParseQuantity w (volumeSize c)") auto
    then have "validateVolumeSize c w =
                 failWith (''volume-size '' @ squote @ volumeSize c @ squote @ '' is invalid; '' @ err)"
      by (simp add: validateVolumeSize_def)
    then show "events (installTrident c w s) = [] \<and> final (installTrident c w s) = s \<and>
      (\<exists>e. outcome (installTrident c w s) = Inl (Error e))"
      by (simp add: installTrident_def preChecks_def existenceChecks_def)
  qed
qed

theorem argument_validation_accepts_iff_witness:
  "validateInstallationArguments
     (processInstallationArguments (exampleConfig\<lparr>TridentPodNamespace := ''Trident''\<rparr>)) \<noteq> None \<and>
   events (installCmd (exampleConfig\<lparr>TridentPodNamespace := ''Trident''\<rparr>) exampleWorld emptyCluster) = [] \<and>
   final (installCmd (exampleConfig\<lparr>TridentPodNamespace := ''Trident''\<rparr>) exampleWorld emptyCluster) =
     emptyCluster \<and>
   ParseQuantity exampleWorld (volumeSize (exampleConfig\<lparr>volumeSize := ''two''\<rparr>)) =
     Inl ''quantities must match the regular expression'' \<and>
   events (installTrident (exampleConfig\<lparr>volumeSize := ''two''\<rparr>) exampleWorld emptyCluster) = [] \<and>
   validateInstallationArguments exampleConfig = None \<and>
   isDNS1123Label (TridentPodNamespace exampleConfig)"
proof -
  let ?c0 = "exampleConfig\<lparr>TridentPodNamespace := ''Trident''\<rparr>"
  let ?cfg = "exampleConfig\<lparr>volumeSize := ''two''\<rparr>"
  have bad: "validateInstallationArguments (processInstallationArguments ?c0) \<noteq> None"
    apply (simp add: validateInstallationArguments_def processInstallationArguments_def
        Let_def exampleConfig_def)
    apply (simp add: MatchString_label)
    apply (simp add: isDNS1123Label_def lowerAlnum_def)
    done
  have parse: "ParseQuantity exampleWorld (volumeSize ?cfg) = Inl ''quantities must match the regular expression''"
    by (simp add: exampleWorld_def)
  then have noparse: "\<forall>q. ParseQuantity exampleWorld (volumeSize ?cfg) \<noteq> Inr q" by simp
  have ok: "validateInstallationArguments exampleConfig = None"
    using example_names_valid [of "volumeSize exampleConfig"] by simp
  from argument_validation_accepts_iff [of exampleConfig exampleWorld emptyCluster ?c0] ok
  have lab: "isDNS1123Label (TridentPodNamespace exampleConfig)" by blast
  from argument_validation_accepts_iff [of ?cfg exampleWorld emptyCluster ?c0] bad noparse
  show ?thesis using parse ok lab by blast
qed

text \<open>
  C3, as stated, asks for a size that parses to a positive value. The size \<open>0\<close>
  parses to the quantity zero, is accepted, and the installation runs to its end.
\<close>

theorem zero_volume_size_is_accepted:
  "validateInstallationArguments (exampleConfig\<lparr>volumeSize := ''0''\<rparr>) = None \<and>
   ParseQuantity exampleWorld (volumeSize (exampleConfig\<lparr>volumeSize := ''0''\<rparr>)) = Inr 0 \<and>
   \<not> (0::int) < 0 \<and>
   outcome (installTrident (exampleConfig\<lparr>volumeSize := ''0''\<rparr>) exampleWorld emptyCluster) = Inr ()"
proof -
  have "outcome (installTrident (exampleConfig\<lparr>volumeSize := ''0''\<rparr>) exampleWorld emptyCluster) = Inr ()"
    by (simp add: install_defs action_defs example_defs numeral_3_eq_3)
  moreover have "ParseQuantity exampleWorld (volumeSize (exampleConfig\<lparr>volumeSize := ''0''\<rparr>)) = Inr 0"
    by (simp add: exampleWorld_def)
  ultimately show ?thesis by (simp add: example_names_valid)
qed

section \<open>The readiness wait for the claim\<close>

lemma waitForPVCBound_never:
  assumes "\<And>i. CheckPVCBound w (pvcName c) i = Inr False" and "k8sTimeout c \<noteq> 0"
  shows "waitForPVCBound c w =
           failWith (''PVC '' @ pvcName c @ '' was not bound after '' @
                     showInt (k8sTimeout c) @ '' seconds'')"
proof -
  have never: "\<And>i. \<exists>e. checkPVCBound c w i = Inl e"
    by (simp add: checkPVCBound_def assms)
  from RetryNotify_never [of "checkPVCBound c w", OF never assms(2)]
  obtain e where
    "RetryNotify (checkPVCBound c w) 1 (k8sTimeout c) (backoffAttempts w) = Some (Inl e)"
    by blast
  moreover from never obtain e0 where "checkPVCBound c w 0 = Inl e0" by blast
  ultimately show ?thesis by (simp add: waitForPVCBound_def)
qed

lemma showInt_180s: "showInt 180000000000 = ''180000000000''"
  by (simp add: showInt_def showNat.simps)

text \<open>
  C2. A readiness wait whose predicate never succeeds should end in a timeout error that
  names the timeout in seconds. With the default timeout of 180 seconds and a claim that
  never becomes bound, the wait for the claim returns an error whose number is the
  duration's count of nanoseconds, 180000000000, followed by the word seconds.
\<close>

theorem pvc_wait_timeout_reports_nanoseconds:
  "k8sTimeout exampleConfig = 180 * 1000000000 \<and>
   outcome (waitForPVCBound exampleConfig neverBoundWorld emptyCluster) =
     Inl (Error ''PVC trident was not bound after 180000000000 seconds'')"
proof -
  have "waitForPVCBound exampleConfig neverBoundWorld =
        failWith (''PVC '' @ pvcName exampleConfig @ '' was not bound after '' @
                  showInt (k8sTimeout exampleConfig) @ '' seconds'')"
    by (rule waitForPVCBound_never) (simp_all add: neverBoundWorld_def exampleConfig_def)
  then show ?thesis
    by (simp add: exampleConfig_def showInt_180s failWith_def)
qed

section \<open>Validation of the daemon-set override\<close>

text \<open>
  C10. The daemon-set override is checked against the node label (key and value), on the
  object and on its pod template, whereas the stateful-set, the deployment and the
  service are checked against the topology's app label; when the daemon-set's check
  fails, the message names the app label's key and value.
\<close>

theorem daemonset_checks_node_label_reports_app_label:
  assumes "ReadDaemonSetFromFile w csiDaemonSetPath = Inr ds"
    and "ReadStatefulSetFromFile w csiStatefulSetPath = Inr ss"
    and "ReadDeploymentFromFile w deploymentPath = Inr d"
    and "ReadServiceFromFile w csiServicePath = Inr sv"
  shows "(validateTridentDaemonSet c w = None \<longrightarrow>
            labelAt (objLabels ds) (TridentNodeLabelKey c) = TridentNodeLabelValue c \<and>
            labelAt (templateLabels ds) (TridentNodeLabelKey c) = TridentNodeLabelValue c) \<and>
         (labelAt (objLabels ds) (TridentNodeLabelKey c) \<noteq> TridentNodeLabelValue c \<longrightarrow>
            validateTridentDaemonSet c w =
              Some (mustHaveLabel ''daemonset'' (appLabelKey c) (appLabelValue c))) \<and>
         (labelAt (objLabels ds) (TridentNodeLabelKey c) = TridentNodeLabelValue c \<and>
          labelAt (templateLabels ds) (TridentNodeLabelKey c) \<noteq> TridentNodeLabelValue c \<longrightarrow>
            validateTridentDaemonSet c w =
              Some (mustHaveLabel (''daemonset'' @ squote @ ''s pod template'')
                      (appLabelKey c) (appLabelValue c))) \<and>
         (validateTridentStatefulSet c w = None \<longrightarrow>
            labelAt (objLabels ss) (appLabelKey c) = appLabelValue c \<and>
            labelAt (templateLabels ss) (appLabelKey c) = appLabelValue c) \<and>
         (validateTridentDeployment c w = None \<longrightarrow>
            labelAt (objLabels d) (appLabelKey c) = appLabelValue c \<and>
            labelAt (templateLabels d) (appLabelKey c) = appLabelValue c) \<and>
         (validateTridentService c w = None \<longrightarrow>
            labelAt (objLabels sv) (appLabelKey c) = appLabelValue c)"
  using assms
  by (simp add: validateTridentDaemonSet_def validateTridentStatefulSet_def
        validateTridentDeployment_def validateTridentService_def split: if_splits)

theorem daemonset_checks_node_label_reports_app_label_witness:
  "ReadDaemonSetFromFile (exampleWorld\<lparr>ReadDaemonSetFromFile := (\<lambda>p. Inr appLabelledDaemonSet)\<rparr>)
     csiDaemonSetPath = Inr appLabelledDaemonSet \<and>
   labelAt (objLabels appLabelledDaemonSet) (appLabelKey exampleCSIConfig) =
     appLabelValue exampleCSIConfig \<and>
   labelAt (objLabels appLabelledDaemonSet) (TridentNodeLabelKey exampleCSIConfig) \<noteq>
     TridentNodeLabelValue exampleCSIConfig \<and>
   validateTridentDaemonSet exampleCSIConfig
     (exampleWorld\<lparr>ReadDaemonSetFromFile := (\<lambda>p. Inr appLabelledDaemonSet)\<rparr>) =
     Some (''the Trident daemonset must have the label '' @ dquote @
           ''app: controller.csi.trident.netapp.io'' @ dquote) \<and>
   validateTridentStatefulSet exampleCSIConfig
     (exampleWorld\<lparr>ReadStatefulSetFromFile := (\<lambda>p. Inr appLabelledDaemonSet)\<rparr>) = None"
proof -
  let ?w = "exampleWorld\<lparr>ReadDaemonSetFromFile := (\<lambda>p. Inr appLabelledDaemonSet)\<rparr>"
  have r: "ReadDaemonSetFromFile ?w csiDaemonSetPath = Inr appLabelledDaemonSet"
    by simp
  have r2: "ReadStatefulSetFromFile ?w csiStatefulSetPath = Inr exampleWorkload"
    "ReadDeploymentFromFile ?w deploymentPath = Inr exampleWorkload"
    "ReadServiceFromFile ?w csiServicePath = Inr exampleWorkload"
    by (simp_all add: exampleWorld_def)
  have app: "labelAt (objLabels appLabelledDaemonSet) (appLabelKey exampleCSIConfig) =
     appLabelValue exampleCSIConfig"
    by (simp add: labelAt_def appLabelledDaemonSet_def exampleCSIConfig_labels)
  have node: "labelAt (objLabels appLabelledDaemonSet) (TridentNodeLabelKey exampleCSIConfig) \<noteq>
     TridentNodeLabelValue exampleCSIConfig"
    by (simp add: labelAt_def appLabelledDaemonSet_def exampleCSIConfig_labels)
  have ss: "validateTridentStatefulSet exampleCSIConfig
     (exampleWorld\<lparr>ReadStatefulSetFromFile := (\<lambda>p. Inr appLabelledDaemonSet)\<rparr>) = None"
    by (simp add: validateTridentStatefulSet_def labelAt_def appLabelledDaemonSet_def
        exampleCSIConfig_labels findTridentImage_def)
  from daemonset_checks_node_label_reports_app_label [OF r r2, of exampleCSIConfig] node
  have "validateTridentDaemonSet exampleCSIConfig ?w =
          Some (mustHaveLabel ''daemonset'' (appLabelKey exampleCSIConfig)
                  (appLabelValue exampleCSIConfig))"
    by blast
  then show ?thesis
    using r app node ss by (simp add: mustHaveLabel_def exampleCSIConfig_labels)
qed

section \<open>The manifest of the bootstrap volume\<close>

lemma createCHAPSecret_run:
  assumes "CheckSecretExistsError w (CHAPSecretName v) = None"
    and "fails w (chapSecretOf v) = None"
  shows "createCHAPSecret c w v s =
           (Inr (CHAPSecretName v),
            (if CHAPSecretName v \<in> set (secrets s) then [] else [chapSecretOf v]),
            (if CHAPSecretName v \<in> set (secrets s) then s
             else s\<lparr>secrets := CHAPSecretName v # secrets s\<rparr>))"
  using assms
  by (simp add: createCHAPSecret_def chapSecretOf_def Let_def andThen_def CheckSecretExists_def
      attempt_def succeed_def)

text \<open>
  C5. Once the backend has allocated the volume, \<open>createPV\<close> chooses the manifest from
  the access information alone, in this order: a network-filesystem server yields the
  network-filesystem manifest; otherwise a block-target portal with no target secret
  yields the plain block manifest; otherwise a portal with a target secret yields (on a
  cluster that meets the floor, when the secret can be checked and created) the
  authenticated manifest that names the derived secret, and over two consecutive calls
  the secret is created once, or not at all when a secret of that name existed before;
  with neither field the call fails as an unrecognized volume type.
\<close>

theorem volume_manifest_selection:
  assumes "Storage sb = pool # pools"
    and "AddVolume sb (volConfigOf c sb) pool = Inr v"
  shows "(NfsServerIP v \<noteq> [] \<longrightarrow>
            events (createPV c w sb s) =
              [BackendAddVolume (volConfigOf c sb) pool,
               CreateObjectByYAML (GetNFSPVYAML (pvName c) (volumeSize c) (pvcName c)
                 (TridentPodNamespace c) (NfsServerIP v) (NfsPath v) (appLabelValue c))]) \<and>
         (NfsServerIP v = [] \<and> IscsiTargetPortal v \<noteq> [] \<and> IscsiTargetSecret v = [] \<longrightarrow>
            events (createPV c w sb s) =
              [BackendAddVolume (volConfigOf c sb) pool,
               CreateObjectByYAML (GetISCSIPVYAML (pvName c) (volumeSize c) (pvcName c)
                 (TridentPodNamespace c) (IscsiTargetPortal v) (IscsiTargetIQN v)
                 (IscsiLunNumber v) (appLabelValue c))]) \<and>
         (NfsServerIP v = [] \<and> IscsiTargetPortal v \<noteq> [] \<and> IscsiTargetSecret v \<noteq> [] \<and>
          AtLeast (Version w) (1, 7, 0) \<and> CheckSecretExistsError w (CHAPSecretName v) = None \<and>
          fails w (chapSecretOf v) = None \<longrightarrow>
            events (createPV c w sb s) =
              BackendAddVolume (volConfigOf c sb) pool #
              (if CHAPSecretName v \<in> set (secrets s) then [] else [chapSecretOf v]) @
              [CreateObjectByYAML (GetCHAPISCSIPVYAML (pvName c) (volumeSize c) (pvcName c)
                 (TridentPodNamespace c) (CHAPSecretName v) (IscsiTargetPortal v)
                 (IscsiTargetIQN v) (IscsiLunNumber v) (appLabelValue c))] \<and>
            filter isSecretCreate
              (events (createPV c w sb s) @ events (createPV c w sb (final (createPV c w sb s)))) =
              (if CHAPSecretName v \<in> set (secrets s) then [] else [chapSecretOf v])) \<and>
         (NfsServerIP v = [] \<and> IscsiTargetPortal v = [] \<longrightarrow>
            createPV c w sb s =
              (Inl (Error ''unrecognized volume type''), [BackendAddVolume (volConfigOf c sb) pool], s))"
proof (intro conjI impI)
  assume "NfsServerIP v \<noteq> []"
  with assms show "events (createPV c w sb s) =
              [BackendAddVolume (volConfigOf c sb) pool,
               CreateObjectByYAML (GetNFSPVYAML (pvName c) (volumeSize c) (pvcName c)
                 (TridentPodNamespace c) (NfsServerIP v) (NfsPath v) (appLabelValue c))]"
    by (simp add: createPV_def getPVYAML_def volConfigOf_def Let_def events_andThen
        outcome_andThen final_andThen split: option.splits)
next
  assume "NfsServerIP v = [] \<and> IscsiTargetPortal v \<noteq> [] \<and> IscsiTargetSecret v = []"
  with assms show "events (createPV c w sb s) =
              [BackendAddVolume (volConfigOf c sb) pool,
               CreateObjectByYAML (GetISCSIPVYAML (pvName c) (volumeSize c) (pvcName c)
                 (TridentPodNamespace c) (IscsiTargetPortal v) (IscsiTargetIQN v)
                 (IscsiLunNumber v) (appLabelValue c))]"
    by (simp add: createPV_def getPVYAML_def volConfigOf_def Let_def events_andThen
        outcome_andThen final_andThen split: option.splits)
next
  assume "NfsServerIP v = [] \<and> IscsiTargetPortal v = []"
  with assms show "createPV c w sb s =
              (Inl (Error ''unrecognized volume type''), [BackendAddVolume (volConfigOf c sb) pool], s)"
    by (simp add: createPV_def getPVYAML_def volConfigOf_def Let_def andThen_def addVolume_def
        failWith_def)
next
  assume chap: "NfsServerIP v = [] \<and> IscsiTargetPortal v \<noteq> [] \<and> IscsiTargetSecret v \<noteq> [] \<and>
          AtLeast (Version w) (1, 7, 0) \<and> CheckSecretExistsError w (CHAPSecretName v) = None \<and>
          fails w (chapSecretOf v) = None"
  then have sec: "\<And>t. createCHAPSecret c w v t =
           (Inr (CHAPSecretName v),
            (if CHAPSecretName v \<in> set (secrets t) then [] else [chapSecretOf v]),
            (if CHAPSecretName v \<in> set (secrets t) then t
             else t\<lparr>secrets := CHAPSecretName v # secrets t\<rparr>))"
    by (intro createCHAPSecret_run) simp_all
  have run: "\<And>t. events (createPV c w sb t) =
              BackendAddVolume (volConfigOf c sb) pool #
              (if CHAPSecretName v \<in> set (secrets t) then [] else [chapSecretOf v]) @
              [CreateObjectByYAML (GetCHAPISCSIPVYAML (pvName c) (volumeSize c) (pvcName c)
                 (TridentPodNamespace c) (CHAPSecretName v) (IscsiTargetPortal v)
                 (IscsiTargetIQN v) (IscsiLunNumber v) (appLabelValue c))]"
    using assms chap
    by (simp add: createPV_def getPVYAML_def volConfigOf_def Let_def events_andThen
        outcome_andThen final_andThen sec split: option.splits)
  have fin: "CHAPSecretName v \<in> set (secrets (final (createPV c w sb s)))"
    using assms chap
    by (simp add: createPV_def getPVYAML_def volConfigOf_def Let_def events_andThen
        outcome_andThen final_andThen sec split: option.splits)
  show "events (createPV c w sb s) =
              BackendAddVolume (volConfigOf c sb) pool #
              (if CHAPSecretName v \<in> set (secrets s) then [] else [chapSecretOf v]) @
              [CreateObjectByYAML (GetCHAPISCSIPVYAML (pvName c) (volumeSize c) (pvcName c)
                 (TridentPodNamespace c) (CHAPSecretName v) (IscsiTargetPortal v)
                 (IscsiTargetIQN v) (IscsiLunNumber v) (appLabelValue c))]"
    by (rule run)
  show "filter isSecretCreate
              (events (createPV c w sb s) @ events (createPV c w sb (final (createPV c w sb s)))) =
              (if CHAPSecretName v \<in> set (secrets s) then [] else [chapSecretOf v])"
    using fin by (simp add: run chapSecretOf_def)
qed


theorem volume_manifest_selection_witness:
  "Storage chapBackend = ''aggr1'' # [] \<and>
   AddVolume chapBackend (volConfigOf exampleConfig chapBackend) ''aggr1'' = Inr chapVolume \<and>
   NfsServerIP chapVolume = [] \<and> IscsiTargetPortal chapVolume \<noteq> [] \<and>
   IscsiTargetSecret chapVolume \<noteq> [] \<and> AtLeast (Version exampleWorld) (1, 7, 0) \<and>
   CheckSecretExistsError exampleWorld (CHAPSecretName chapVolume) = None \<and>
   fails exampleWorld (chapSecretOf chapVolume) = None \<and>
   CHAPSecretName chapVolume \<notin> set (secrets emptyCluster) \<and>
   events (createPV exampleConfig exampleWorld chapBackend emptyCluster) =
     [BackendAddVolume (volConfigOf exampleConfig chapBackend) ''aggr1'',
      chapSecretOf chapVolume,
      CreateObjectByYAML (GetCHAPISCSIPVYAML ''trident'' ''2Gi'' ''trident'' ''trident''
        ''trident-chap-san-user'' ''10.0.0.2:3260'' ''iqn.1992-08.com.netapp:sn.1'' 0
        ''trident.netapp.io'')] \<and>
   filter isSecretCreate
     (events (createPV exampleConfig exampleWorld chapBackend emptyCluster) @
      events (createPV exampleConfig exampleWorld chapBackend
                (final (createPV exampleConfig exampleWorld chapBackend emptyCluster)))) =
     [chapSecretOf chapVolume]"
proof -
  have h1: "Storage chapBackend = ''aggr1'' # []"
    and h2: "AddVolume chapBackend (volConfigOf exampleConfig chapBackend) ''aggr1'' = Inr chapVolume"
    by (simp_all add: chapBackend_def)
  have h3: "NfsServerIP chapVolume = [] \<and> IscsiTargetPortal chapVolume \<noteq> [] \<and>
      IscsiTargetSecret chapVolume \<noteq> [] \<and> AtLeast (Version exampleWorld) (1, 7, 0) \<and>
      CheckSecretExistsError exampleWorld (CHAPSecretName chapVolume) = None \<and>
      fails exampleWorld (chapSecretOf chapVolume) = None"
    by (simp add: chapVolume_def exampleWorld_def AtLeast_def)
  have h4: "CHAPSecretName chapVolume \<notin> set (secrets emptyCluster)"
    by (simp add: emptyCluster_def)
  have fields:
    "pvName exampleConfig = ''trident''" "volumeSize exampleConfig = ''2Gi''"
    "pvcName exampleConfig = ''trident''" "TridentPodNamespace exampleConfig = ''trident''"
    "appLabelValue exampleConfig = ''trident.netapp.io''"
    "CHAPSecretName chapVolume = ''trident-chap-san-user''"
    "IscsiTargetPortal chapVolume = ''10.0.0.2:3260''"
    "IscsiTargetIQN chapVolume = ''iqn.1992-08.com.netapp:sn.1''"
    "IscsiLunNumber chapVolume = 0"
    by (simp_all add: exampleConfig_def chapVolume_def)
  from volume_manifest_selection [OF h1 h2, of exampleWorld emptyCluster] h3
  have "events (createPV exampleConfig exampleWorld chapBackend emptyCluster) =
          BackendAddVolume (volConfigOf exampleConfig chapBackend) ''aggr1'' #
          (if CHAPSecretName chapVolume \<in> set (secrets emptyCluster) then []
           else [chapSecretOf chapVolume]) @
          [CreateObjectByYAML (GetCHAPISCSIPVYAML (pvName exampleConfig) (volumeSize exampleConfig)
             (pvcName exampleConfig) (TridentPodNamespace exampleConfig)
             (CHAPSecretName chapVolume) (IscsiTargetPortal chapVolume)
             (IscsiTargetIQN chapVolume) (IscsiLunNumber chapVolume)
             (appLabelValue exampleConfig))] \<and>
        filter isSecretCreate
           (events (createPV exampleConfig exampleWorld chapBackend emptyCluster) @
            events (createPV exampleConfig exampleWorld chapBackend
                      (final (createPV exampleConfig exampleWorld chapBackend emptyCluster)))) =
           (if CHAPSecretName chapVolume \<in> set (secrets emptyCluster) then []
            else [chapSecretOf chapVolume])"
    by blast
  note run0 = this
  have h4': "(CHAPSecretName chapVolume \<in> set (secrets emptyCluster)) = False"
    using h4 by simp
  note run1 = run0 [unfolded h4' if_False append_Cons append_Nil]
  note run = run1 [unfolded fields]

  from h1 h2 h3 h4 run show ?thesis
    by blast
qed

section \<open>An unusable claim stops the installation before any change\<close>

lemma lacksLabel_labelAt:
  "v \<noteq> [] \<Longrightarrow> lacksLabel ls k v \<Longrightarrow> ls = None \<or> labelAt ls k \<noteq> v"
  by (auto simp add: lacksLabel_def labelAt_def split: option.splits)

lemma checkPVC_incompatible:
  assumes "CheckPVCExists w (pvcName c) = Inr True"
    and "GetPVC w (pvcName c) = Inr claim"
    and "incompatibleClaim c claim"
    and "appLabelValue c \<noteq> []"
  shows "checkPVC c w =
           failWith (if pvcPhase claim = ClaimLost then claimLostMessage c
                     else if pvcPhase claim = ClaimBound \<and> pvcVolumeName claim \<noteq> pvName c
                       then claimBoundElsewhereMessage c
                     else claimUnlabelledMessage c)"
  using assms lacksLabel_labelAt [of "appLabelValue c" "pvcLabels claim" "appLabelKey c"]
  by (auto simp add: checkPVC_def incompatibleClaim_def claimLostMessage_def
      claimBoundElsewhereMessage_def claimUnlabelledMessage_def)

lemma preChecks_fails_with_checkPVC:
  assumes "checkPVC c w = failWith m"
  shows "\<exists>e. outcome (preChecks c w s) = Inl (Error e)"
proof -
  from assms have "\<exists>e. outcome (preChecks c w s) = Inl e"
    by (simp add: preChecks_def existenceChecks_def outcome_andThen split: sum.splits)
  with returns_outcome [OF preChecks_returns] show ?thesis by blast
qed

lemma preChecks_message_of_checkPVC:
  assumes "checkPVC c w = failWith m"
    and "ParseQuantity w (volumeSize c) = Inr q"
    and "\<And>t. outcome (ensureNotInstalled c w t) = Inr ()"
    and "CheckNamespaceExists w (TridentPodNamespace c) = Inr b"
  shows "outcome (preChecks c w s) = Inl (Error m)"
  using assms
  by (simp add: preChecks_def existenceChecks_def outcome_andThen validateVolumeSize_def
      checkNamespace_def split: sum.splits)

lemma installTrident_precheck_failure:
  assumes "outcome (preChecks c w s) = Inl e"
  shows "outcome (installTrident c w s) = Inl e"
    and "events (installTrident c w s) = events (preChecks c w s)"
    and "final (installTrident c w s) = s"
  using assms keeps_run [OF preChecks_keeps, of c w s]
  by (cases "preChecks c w s"; simp add: installTrident_def outcome_andThen events_andThen
      final_andThen)+

lemma preChecks_no_mutation: "filter isMutation (events (preChecks c w s)) = []"
proof -
  obtain r evs s' where p: "preChecks c w s = (r, evs, s')" by (cases "preChecks c w s")
  from preChecks_phase [OF p] isMutation_phase have "\<forall>e\<in>set evs. \<not> isMutation e" by blast
  with p show ?thesis by (simp add: filter_empty_conv)
qed

text \<open>
  C4. When the claim exists and is in the Lost phase, or is Bound to a volume other than
  the intended one, or lacks the topology's label with the expected value (which is not
  the empty string), the installation returns an error, performs no event that changes
  anything and leaves the cluster as it was; when the checks that precede the claim's
  pass, the error is the one that names the remedy for that claim.
\<close>

theorem incompatible_claim_aborts_before_mutation:
  assumes "CheckPVCExists w (pvcName c) = Inr True"
    and "GetPVC w (pvcName c) = Inr claim"
    and "incompatibleClaim c claim"
    and "appLabelValue c \<noteq> []"
  shows "(\<exists>e. outcome (installTrident c w s) = Inl (Error e)) \<and>
         filter isMutation (events (installTrident c w s)) = [] \<and>
         final (installTrident c w s) = s \<and>
         ((\<exists>q. ParseQuantity w (volumeSize c) = Inr q) \<and>
          (\<forall>t. outcome (ensureNotInstalled c w t) = Inr ()) \<and>
          (\<exists>b. CheckNamespaceExists w (TridentPodNamespace c) = Inr b) \<longrightarrow>
            outcome (installTrident c w s) =
              Inl (Error (if pvcPhase claim = ClaimLost then claimLostMessage c
                          else if pvcPhase claim = ClaimBound \<and> pvcVolumeName claim \<noteq> pvName c
                            then claimBoundElsewhereMessage c
                          else claimUnlabelledMessage c)))"
proof -
  let ?msg = "if pvcPhase claim = ClaimLost then claimLostMessage c
                   else if pvcPhase claim = ClaimBound \<and> pvcVolumeName claim \<noteq> pvName c
                     then claimBoundElsewhereMessage c
                   else claimUnlabelledMessage c"
  have chk: "checkPVC c w = failWith ?msg"
    by (rule checkPVC_incompatible [OF assms])
  from preChecks_fails_with_checkPVC [OF chk]
  obtain e where e: "outcome (preChecks c w s) = Inl (Error e)" by blast
  note run = installTrident_precheck_failure [OF e]
  have "outcome (installTrident c w s) = Inl (Error ?msg)"
    if "\<exists>q. ParseQuantity w (volumeSize c) = Inr q"
      and "\<forall>t. outcome (ensureNotInstalled c w t) = Inr ()"
      and "\<exists>b. CheckNamespaceExists w (TridentPodNamespace c) = Inr b"
  proof -
    from that obtain q b where "ParseQuantity w (volumeSize c) = Inr q"
      "CheckNamespaceExists w (TridentPodNamespace c) = Inr b" by blast
    from preChecks_message_of_checkPVC [OF chk this(1) _ this(2)] that(2)
    have "outcome (preChecks c w s) = Inl (Error ?msg)" by blast
    then show ?thesis by (rule installTrident_precheck_failure(1))
  qed
  with run show ?thesis
    by (simp add: preChecks_no_mutation)
qed


theorem incompatible_claim_aborts_before_mutation_witness:
  "CheckPVCExists boundElsewhereWorld (pvcName exampleConfig) = Inr True \<and>
   GetPVC boundElsewhereWorld (pvcName exampleConfig) =
     Inr (examplePVC\<lparr>pvcVolumeName := ''other-pv''\<rparr>) \<and>
   incompatibleClaim exampleConfig (examplePVC\<lparr>pvcVolumeName := ''other-pv''\<rparr>) \<and>
   appLabelValue exampleConfig \<noteq> [] \<and>
   outcome (installTrident exampleConfig boundElsewhereWorld emptyCluster) =
     Inl (Error (''PVC trident is Bound, but not to PV trident; '' @
                 ''please specify a different PV and/or PVC'')) \<and>
   filter isMutation (events (installTrident exampleConfig boundElsewhereWorld emptyCluster)) = [] \<and>
   final (installTrident exampleConfig boundElsewhereWorld emptyCluster) = emptyCluster"
proof -
  let ?claim = "examplePVC\<lparr>pvcVolumeName := ''other-pv''\<rparr>"
  have h1: "CheckPVCExists boundElsewhereWorld (pvcName exampleConfig) = Inr True"
    and h2: "GetPVC boundElsewhereWorld (pvcName exampleConfig) = Inr ?claim"
    by (simp_all add: boundElsewhereWorld_def)
  have h3: "incompatibleClaim exampleConfig ?claim"
    by (simp add: incompatibleClaim_def examplePVC_def exampleConfig_def)
  have h4: "appLabelValue exampleConfig \<noteq> []"
    by (simp add: exampleConfig_def)
  have pre: "\<exists>q. ParseQuantity boundElsewhereWorld (volumeSize exampleConfig) = Inr q"
    "\<forall>t. outcome (ensureNotInstalled exampleConfig boundElsewhereWorld t) = Inr ()"
    "\<exists>b. CheckNamespaceExists boundElsewhereWorld (TridentPodNamespace exampleConfig) = Inr b"
    by (auto simp add: boundElsewhereWorld_def exampleWorld_def exampleConfig_def
        ensureNotInstalled_def)
  have msg: "(if pvcPhase ?claim = ClaimLost then claimLostMessage exampleConfig
              else if pvcPhase ?claim = ClaimBound \<and> pvcVolumeName ?claim \<noteq> pvName exampleConfig
                then claimBoundElsewhereMessage exampleConfig
              else claimUnlabelledMessage exampleConfig) =
             ''PVC trident is Bound, but not to PV trident; '' @
             ''please specify a different PV and/or PVC''"
    by (simp add: examplePVC_def exampleConfig_def claimBoundElsewhereMessage_def)
  from incompatible_claim_aborts_before_mutation [OF h1 h2 h3 h4, of emptyCluster] pre
  have "outcome (installTrident exampleConfig boundElsewhereWorld emptyCluster) =
          Inl (Error (if pvcPhase ?claim = ClaimLost then claimLostMessage exampleConfig
              else if pvcPhase ?claim = ClaimBound \<and> pvcVolumeName ?claim \<noteq> pvName exampleConfig
                then claimBoundElsewhereMessage exampleConfig
              else claimUnlabelledMessage exampleConfig))"
    and "filter isMutation (events (installTrident exampleConfig boundElsewhereWorld emptyCluster)) = []"
    and "final (installTrident exampleConfig boundElsewhereWorld emptyCluster) = emptyCluster"
    by blast+
  with h1 h2 h3 h4 show ?thesis
    unfolding msg by blast
qed

section \<open>The dry run\<close>

lemma installTrident_dry:
  assumes "dryRun c"
  shows "events (installTrident c w s) = events (preChecks c w s)"
    and "final (installTrident c w s) = s"
    and "outcome (installTrident c w s) =
           (case outcome (preChecks c w s) of Inl e \<Rightarrow> Inl e | Inr locals \<Rightarrow> Inr ())"
  using assms keeps_run [OF preChecks_keeps, of c w s]
  by (cases "preChecks c w s"; simp add: installTrident_def outcome_andThen events_andThen
      final_andThen split: sum.splits)+

lemma preChecks_without_volume:
  assumes "existenceChecks c w s = (Inr (nsE, pvcE, False), evs0, s0)"
  shows "events (preChecks c w s) = evs0 @ events (loadStorageDriver c w s0)"
    and "outcome (preChecks c w s) =
           (case outcome (loadStorageDriver c w s0) of
              Inl e \<Rightarrow> Inl e | Inr sb \<Rightarrow> Inr (nsE, pvcE, False, Some sb))"
  using assms
  by (simp_all add: preChecks_def loadDriverIfNeeded_def outcome_andThen events_andThen
      final_andThen split: sum.splits)

lemma loadStorageDriver_first: "events (loadStorageDriver c w s) = Stat setupPath # tl (events (loadStorageDriver c w s))"
  by (simp add: loadStorageDriver_def events_andThen)

lemma loadStorageDriver_start_failure:
  assumes "StatNotExist w setupPath = None" and "StatNotExist w backendConfigFilePath = None"
    and "ReadFileResult w backendConfigFilePath = Inr body" and "NewStorageBackend w body = Inl e"
  shows "loadStorageDriver c w s =
           (Inl (Error (''could not start the storage backend driver; '' @ e)),
            [Stat setupPath, Stat backendConfigFilePath, ReadFile backendConfigFilePath,
             NewStorageBackendForConfig body], s)"
  using assms
  by (simp add: loadStorageDriver_def andThen_def stat_def readFile_def
      NewStorageBackendForConfig'_def failWith_def)

text \<open>
  C7. A dry run performs no event that changes anything and leaves the cluster as it
  was. When its checks of the namespace, claim and volume pass and find no volume, it
  goes on to load the storage driver (starting with the check of the setup directory),
  its events are those of the checks followed by those of the loading, and its outcome
  is the error of the loading, if any, and success otherwise; a backend configuration
  from which the driver cannot be started gives the error that says so.
\<close>

theorem dry_run_loads_driver_and_changes_nothing:
  assumes "dryRun c"
  shows "filter isMutation (events (installTrident c w s)) = [] \<and>
         final (installTrident c w s) = s \<and>
         (\<forall>nsE pvcE evs0 s0.
            existenceChecks c w s = (Inr (nsE, pvcE, False), evs0, s0) \<longrightarrow>
              events (installTrident c w s) = evs0 @ events (loadStorageDriver c w s0) \<and>
              events (loadStorageDriver c w s0) =
                Stat setupPath # tl (events (loadStorageDriver c w s0)) \<and>
              outcome (installTrident c w s) =
                (case outcome (loadStorageDriver c w s0) of
                   Inl e \<Rightarrow> Inl e | Inr sb \<Rightarrow> Inr ())) \<and>
         (\<forall>body e t.
            StatNotExist w setupPath = None \<and> StatNotExist w backendConfigFilePath = None \<and>
            ReadFileResult w backendConfigFilePath = Inr body \<and> NewStorageBackend w body = Inl e \<longrightarrow>
              outcome (loadStorageDriver c w t) =
                Inl (Error (''could not start the storage backend driver; '' @ e)))"
proof (intro conjI allI impI)
  show "filter isMutation (events (installTrident c w s)) = []"
    by (simp add: installTrident_dry(1) [OF assms] preChecks_no_mutation)
  show "final (installTrident c w s) = s"
    by (rule installTrident_dry(2) [OF assms])
next
  fix nsE pvcE evs0 s0
  assume ex: "existenceChecks c w s = (Inr (nsE, pvcE, False), evs0, s0)"
  show "events (installTrident c w s) = evs0 @ events (loadStorageDriver c w s0)"
    by (simp add: installTrident_dry(1) [OF assms] preChecks_without_volume(1) [OF ex])
  show "events (loadStorageDriver c w s0) = Stat setupPath # tl (events (loadStorageDriver c w s0))"
    by (rule loadStorageDriver_first)
  show "outcome (installTrident c w s) =
          (case outcome (loadStorageDriver c w s0) of Inl e \<Rightarrow> Inl e | Inr sb \<Rightarrow> Inr ())"
    by (simp add: installTrident_dry(3) [OF assms] preChecks_without_volume(2) [OF ex]
        split: sum.splits)
next
  fix body e t
  assume "StatNotExist w setupPath = None \<and> StatNotExist w backendConfigFilePath = None \<and>
            ReadFileResult w backendConfigFilePath = Inr body \<and> NewStorageBackend w body = Inl e"
  then show "outcome (loadStorageDriver c w t) =
                Inl (Error (''could not start the storage backend driver; '' @ e))"
    by (simp add: loadStorageDriver_start_failure)
qed

theorem dry_run_loads_driver_and_changes_nothing_witness:
  "dryRun (exampleConfig\<lparr>dryRun := True\<rparr>) \<and>
   existenceChecks (exampleConfig\<lparr>dryRun := True\<rparr>) brokenBackendWorld emptyCluster =
     (Inr (False, False, False), [], emptyCluster) \<and>
   events (installTrident (exampleConfig\<lparr>dryRun := True\<rparr>) brokenBackendWorld emptyCluster) =
     [Stat setupPath, Stat backendConfigFilePath, ReadFile backendConfigFilePath,
      NewStorageBackendForConfig ''{}''] \<and>
   outcome (installTrident (exampleConfig\<lparr>dryRun := True\<rparr>) brokenBackendWorld emptyCluster) =
     Inl (Error ''could not start the storage backend driver; invalid character'') \<and>
   filter isMutation
     (events (installTrident (exampleConfig\<lparr>dryRun := True\<rparr>) brokenBackendWorld emptyCluster)) = []"
proof -
  let ?cfg = "exampleConfig\<lparr>dryRun := True\<rparr>"
  have dry: "dryRun ?cfg" by simp
  have ex: "existenceChecks ?cfg brokenBackendWorld emptyCluster =
              (Inr (False, False, False), [], emptyCluster)"
    by (simp add: existenceChecks_def validateVolumeSize_def ensureNotInstalled_def
        checkNamespace_def checkPVC_def checkPV_def brokenBackendWorld_def exampleWorld_def
        exampleConfig_def succeed_def andThen_def)
  have load: "loadStorageDriver ?cfg brokenBackendWorld emptyCluster =
      (Inl (Error (''could not start the storage backend driver; '' @ ''invalid character'')),
       [Stat setupPath, Stat backendConfigFilePath, ReadFile backendConfigFilePath,
        NewStorageBackendForConfig ''{}''], emptyCluster)"
    by (rule loadStorageDriver_start_failure)
      (simp_all add: brokenBackendWorld_def exampleWorld_def)
  from dry_run_loads_driver_and_changes_nothing [OF dry, of brokenBackendWorld emptyCluster] ex
  have "events (installTrident ?cfg brokenBackendWorld emptyCluster) =
          [] @ events (loadStorageDriver ?cfg brokenBackendWorld emptyCluster)"
    and "outcome (installTrident ?cfg brokenBackendWorld emptyCluster) =
          (case outcome (loadStorageDriver ?cfg brokenBackendWorld emptyCluster) of
             Inl e \<Rightarrow> Inl e | Inr sb \<Rightarrow> Inr ())"
    and "filter isMutation (events (installTrident ?cfg brokenBackendWorld emptyCluster)) = []"
    by blast+
  with dry ex show ?thesis
    by (simp add: load)
qed

section \<open>A volume that exists\<close>

lemma existenceChecks_volume_found:
  assumes "CheckPVExists w (pvName c) = Inr True"
    and "existenceChecks c w s = (Inr (nsE, pvcE, pvE), evs, s')"
  shows "pvE"
proof -
  have "\<And>q t b. outcome (checkPV c w q t) = Inr b \<Longrightarrow> b"
    using assms(1)
    by (simp add: checkPV_def outcome_andThen split: sum.splits if_splits option.splits)
  moreover from assms(2) have "outcome (existenceChecks c w s) = Inr (nsE, pvcE, pvE)"
    by simp
  ultimately show ?thesis
    by (auto simp add: existenceChecks_def outcome_andThen split: sum.splits)
qed

lemma preChecks_volume_found:
  assumes "CheckPVExists w (pvName c) = Inr True"
  shows "preChecks c w s =
           (case existenceChecks c w s of
              (Inl e, evs, s') \<Rightarrow> (Inl e, evs, s')
            | (Inr (nsE, pvcE, pvE), evs, s') \<Rightarrow> (Inr (nsE, pvcE, True, None), evs, s'))"
proof (cases "existenceChecks c w s")
  case (fields r evs s')
  show ?thesis
  proof (cases r)
    case (Inl e)
    with fields show ?thesis by (simp add: preChecks_def andThen_def)
  next
    case (Inr found)
    obtain nsE pvcE pvE where f: "found = (nsE, pvcE, pvE)" by (cases found)
    with fields Inr existenceChecks_volume_found [OF assms, of s nsE pvcE pvE evs s']
    show ?thesis
      by (simp add: preChecks_def andThen_def loadDriverIfNeeded_def succeed_def)
  qed
qed

lemma existenceChecks_emits_warnings:
  "existenceChecks c w s = (r, evs, s') \<Longrightarrow> \<forall>e\<in>set evs. phaseOf e = Logging"
  using emits_run [OF existenceChecks_emits] by fastforce


lemma preChecks_volume_found_run:
  assumes "CheckPVExists w (pvName c) = Inr True"
    and "preChecks c w s = (r, evs, s')"
  shows "\<forall>e\<in>set evs. phaseOf e = Logging"
    and "r = Inr (nsE, pvcE, pvE, sbo) \<Longrightarrow> pvE \<and> sbo = None"
proof -
  obtain r' evs' s'' where ex: "existenceChecks c w s = (r', evs', s'')"
    by (cases "existenceChecks c w s")
  from assms(2) ex have "evs = evs'"
    by (auto simp add: preChecks_volume_found [OF assms(1)] split: sum.splits prod.splits)
  with existenceChecks_emits_warnings [OF ex] show "\<forall>e\<in>set evs. phaseOf e = Logging"
    by simp
  show "r = Inr (nsE, pvcE, pvE, sbo) \<Longrightarrow> pvE \<and> sbo = None"
    using assms(2) ex
    by (auto simp add: preChecks_volume_found [OF assms(1)] split: sum.splits prod.splits)
qed

lemma createPVIfNecessary_skipped: "createPVIfNecessary c w True sbo s = (r, evs, s') \<Longrightarrow> evs = []"
  by (auto simp add: createPVIfNecessary_def succeed_def)

lemmas step_phases =
  createNamespace_phase replaceRBACObjects_phase createPVC_phase createPVIfNecessary_phase
  createWorkloads_phase

lemmas step_silent = waitForPVCBound_silent waitForTrident_silent

lemma existing_volume_no_driver_events:
  assumes "CheckPVExists w (pvName c) = Inr True"
  shows "\<forall>e\<in>set (events (installTrident c w s)). phaseOf e \<noteq> Checking \<and> phaseOf e \<noteq> VolumePhase"
proof (cases c w s rule: installTrident_cases)
  case (precheck e evs0 s0)
  with preChecks_volume_found_run(1) [OF assms precheck(1)] show ?thesis by auto
next
  case (dry nsE pvcE pvE sbo evs0 s0)
  with preChecks_volume_found_run(1) [OF assms dry(2)] show ?thesis by auto
next
  case (namespace nsE pvcE pvE sbo e evs0 s0 evs1 s1)
  from preChecks_volume_found_run [OF assms namespace(2)] have pv: "pvE" and logs: "\<forall>e\<in>set evs0. phaseOf e = Logging"
    by simp_all
  with namespace show ?thesis
    by (auto dest!: step_phases step_silent createPVIfNecessary_skipped)
next
  case (rbac nsE pvcE pvE sbo e evs0 s0 evs1 s1 evs2 s2)
  from preChecks_volume_found_run [OF assms rbac(2)] have pv: "pvE" and logs: "\<forall>e\<in>set evs0. phaseOf e = Logging"
    by simp_all
  with rbac show ?thesis
    by (auto dest!: step_phases step_silent createPVIfNecessary_skipped)
next
  case (claim nsE pvcE pvE sbo e evs0 s0 evs1 s1 evs2 s2 evs3 s3)
  from preChecks_volume_found_run [OF assms claim(2)] have pv: "pvE" and logs: "\<forall>e\<in>set evs0. phaseOf e = Logging"
    by simp_all
  with claim show ?thesis
    by (auto dest!: step_phases step_silent createPVIfNecessary_skipped)
next
  case (volume nsE pvcE pvE sbo e evs0 s0 evs1 s1 evs2 s2 evs3 s3 evs4 s4)
  from preChecks_volume_found_run [OF assms volume(2)] have pv: "pvE" and logs: "\<forall>e\<in>set evs0. phaseOf e = Logging"
    by simp_all
  with volume show ?thesis
    by (auto dest!: step_phases step_silent createPVIfNecessary_skipped)
next
  case (bound nsE pvcE pvE sbo e evs0 s0 evs1 s1 evs2 s2 evs3 s3 evs4 s4 evs5 s5)
  from preChecks_volume_found_run [OF assms bound(2)] have pv: "pvE" and logs: "\<forall>e\<in>set evs0. phaseOf e = Logging"
    by simp_all
  with bound show ?thesis
    by (auto dest!: step_phases step_silent createPVIfNecessary_skipped)
next
  case (workloads nsE pvcE pvE sbo e evs0 s0 evs1 s1 evs2 s2 evs3 s3 evs4 s4 evs5 s5 evs6 s6)
  from preChecks_volume_found_run [OF assms workloads(2)] have pv: "pvE" and logs: "\<forall>e\<in>set evs0. phaseOf e = Logging"
    by simp_all
  with workloads show ?thesis
    by (auto dest!: step_phases step_silent createPVIfNecessary_skipped)
next
  case (ready nsE pvcE pvE sbo e evs0 s0 evs1 s1 evs2 s2 evs3 s3 evs4 s4 evs5 s5 evs6 s6 evs7 s7)
  from preChecks_volume_found_run [OF assms ready(2)] have pv: "pvE" and logs: "\<forall>e\<in>set evs0. phaseOf e = Logging"
    by simp_all
  with ready show ?thesis
    by (auto dest!: step_phases step_silent createPVIfNecessary_skipped)
next
  case (finished nsE pvcE pvE sbo evs0 s0 evs1 s1 evs2 s2 evs3 s3 evs4 s4 evs5 s5 evs6 s6 evs7 s7)
  from preChecks_volume_found_run [OF assms finished(2)] have pv: "pvE" and logs: "\<forall>e\<in>set evs0. phaseOf e = Logging"
    by simp_all
  with finished show ?thesis
    by (auto dest!: step_phases step_silent createPVIfNecessary_skipped)
qed


lemma attempt_ignores_backend [simp]:
  "attempt (w\<lparr>StatNotExist := f1, ReadFileResult := f2, NewStorageBackend := f3\<rparr>) ev = attempt w ev"
  by (simp add: attempt_def)

lemma validateVolumeSize_ignores_backend [simp]:
  "validateVolumeSize c (w\<lparr>StatNotExist := f1, ReadFileResult := f2, NewStorageBackend := f3\<rparr>) =
   validateVolumeSize c w"
  by (simp add: validateVolumeSize_def cong: if_cong sum.case_cong option.case_cong)

lemma ensureNotInstalled_ignores_backend [simp]:
  "ensureNotInstalled c (w\<lparr>StatNotExist := f1, ReadFileResult := f2, NewStorageBackend := f3\<rparr>) =
   ensureNotInstalled c w"
  by (simp add: ensureNotInstalled_def cong: if_cong sum.case_cong option.case_cong)

lemma checkNamespace_ignores_backend [simp]:
  "checkNamespace c (w\<lparr>StatNotExist := f1, ReadFileResult := f2, NewStorageBackend := f3\<rparr>) =
   checkNamespace c w"
  by (simp add: checkNamespace_def cong: if_cong sum.case_cong option.case_cong)

lemma checkPVC_ignores_backend [simp]:
  "checkPVC c (w\<lparr>StatNotExist := f1, ReadFileResult := f2, NewStorageBackend := f3\<rparr>) =
   checkPVC c w"
  by (simp add: checkPVC_def cong: if_cong sum.case_cong option.case_cong)

lemma checkPV_ignores_backend [simp]:
  "checkPV c (w\<lparr>StatNotExist := f1, ReadFileResult := f2, NewStorageBackend := f3\<rparr>) q =
   checkPV c w q"
  by (simp add: checkPV_def cong: if_cong sum.case_cong option.case_cong)

lemma existenceChecks_ignores_backend [simp]:
  "existenceChecks c (w\<lparr>StatNotExist := f1, ReadFileResult := f2, NewStorageBackend := f3\<rparr>) =
   existenceChecks c w"
  by (simp add: existenceChecks_def cong: if_cong sum.case_cong option.case_cong)

lemma validateTridentPVC_ignores_backend [simp]:
  "validateTridentPVC c (w\<lparr>StatNotExist := f1, ReadFileResult := f2, NewStorageBackend := f3\<rparr>) =
   validateTridentPVC c w"
  by (simp add: validateTridentPVC_def cong: if_cong sum.case_cong option.case_cong)

lemma validateTridentDeployment_ignores_backend [simp]:
  "validateTridentDeployment c (w\<lparr>StatNotExist := f1, ReadFileResult := f2, NewStorageBackend := f3\<rparr>) =
   validateTridentDeployment c w"
  by (simp add: validateTridentDeployment_def cong: if_cong sum.case_cong option.case_cong)

lemma validateTridentService_ignores_backend [simp]:
  "validateTridentService c (w\<lparr>StatNotExist := f1, ReadFileResult := f2, NewStorageBackend := f3\<rparr>) =
   validateTridentService c w"
  by (simp add: validateTridentService_def cong: if_cong sum.case_cong option.case_cong)

lemma validateTridentStatefulSet_ignores_backend [simp]:
  "validateTridentStatefulSet c (w\<lparr>StatNotExist := f1, ReadFileResult := f2, NewStorageBackend := f3\<rparr>) =
   validateTridentStatefulSet c w"
  by (simp add: validateTridentStatefulSet_def cong: if_cong sum.case_cong option.case_cong)

lemma validateTridentDaemonSet_ignores_backend [simp]:
  "validateTridentDaemonSet c (w\<lparr>StatNotExist := f1, ReadFileResult := f2, NewStorageBackend := f3\<rparr>) =
   validateTridentDaemonSet c w"
  by (simp add: validateTridentDaemonSet_def cong: if_cong sum.case_cong option.case_cong)

lemma createNamespace_ignores_backend [simp]:
  "createNamespace c (w\<lparr>StatNotExist := f1, ReadFileResult := f2, NewStorageBackend := f3\<rparr>) b =
   createNamespace c w b"
  by (simp add: createNamespace_def cong: if_cong sum.case_cong option.case_cong)

lemma removeRBACObjects_ignores_backend [simp]:
  "removeRBACObjects c (w\<lparr>StatNotExist := f1, ReadFileResult := f2, NewStorageBackend := f3\<rparr>) =
   removeRBACObjects c w"
  by (simp add: removeRBACObjects_def cong: if_cong sum.case_cong option.case_cong)

lemma createRBACObjects_ignores_backend [simp]:
  "createRBACObjects c (w\<lparr>StatNotExist := f1, ReadFileResult := f2, NewStorageBackend := f3\<rparr>) =
   createRBACObjects c w"
  by (simp add: createRBACObjects_def cong: if_cong sum.case_cong option.case_cong)

lemma replaceRBACObjects_ignores_backend [simp]:
  "replaceRBACObjects c (w\<lparr>StatNotExist := f1, ReadFileResult := f2, NewStorageBackend := f3\<rparr>) =
   replaceRBACObjects c w"
  by (simp add: replaceRBACObjects_def cong: if_cong sum.case_cong option.case_cong)

lemma createPVC_ignores_backend [simp]:
  "createPVC c (w\<lparr>StatNotExist := f1, ReadFileResult := f2, NewStorageBackend := f3\<rparr>) b =
   createPVC c w b"
  by (simp add: createPVC_def cong: if_cong sum.case_cong option.case_cong)

lemma checkPVCBound_ignores_backend [simp]:
  "checkPVCBound c (w\<lparr>StatNotExist := f1, ReadFileResult := f2, NewStorageBackend := f3\<rparr>) = checkPVCBound c w"
  by (rule ext) (simp add: checkPVCBound_def)

lemma waitForPVCBound_ignores_backend [simp]:
  "waitForPVCBound c (w\<lparr>StatNotExist := f1, ReadFileResult := f2, NewStorageBackend := f3\<rparr>) =
   waitForPVCBound c w"
  by (simp add: waitForPVCBound_def cong: if_cong sum.case_cong option.case_cong)

lemma createDeployment_ignores_backend [simp]:
  "createDeployment c (w\<lparr>StatNotExist := f1, ReadFileResult := f2, NewStorageBackend := f3\<rparr>) =
   createDeployment c w"
  by (simp add: createDeployment_def cong: if_cong sum.case_cong option.case_cong)

lemma createService_ignores_backend [simp]:
  "createService c (w\<lparr>StatNotExist := f1, ReadFileResult := f2, NewStorageBackend := f3\<rparr>) =
   createService c w"
  by (simp add: createService_def cong: if_cong sum.case_cong option.case_cong)

lemma createStatefulSet_ignores_backend [simp]:
  "createStatefulSet c (w\<lparr>StatNotExist := f1, ReadFileResult := f2, NewStorageBackend := f3\<rparr>) =
   createStatefulSet c w"
  by (simp add: createStatefulSet_def cong: if_cong sum.case_cong option.case_cong)

lemma createDaemonSet_ignores_backend [simp]:
  "createDaemonSet c (w\<lparr>StatNotExist := f1, ReadFileResult := f2, NewStorageBackend := f3\<rparr>) =
   createDaemonSet c w"
  by (simp add: createDaemonSet_def cong: if_cong sum.case_cong option.case_cong)

lemma createWorkloads_ignores_backend [simp]:
  "createWorkloads c (w\<lparr>StatNotExist := f1, ReadFileResult := f2, NewStorageBackend := f3\<rparr>) =
   createWorkloads c w"
  by (simp add: createWorkloads_def cong: if_cong sum.case_cong option.case_cong)

lemma checkPodRunning_ignores_backend [simp]:
  "checkPodRunning c (w\<lparr>StatNotExist := f1, ReadFileResult := f2, NewStorageBackend := f3\<rparr>) = checkPodRunning c w"
  by (rule ext) (simp add: checkPodRunning_def)

lemma checkRESTInterface_ignores_backend [simp]:
  "checkRESTInterface (w\<lparr>StatNotExist := f1, ReadFileResult := f2, NewStorageBackend := f3\<rparr>) n = checkRESTInterface w n"
  by (rule ext) (simp add: checkRESTInterface_def split: prod.splits option.splits)

lemma waitForTridentPod_ignores_backend [simp]:
  "waitForTridentPod c (w\<lparr>StatNotExist := f1, ReadFileResult := f2, NewStorageBackend := f3\<rparr>) =
   waitForTridentPod c w"
  by (simp add: waitForTridentPod_def cong: if_cong sum.case_cong option.case_cong)

lemma waitForRESTInterface_ignores_backend [simp]:
  "waitForRESTInterface c (w\<lparr>StatNotExist := f1, ReadFileResult := f2, NewStorageBackend := f3\<rparr>) n = waitForRESTInterface c w n"
  by (simp add: waitForRESTInterface_def)

lemma waitForTrident_ignores_backend [simp]:
  "waitForTrident c (w\<lparr>StatNotExist := f1, ReadFileResult := f2, NewStorageBackend := f3\<rparr>) =
   waitForTrident c w"
  by (simp add: waitForTrident_def cong: if_cong sum.case_cong option.case_cong)

lemma installSteps_ignores_backend:
  "installSteps c (w\<lparr>StatNotExist := f1, ReadFileResult := f2, NewStorageBackend := f3\<rparr>)
     (nsE, pvcE, True, sbo) =
   installSteps c w (nsE, pvcE, True, sbo)"
  by (simp add: installSteps_def createPVIfNecessary_def)

lemma installTrident_ignores_backend:
  assumes "CheckPVExists w (pvName c) = Inr True"
  shows "installTrident c (w\<lparr>StatNotExist := f1, ReadFileResult := f2, NewStorageBackend := f3\<rparr>) s =
         installTrident c w s"
proof -
  let ?wld = "w\<lparr>StatNotExist := f1, ReadFileResult := f2, NewStorageBackend := f3\<rparr>"
  have found: "CheckPVExists ?wld (pvName c) = Inr True"
    using assms by simp
  have pre: "preChecks c ?wld s = preChecks c w s"
    by (simp add: preChecks_volume_found [OF found] preChecks_volume_found [OF assms]
        existenceChecks_ignores_backend)
  obtain r evs s' where p: "preChecks c w s = (r, evs, s')" by (cases "preChecks c w s")
  show ?thesis
  proof (cases r)
    case (Inl e)
    with p pre show ?thesis by (simp add: installTrident_def andThen_def)
  next
    case (Inr locals)
    obtain nsE pvcE pvE sbo where l: "locals = (nsE, pvcE, pvE, sbo)" by (cases locals)
    with preChecks_volume_found_run(2) [OF assms p, of nsE pvcE pvE sbo] Inr
    have "pvE" by simp
    with p pre Inr l show ?thesis
      by (simp add: installTrident_def andThen_def installSteps_ignores_backend)
  qed
qed

lemma sizeWarning_then:
  "outcome (andThen (case cap of None \<Rightarrow> warn m | Some actual \<Rightarrow> warnIf (q \<noteq> actual) m') f s) =
   outcome (f () s)"
  by (cases cap) (simp_all add: outcome_andThen)

lemma outcome_if_action:
  "outcome ((if b then m else n) s) = (if b then outcome (m s) else outcome (n s))"
  by simp

lemma checkPV_outcome_ignores_request:
  "outcome (checkPV c w q s) = outcome (checkPV c w q' s)"
proof (cases "CheckPVExists w (pvName c)")
  case (Inl e)
  then show ?thesis by (simp add: checkPV_def)
next
  case found: (Inr pvExists)
  show ?thesis
  proof (cases "GetPV w (pvName c)")
    case (Inl e)
    with found show ?thesis by (simp add: checkPV_def)
  next
    case (Inr vol)
    have eq: "outcome (checkPV c w r s) = outcome (checkPV c w 0 s)" for r
      unfolding checkPV_def found Inr sum.case outcome_if_action sizeWarning_then
      by (rule refl)
    show ?thesis
      by (rule trans [OF eq [of q] eq [of q', symmetric]])
  qed
qed

lemma checkPV_found:
  assumes "CheckPVExists w (pvName c) = Inr True"
  shows "(\<exists>b. outcome (checkPV c w q s) = Inr b) =
           (\<exists>vol. GetPV w (pvName c) = Inr vol \<and> compatibleVolume c vol)"
    and "final (checkPV c w q s) = s"
    and "outcome (checkPV c w q s) = Inr b \<Longrightarrow> b"
  using assms
  by (auto simp add: checkPV_def compatibleVolume_def outcome_andThen final_andThen
      split: sum.splits option.splits if_splits)

lemma existenceChecks_pass_iff:
  assumes "CheckPVExists w (pvName c) = Inr True"
  shows "(\<exists>nsE pvcE. outcome (existenceChecks c w s) = Inr (nsE, pvcE, True)) =
           ((\<exists>q. ParseQuantity w (volumeSize c) = Inr q) \<and>
            outcome (ensureNotInstalled c w s) = Inr () \<and>
            (\<exists>nsE. CheckNamespaceExists w (TridentPodNamespace c) = Inr nsE) \<and>
            (\<exists>pvcE. outcome (checkPVC c w s) = Inr pvcE) \<and>
            (\<exists>vol. GetPV w (pvName c) = Inr vol \<and> compatibleVolume c vol))"
proof -
  have k: "final (ensureNotInstalled c w t) = t" "final (checkPVC c w t) = t" for t
    by (simp_all add: ensureNotInstalled_def checkPVC_def split: sum.splits prod.splits)
  have pv: "(\<exists>b. outcome (checkPV c w q s) = Inr b) =
              (\<exists>vol. GetPV w (pvName c) = Inr vol \<and> compatibleVolume c vol)" for q
    by (rule checkPV_found(1) [OF assms])
  have tr: "outcome (checkPV c w q s) = Inr b \<Longrightarrow> b" for q b
    by (rule checkPV_found(3) [OF assms])
  show ?thesis
  proof (cases "ParseQuantity w (volumeSize c)")
    case (Inl e)
    then show ?thesis by (simp add: existenceChecks_def validateVolumeSize_def)
  next
    case q: (Inr q)
    show ?thesis
    proof (cases "CheckNamespaceExists w (TridentPodNamespace c)")
      case (Inl e)
      then show ?thesis
        by (simp add: existenceChecks_def validateVolumeSize_def checkNamespace_def q
            outcome_andThen k split: sum.splits)
    next
      case ns: (Inr nsE)
      have "(\<exists>nsE pvcE. outcome (existenceChecks c w s) = Inr (nsE, pvcE, True)) =
              (outcome (ensureNotInstalled c w s) = Inr () \<and>
               (\<exists>pvcE. outcome (checkPVC c w s) = Inr pvcE) \<and>
               (\<exists>b. outcome (checkPV c w q s) = Inr b))"
        using tr [of q]
        by (auto simp add: existenceChecks_def validateVolumeSize_def checkNamespace_def q ns
            outcome_andThen k split: sum.splits)
      then show ?thesis by (simp add: q ns pv)
    qed
  qed
qed

lemma installSteps_without_volume:
  "installSteps c w (nsE, pvcE, True, sbo) = stepsWithoutVolume c w nsE pvcE"
  by (simp add: installSteps_def stepsWithoutVolume_def createPVIfNecessary_def)

lemma installTrident_volume_found:
  assumes "CheckPVExists w (pvName c) = Inr True"
  shows "installTrident c w =
           andThen (existenceChecks c w) (\<lambda>found.
             if dryRun c then succeed ()
             else stepsWithoutVolume c w (fst found) (fst (snd found)))"
proof (rule ext)
  fix s
  obtain r evs s' where ex: "existenceChecks c w s = (r, evs, s')"
    by (cases "existenceChecks c w s")
  show "installTrident c w s =
          andThen (existenceChecks c w) (\<lambda>found.
             if dryRun c then succeed ()
             else stepsWithoutVolume c w (fst found) (fst (snd found))) s"
  proof (cases r)
    case (Inl e)
    with ex show ?thesis
      by (simp add: installTrident_def preChecks_volume_found [OF assms] andThen_def)
  next
    case (Inr found)
    obtain nsE pvcE pvE where f: "found = (nsE, pvcE, pvE)" by (cases found)
    with ex Inr show ?thesis
      by (simp add: installTrident_def preChecks_volume_found [OF assms] andThen_def
          installSteps_without_volume)
  qed
qed

lemma volume_found_completion:
  assumes "CheckPVExists w (pvName c) = Inr True"
  shows "(outcome (installTrident c w s) = Inr ()) =
           (\<exists>nsE pvcE. outcome (existenceChecks c w s) = Inr (nsE, pvcE, True) \<and>
              (dryRun c \<or> outcome (stepsWithoutVolume c w nsE pvcE s) = Inr ()))"
proof -
  have k: "final (existenceChecks c w s) = s"
    using existenceChecks_keeps by (simp add: keeps_def)
  obtain r where r: "outcome (existenceChecks c w s) = r" by simp
  show ?thesis
  proof (cases r)
    case (Inl e)
    with r show ?thesis
      by (simp add: installTrident_volume_found [OF assms] outcome_andThen)
  next
    case (Inr found)
    obtain nsE pvcE pvE where f: "found = (nsE, pvcE, pvE)" by (cases found)
    obtain evs s' where "existenceChecks c w s = (Inr (nsE, pvcE, pvE), evs, s')"
      using r Inr f by (cases "existenceChecks c w s") simp
    from existenceChecks_volume_found [OF assms this] have pvE .
    with r Inr f show ?thesis
      by (auto simp add: installTrident_volume_found [OF assms] outcome_andThen k)
  qed
qed

lemma waitForPVCBound_success:
  assumes "waitForPVCBound c w s = (Inr (), evs, s')"
  shows "\<exists>i. CheckPVCBound w (pvcName c) i = Inr True"
proof -
  have ok: "checkPVCBound c w i = Inr x \<Longrightarrow> CheckPVCBound w (pvcName c) i = Inr True" for i x
    by (auto simp add: checkPVCBound_def split: sum.splits if_splits)
  show ?thesis
  proof (cases "checkPVCBound c w 0")
    case (Inr x)
    from ok [OF this] show ?thesis ..
  next
    case (Inl e)
    with assms obtain x where
      "RetryNotify (checkPVCBound c w) 1 (k8sTimeout c) (backoffAttempts w) = Some (Inr x)"
      by (auto simp add: waitForPVCBound_def neverReturns_def failWith_def succeed_def
          split: option.splits sum.splits)
    from RetryNotify_success [OF this] ok show ?thesis by blast
  qed
qed

lemma waitForPVCBound_at_once:
  "CheckPVCBound w (pvcName c) 0 = Inr True \<Longrightarrow> waitForPVCBound c w = succeed ()"
  by (simp add: waitForPVCBound_def checkPVCBound_def)

lemma waitForTrident_success:
  assumes "waitForTrident c w s = (Inr (), evs, s')"
  shows "\<exists>i pod. GetPodByLabel w (appLabel c) i = Inr pod \<and> podPhase pod = PodRunning \<and>
           (\<exists>j body v. Exec w (podName pod) j = (body, None) \<and> UnmarshalVersion w body = Inr v)"
proof -
  have pod: "checkPodRunning c w i = Inr p \<Longrightarrow>
      GetPodByLabel w (appLabel c) i = Inr p \<and> podPhase p = PodRunning" for i p
    by (auto simp add: checkPodRunning_def split: sum.splits if_splits)
  have rest: "checkRESTInterface w n j = Inr v \<Longrightarrow>
      \<exists>body. Exec w n j = (body, None) \<and> UnmarshalVersion w body = Inr v" for n j v
    by (auto simp add: checkRESTInterface_def split: prod.splits option.splits)
  from assms have o: "outcome (waitForTrident c w s) = Inr ()" by simp
  then obtain p where p: "outcome (waitForTridentPod c w s) = Inr p"
    and r: "outcome (waitForRESTInterface c w (podName p) (final (waitForTridentPod c w s))) = Inr ()"
    by (auto simp add: waitForTrident_def outcome_andThen outcome_wrapError
        split: sum.splits failure.splits)
  from p have "RetryNotify (checkPodRunning c w) 0 (k8sTimeout c) (backoffAttempts w) = Some (Inr p)"
    by (auto simp add: waitForTridentPod_def split: option.splits sum.splits)
  from RetryNotify_success [OF this] pod obtain i where
    i: "GetPodByLabel w (appLabel c) i = Inr p" "podPhase p = PodRunning" by blast
  from r obtain v where
    "RetryNotify (checkRESTInterface w (podName p)) 0 (k8sTimeout c) (backoffAttempts w) = Some (Inr v)"
    by (auto simp add: waitForRESTInterface_def split: option.splits sum.splits)
  from RetryNotify_success [OF this] rest obtain j body v' where
    "Exec w (podName p) j = (body, None)" "UnmarshalVersion w body = Inr v'" by blast
  with i show ?thesis by blast
qed

lemma waitForTrident_at_once:
  assumes "GetPodByLabel w (appLabel c) 0 = Inr pod" and "podPhase pod = PodRunning"
    and "Exec w (podName pod) 0 = (body, None)" and "UnmarshalVersion w body = Inr v"
  shows "waitForTrident c w = succeed ()"
proof -
  have "checkPodRunning c w 0 = Inr pod"
    using assms(1,2) by (simp add: checkPodRunning_def)
  from RetryNotify_at_once [of "checkPodRunning c w" 0 pod, OF this]
  have p: "waitForTridentPod c w = succeed pod" by (simp add: waitForTridentPod_def)
  have "checkRESTInterface w (podName pod) 0 = Inr v"
    using assms(3,4) by (simp add: checkRESTInterface_def)
  from RetryNotify_at_once [of "checkRESTInterface w (podName pod)" 0 v, OF this]
  have "waitForRESTInterface c w (podName pod) = succeed ()"
    by (simp add: waitForRESTInterface_def)
  then have "wrapError g (waitForRESTInterface c w (podName pod)) = succeed ()" for g
    by (simp add: wrapError_def succeed_def)
  with p show ?thesis
    by (simp add: waitForTrident_def)
qed

lemma completion_needs_readiness:
  assumes "outcome (installTrident c w s) = Inr ()" and "\<not> dryRun c"
  shows "(\<exists>i. CheckPVCBound w (pvcName c) i = Inr True) \<and>
         (\<exists>i pod. GetPodByLabel w (appLabel c) i = Inr pod \<and> podPhase pod = PodRunning \<and>
            (\<exists>j body v. Exec w (podName pod) j = (body, None) \<and> UnmarshalVersion w body = Inr v))"
proof (cases c w s rule: installTrident_cases)
  case (finished nsE pvcE pvE sbo evs0 s0 evs1 s1 evs2 s2 evs3 s3 evs4 s4 evs5 s5 evs6 s6 evs7 s7)
  from waitForPVCBound_success [OF finished(7)] waitForTrident_success [OF finished(9)]
  show ?thesis by blast
qed (use assms in simp_all)

lemma steps_succeed:
  assumes calls: "\<And>ev. fails w ev = None"
    and files: "useYAML c \<Longrightarrow> validateTridentPVC c w = None \<and> validateTridentDeployment c w = None \<and>
       validateTridentService c w = None \<and> validateTridentStatefulSet c w = None \<and>
       validateTridentDaemonSet c w = None"
  shows "outcome (createNamespace c w nsE t) = Inr ()"
    and "outcome (replaceRBACObjects c w t) = Inr ()"
    and "outcome (createPVC c w pvcE t) = Inr ()"
    and "outcome (createWorkloads c w t) = Inr ()"
proof -
  show "outcome (createNamespace c w nsE t) = Inr ()"
    by (simp add: createNamespace_def outcome_andThen calls)
  have "outcome (removeRBACObjects c w t) = Inr False"
    by (simp add: removeRBACObjects_def outcome_andThen calls)
  moreover have "outcome (createRBACObjects c w t') = Inr ()" for t'
    by (simp add: createRBACObjects_def outcome_andThen calls)
  ultimately show "outcome (replaceRBACObjects c w t) = Inr ()"
    by (simp add: replaceRBACObjects_def outcome_andThen)
  show "outcome (createPVC c w pvcE t) = Inr ()"
    using files by (cases "useYAML c") (simp_all add: createPVC_def outcome_andThen calls)
  have "outcome (createDeployment c w t') = Inr ()" for t'
    using files by (cases "useYAML c") (simp_all add: createDeployment_def outcome_andThen calls)
  moreover have "outcome (createService c w t') = Inr ()" for t'
    using files by (cases "useYAML c") (simp_all add: createService_def outcome_andThen calls)
  moreover have "outcome (createStatefulSet c w t') = Inr ()" for t'
    using files by (cases "useYAML c") (simp_all add: createStatefulSet_def outcome_andThen calls)
  moreover have "outcome (createDaemonSet c w t') = Inr ()" for t'
    using files by (cases "useYAML c") (simp_all add: createDaemonSet_def outcome_andThen calls)
  ultimately show "outcome (createWorkloads c w t) = Inr ()"
    by (simp add: createWorkloads_def outcome_andThen)
qed

lemma volume_found_completes:
  assumes "CheckPVExists w (pvName c) = Inr True"
    and "outcome (existenceChecks c w s) = Inr (nsE, pvcE, True)"
    and calls: "\<And>ev. fails w ev = None"
    and files: "useYAML c \<Longrightarrow> validateTridentPVC c w = None \<and> validateTridentDeployment c w = None \<and>
       validateTridentService c w = None \<and> validateTridentStatefulSet c w = None \<and>
       validateTridentDaemonSet c w = None"
    and "CheckPVCBound w (pvcName c) 0 = Inr True"
    and "GetPodByLabel w (appLabel c) 0 = Inr pod" and "podPhase pod = PodRunning"
    and "Exec w (podName pod) 0 = (body, None)" and "UnmarshalVersion w body = Inr v"
  shows "outcome (installTrident c w s) = Inr ()"
proof -
  note steps = steps_succeed [of w c, OF calls files]
  have "outcome (stepsWithoutVolume c w nsE pvcE s) = Inr ()"
    by (simp add: stepsWithoutVolume_def outcome_andThen steps
        waitForPVCBound_at_once [OF assms(5)] waitForTrident_at_once [OF assms(6-9)])
  with assms(2) show ?thesis
    unfolding volume_found_completion [OF assms(1)] by blast
qed


text \<open>
  C9, as the code has it. When the volume exists, the installation (dry or not) performs
  none of the calls through which the driver is loaded and asks no backend for a volume,
  its whole result is the same whatever the file system and the driver factory would
  answer, and the outcome of the volume's check does not depend on the requested size,
  which is compared with the capacity only for a warning. The run does not succeed for
  that alone. Its checks pass exactly when the size parses, no installation is found,
  the namespace can be looked up, the claim's check passes and the volume is one that
  the volume's check accepts. The installation is then those checks followed, unless it
  is a dry run, by the steps other than the volume's, and it succeeds exactly when the
  checks pass and it is a dry run or those steps succeed: they do when every call to
  the cluster succeeds, the override files (if used) are valid, and the claim is bound,
  the pod runs and the REST interface answers at the first poll; and they do only if
  the claim is found bound, the pod running and the REST interface answering at some
  poll.
\<close>

theorem existing_volume_needs_no_driver:
  assumes "CheckPVExists w (pvName c) = Inr True"
  shows "filter isDriverLoad (events (installTrident c w s)) = [] \<and>
         filter isBackendAddVolume (events (installTrident c w s)) = [] \<and>
         installTrident c (w\<lparr>StatNotExist := f1, ReadFileResult := f2, NewStorageBackend := f3\<rparr>) s =
           installTrident c w s \<and>
         outcome (checkPV c w q s) = outcome (checkPV c w q' s) \<and>
         ((\<exists>nsE pvcE. outcome (existenceChecks c w s) = Inr (nsE, pvcE, True)) =
            ((\<exists>q. ParseQuantity w (volumeSize c) = Inr q) \<and>
             outcome (ensureNotInstalled c w s) = Inr () \<and>
             (\<exists>nsE. CheckNamespaceExists w (TridentPodNamespace c) = Inr nsE) \<and>
             (\<exists>pvcE. outcome (checkPVC c w s) = Inr pvcE) \<and>
             (\<exists>vol. GetPV w (pvName c) = Inr vol \<and> compatibleVolume c vol))) \<and>
         installTrident c w =
           andThen (existenceChecks c w) (\<lambda>found.
             if dryRun c then succeed ()
             else stepsWithoutVolume c w (fst found) (fst (snd found))) \<and>
         ((outcome (installTrident c w s) = Inr ()) =
            (\<exists>nsE pvcE. outcome (existenceChecks c w s) = Inr (nsE, pvcE, True) \<and>
               (dryRun c \<or> outcome (stepsWithoutVolume c w nsE pvcE s) = Inr ()))) \<and>
         ((\<exists>nsE pvcE. outcome (existenceChecks c w s) = Inr (nsE, pvcE, True)) \<and>
          (\<forall>ev. fails w ev = None) \<and>
          (useYAML c \<longrightarrow>
             validateTridentPVC c w = None \<and> validateTridentDeployment c w = None \<and>
             validateTridentService c w = None \<and> validateTridentStatefulSet c w = None \<and>
             validateTridentDaemonSet c w = None) \<and>
          CheckPVCBound w (pvcName c) 0 = Inr True \<and>
          GetPodByLabel w (appLabel c) 0 = Inr pod \<and> podPhase pod = PodRunning \<and>
          Exec w (podName pod) 0 = (body, None) \<and> UnmarshalVersion w body = Inr v \<longrightarrow>
            outcome (installTrident c w s) = Inr ()) \<and>
         (outcome (installTrident c w s) = Inr () \<and> \<not> dryRun c \<longrightarrow>
            (\<exists>i. CheckPVCBound w (pvcName c) i = Inr True) \<and>
            (\<exists>i p. GetPodByLabel w (appLabel c) i = Inr p \<and> podPhase p = PodRunning \<and>
               (\<exists>j b u. Exec w (podName p) j = (b, None) \<and> UnmarshalVersion w b = Inr u)))"
proof -
  from existing_volume_no_driver_events [OF assms, of s]
  have a: "filter isDriverLoad (events (installTrident c w s)) = []"
    and b: "filter isBackendAddVolume (events (installTrident c w s)) = []"
    using isDriverLoad_phase isBackendAddVolume_phase
    by (auto simp add: filter_empty_conv)
  note d = installTrident_ignores_backend [OF assms]
  note e = checkPV_outcome_ignores_request
  note f = existenceChecks_pass_iff [OF assms, of s]
  note g = installTrident_volume_found [OF assms]
  note h = volume_found_completion [OF assms, of s]
  have i: "outcome (installTrident c w s) = Inr ()"
    if "(\<exists>nsE pvcE. outcome (existenceChecks c w s) = Inr (nsE, pvcE, True)) \<and>
          (\<forall>ev. fails w ev = None) \<and>
          (useYAML c \<longrightarrow>
             validateTridentPVC c w = None \<and> validateTridentDeployment c w = None \<and>
             validateTridentService c w = None \<and> validateTridentStatefulSet c w = None \<and>
             validateTridentDaemonSet c w = None) \<and>
          CheckPVCBound w (pvcName c) 0 = Inr True \<and>
          GetPodByLabel w (appLabel c) 0 = Inr pod \<and> podPhase pod = PodRunning \<and>
          Exec w (podName pod) 0 = (body, None) \<and> UnmarshalVersion w body = Inr v"
  proof -
    from that obtain nsE pvcE where "outcome (existenceChecks c w s) = Inr (nsE, pvcE, True)"
      by blast
    from volume_found_completes [OF assms this] that show ?thesis by blast
  qed
  have j: "(\<exists>i. CheckPVCBound w (pvcName c) i = Inr True) \<and>
            (\<exists>i p. GetPodByLabel w (appLabel c) i = Inr p \<and> podPhase p = PodRunning \<and>
               (\<exists>j b u. Exec w (podName p) j = (b, None) \<and> UnmarshalVersion w b = Inr u))"
    if "outcome (installTrident c w s) = Inr () \<and> \<not> dryRun c"
    using completion_needs_readiness [of c w s] that by blast
  show ?thesis
    apply (intro conjI impI)
    apply (rule a)
    apply (rule b)
    apply (rule d)
    apply (rule e)
    apply (rule f)
    apply (rule g)
    apply (rule h)
    apply (erule i)
    apply (erule j [THEN conjunct1])
    apply (erule j [THEN conjunct2])
    done
qed

theorem existing_volume_needs_no_driver_witness:
  "CheckPVExists existingVolumeWorld (pvName exampleConfig) = Inr True \<and>
   StatNotExist existingVolumeWorld backendConfigFilePath = Some ''no such file or directory'' \<and>
   GetPV existingVolumeWorld (pvName exampleConfig) = Inr examplePV \<and>
   compatibleVolume exampleConfig examplePV \<and>
   pvCapacityStorage examplePV \<noteq> Some 2147483648 \<and>
   filter isDriverLoad (events (installTrident exampleConfig existingVolumeWorld emptyCluster)) = [] \<and>
   outcome (installTrident exampleConfig existingVolumeWorld emptyCluster) = Inr () \<and>
   outcome (installTrident (exampleConfig\<lparr>dryRun := True\<rparr>) existingVolumeWorld emptyCluster) =
     Inr ()"
proof -
  let ?dry = "exampleConfig\<lparr>dryRun := True\<rparr>"
  have found: "CheckPVExists existingVolumeWorld (pvName exampleConfig) = Inr True"
    "CheckPVExists existingVolumeWorld (pvName ?dry) = Inr True"
    by (simp_all add: existingVolumeWorld_def)
  have missing: "StatNotExist existingVolumeWorld backendConfigFilePath =
      Some ''no such file or directory''"
    by (simp add: existingVolumeWorld_def)
  have vol: "GetPV existingVolumeWorld (pvName exampleConfig) = Inr examplePV"
    "GetPV existingVolumeWorld (pvName ?dry) = Inr examplePV"
    by (simp_all add: existingVolumeWorld_def exampleWorld_def)
  have compat: "compatibleVolume exampleConfig examplePV" "compatibleVolume ?dry examplePV"
    by (simp_all add: compatibleVolume_def examplePV_def exampleConfig_def labelAt_def)
  have cap: "pvCapacityStorage examplePV \<noteq> Some 2147483648"
    by (simp add: examplePV_def)
  have checks: "(\<exists>q. ParseQuantity existingVolumeWorld (volumeSize cfg) = Inr q) \<and>
      outcome (ensureNotInstalled cfg existingVolumeWorld emptyCluster) = Inr () \<and>
      (\<exists>nsE. CheckNamespaceExists existingVolumeWorld (TridentPodNamespace cfg) = Inr nsE) \<and>
      (\<exists>pvcE. outcome (checkPVC cfg existingVolumeWorld emptyCluster) = Inr pvcE)"
    if "cfg = exampleConfig \<or> cfg = ?dry" for cfg
    using that
    by (auto simp add: existingVolumeWorld_def exampleWorld_def exampleConfig_def
        ensureNotInstalled_def checkPVC_def)
  have rest: "(\<forall>ev. fails existingVolumeWorld ev = None) \<and>
      (useYAML exampleConfig \<longrightarrow>
         validateTridentPVC exampleConfig existingVolumeWorld = None \<and>
         validateTridentDeployment exampleConfig existingVolumeWorld = None \<and>
         validateTridentService exampleConfig existingVolumeWorld = None \<and>
         validateTridentStatefulSet exampleConfig existingVolumeWorld = None \<and>
         validateTridentDaemonSet exampleConfig existingVolumeWorld = None) \<and>
      CheckPVCBound existingVolumeWorld (pvcName exampleConfig) 0 = Inr True \<and>
      GetPodByLabel existingVolumeWorld (appLabel exampleConfig) 0 = Inr examplePod \<and>
      podPhase examplePod = PodRunning \<and>
      Exec existingVolumeWorld (podName examplePod) 0 = (''{}'', None) \<and>
      UnmarshalVersion existingVolumeWorld ''{}'' = Inr ''18.04.0''"
    by (simp add: existingVolumeWorld_def exampleWorld_def exampleConfig_def examplePod_def)
  note thm1 = existing_volume_needs_no_driver [OF found(1), where s = emptyCluster
      and pod = examplePod and body = "''{}''" and v = "''18.04.0''"]
  note thm2 = existing_volume_needs_no_driver [OF found(2), where s = emptyCluster]
  from thm1 checks [of exampleConfig] vol(1) compat(1)
  have passed: "\<exists>nsE pvcE. outcome (existenceChecks exampleConfig existingVolumeWorld emptyCluster) =
      Inr (nsE, pvcE, True)"
    by blast
  from thm1 passed rest
  have run: "outcome (installTrident exampleConfig existingVolumeWorld emptyCluster) = Inr ()"
    by blast
  from thm2 checks [of ?dry] vol(2) compat(2)
  have passed': "\<exists>nsE pvcE. outcome (existenceChecks ?dry existingVolumeWorld emptyCluster) =
      Inr (nsE, pvcE, True)"
    by blast
  have "dryRun ?dry" by simp
  with thm2 passed'
  have dry: "outcome (installTrident ?dry existingVolumeWorld emptyCluster) = Inr ()"
    by blast
  from thm1
  have "filter isDriverLoad (events (installTrident exampleConfig existingVolumeWorld emptyCluster)) = []"
    by blast
  with found missing vol compat cap run dry show ?thesis
    by blast
qed

text \<open>
  C9, as stated, lets the installation run to completion and the dry run succeed
  whenever the volume exists. A volume that exists in the Released phase ends both with
  the error of the volume's check, before any event.
\<close>

theorem released_volume_aborts_install_and_dry_run:
  "CheckPVExists releasedVolumeWorld (pvName exampleConfig) = Inr True \<and>
   outcome (installTrident exampleConfig releasedVolumeWorld emptyCluster) =
     Inl (Error ''PV trident phase is Released; please delete it and try again'') \<and>
   outcome (installTrident (exampleConfig\<lparr>dryRun := True\<rparr>) releasedVolumeWorld emptyCluster) =
     Inl (Error ''PV trident phase is Released; please delete it and try again'') \<and>
   events (installTrident exampleConfig releasedVolumeWorld emptyCluster) = []"
  by (simp add: install_defs action_defs example_defs releasedVolumeWorld_def)

section \<open>The order of the workload objects\<close>

lemma createDeployment_run:
  "createDeployment c w s = (r, evs, s') \<Longrightarrow>
   (evs = [] \<and> r \<noteq> Inr ()) \<or>
   (\<exists>ev. evs = [ev] \<and> workloadKindOf ev = Some Deployment \<and> (r = Inr ()) = (fails w ev = None))"
  by (auto simp add: createDeployment_def andThen_def attempt_def failWith_def succeed_def
      split: if_splits option.splits)

lemma createService_run:
  "createService c w s = (r, evs, s') \<Longrightarrow>
   (evs = [] \<and> r \<noteq> Inr ()) \<or>
   (\<exists>ev. evs = [ev] \<and> workloadKindOf ev = Some Service \<and> (r = Inr ()) = (fails w ev = None))"
  by (auto simp add: createService_def andThen_def attempt_def failWith_def succeed_def
      split: if_splits option.splits)

lemma createStatefulSet_run:
  "createStatefulSet c w s = (r, evs, s') \<Longrightarrow>
   (evs = [] \<and> r \<noteq> Inr ()) \<or>
   (\<exists>ev. evs = [ev] \<and> workloadKindOf ev = Some StatefulSet \<and> (r = Inr ()) = (fails w ev = None))"
  by (auto simp add: createStatefulSet_def andThen_def attempt_def failWith_def succeed_def
      split: if_splits option.splits)

lemma createDaemonSet_run:
  "createDaemonSet c w s = (r, evs, s') \<Longrightarrow>
   (evs = [] \<and> r \<noteq> Inr ()) \<or>
   (\<exists>ev. evs = [ev] \<and> workloadKindOf ev = Some DaemonSet \<and> (r = Inr ()) = (fails w ev = None))"
  by (auto simp add: createDaemonSet_def andThen_def attempt_def failWith_def succeed_def
      split: if_splits option.splits)

lemma createWorkloads_run:
  assumes "createWorkloads c w s = (r, evs, s')"
  shows "map workloadKindOf evs = take (length evs) (map Some (workloadOrder c)) \<and>
         (\<forall>ev\<in>set (butlast evs). fails w ev = None) \<and>
         (r = Inr () \<longrightarrow> length evs = length (workloadOrder c) \<and> (\<forall>ev\<in>set evs. fails w ev = None))"
proof (cases "csi c")
  case False
  with assms have "createDeployment c w s = (r, evs, s')" by (simp add: createWorkloads_def)
  from createDeployment_run [OF this] False show ?thesis by (auto simp add: workloadOrder_def)
next
  case True
  then have all: "createWorkloads c w s =
      andThen (createService c w) (\<lambda>_. andThen (createStatefulSet c w) (\<lambda>_. createDaemonSet c w)) s"
    by (simp add: createWorkloads_def)
  show ?thesis
  proof (cases "createService c w" "\<lambda>_::unit. andThen (createStatefulSet c w) (\<lambda>_. createDaemonSet c w)" s
      rule: andThen_cases)
    case (fail e evs1 s1)
    with all assms have "r = Inl e" "evs = evs1" by simp_all
    with createService_run [OF fail(1)] True show ?thesis by (auto simp add: workloadOrder_def)
  next
    case (ok x evs1 s1 r2 evs2 s2)
    with all assms have r: "r = r2" "evs = evs1 @ evs2" by simp_all
    from createService_run [OF ok(1)] obtain ev1 where one: "evs1 = [ev1]"
      "workloadKindOf ev1 = Some Service" "fails w ev1 = None" by auto
    show ?thesis
    proof (cases "createStatefulSet c w" "\<lambda>_::unit. createDaemonSet c w" s1 rule: andThen_cases)
      case (fail e evs3 s3)
      with ok(2) have "r2 = Inl e" "evs2 = evs3" by simp_all
      with createStatefulSet_run [OF fail(1)] True r one show ?thesis
        by (auto simp add: workloadOrder_def)
    next
      case (ok y evs3 s3 r4 evs4 s4)
      with \<open>andThen (createStatefulSet c w) (\<lambda>_. createDaemonSet c w) s1 = (r2, evs2, s2)\<close>
      have r2: "r2 = r4" "evs2 = evs3 @ evs4" by simp_all
      from createStatefulSet_run [OF ok(1)] obtain ev3 where two: "evs3 = [ev3]"
        "workloadKindOf ev3 = Some StatefulSet" "fails w ev3 = None" by auto
      from createDaemonSet_run [OF ok(2)] True r r2 one two show ?thesis
        by (auto simp add: workloadOrder_def)
    qed
  qed
qed

text \<open>
  C8. In every run the workload objects submitted are, in this order, an initial part of
  service, stateful-set, daemon-set for the distributed topology and of the single
  deployment otherwise; every submission but the last one made has succeeded, so that an
  object is submitted only after the one before it was accepted; and a run (not a dry
  one) that ends in success has submitted them all, each with success: the three objects
  of the distributed topology, or exactly one deployment.
\<close>

theorem workloads_submitted_in_order:
  "map workloadKindOf (submissions c w s) =
     take (length (submissions c w s)) (map Some (workloadOrder c)) \<and>
   (\<forall>ev\<in>set (butlast (submissions c w s)). fails w ev = None) \<and>
   (outcome (installTrident c w s) = Inr () \<and> \<not> dryRun c \<longrightarrow>
      map workloadKindOf (submissions c w s) = map Some (workloadOrder c) \<and>
      (\<forall>ev\<in>set (submissions c w s). fails w ev = None))"
proof (cases c w s rule: workload_focus)
  case none
  then show ?thesis by (auto simp add: submissions_def filter_isWorkload)
next
  case (some t r evs t')
  from some(2) have "submissions c w s = evs" by (simp add: submissions_def filter_isWorkload)
  with createWorkloads_run [OF some(1)] some(3) show ?thesis by auto
qed

theorem workloads_submitted_in_order_witness:
  "outcome (installTrident exampleCSIConfig csiWorld emptyCluster) = Inr () \<and>
   \<not> dryRun exampleCSIConfig \<and> csi exampleCSIConfig \<and>
   map workloadKindOf (submissions exampleCSIConfig csiWorld emptyCluster) =
     [Some Service, Some StatefulSet, Some DaemonSet]"
proof -
  have cfg: "\<not> dryRun exampleCSIConfig" "csi exampleCSIConfig"
    by (simp_all add: exampleCSIConfig_def processInstallationArguments_def exampleConfig_def
        Let_def)
  have run: "outcome (installTrident exampleCSIConfig csiWorld emptyCluster) = Inr ()"
    by (simp add: install_defs action_defs example_defs csiWorld_def exampleCSIConfig_def
        processInstallationArguments_def Let_def AtLeast_def numeral_3_eq_3)
  from workloads_submitted_in_order [of exampleCSIConfig csiWorld emptyCluster] run cfg
  have "map workloadKindOf (submissions exampleCSIConfig csiWorld emptyCluster) =
          map Some (workloadOrder exampleCSIConfig)"
    by blast
  with run cfg show ?thesis by (simp add: workloadOrder_def)
qed

section \<open>Removal of the RBAC objects of an earlier installation\<close>

lemma removeRBACObjects_run:
  "outcome (removeRBACObjects c w s) =
     Inr (\<exists>ev. ev \<in> set (fatalDeletions c w) \<and> fails w ev \<noteq> None)"
  "filter isRBAC (events (removeRBACObjects c w s)) = rbacDeletions c w"
  "filter isRBACCreate (events (removeRBACObjects c w s)) = []"
  by (auto simp add: removeRBACObjects_def outcome_andThen events_andThen final_andThen
      rbacDeletions_def fatalDeletions_def isRBAC_def)

lemma createRBACObjects_events:
  "filter isRBAC (events (createRBACObjects c w s)) = events (createRBACObjects c w s)"
  "filter isRBACCreate (events (createRBACObjects c w s)) = events (createRBACObjects c w s)"
  "events (createRBACObjects c w s) \<noteq> []"
proof -
  obtain r evs s' where run: "createRBACObjects c w s = (r, evs, s')"
    by (cases "createRBACObjects c w s")
  from emits_run [OF createRBACObjects_emits run] run
  show "filter isRBAC (events (createRBACObjects c w s)) = events (createRBACObjects c w s)"
    "filter isRBACCreate (events (createRBACObjects c w s)) = events (createRBACObjects c w s)"
    by (simp_all add: filter_id_conv isRBAC_def)
  show "events (createRBACObjects c w s) \<noteq> []"
    by (simp add: createRBACObjects_def events_andThen)
qed

lemma replaceRBACObjects_run:
  assumes "replaceRBACObjects c w s = (r, evs, s')"
  shows "filter isRBAC evs = rbacDeletions c w @ filter isRBACCreate evs"
    and "(filter isRBACCreate evs = []) = (\<exists>ev. ev \<in> set (fatalDeletions c w) \<and> fails w ev \<noteq> None)"
    and "(\<exists>ev. ev \<in> set (fatalDeletions c w) \<and> fails w ev \<noteq> None) \<Longrightarrow> r = Inl (Error couldNotRemove)"
proof -
  let ?fatal = "\<exists>ev. ev \<in> set (fatalDeletions c w) \<and> fails w ev \<noteq> None"
  let ?t = "final (removeRBACObjects c w s)"
  from assms have r: "r = outcome (replaceRBACObjects c w s)"
    and evs: "evs = events (replaceRBACObjects c w s)" by simp_all
  have out: "outcome (removeRBACObjects c w s) = Inr ?fatal"
    by (rule removeRBACObjects_run(1))
  have "filter isRBAC evs = rbacDeletions c w @ filter isRBACCreate evs \<and>
        (filter isRBACCreate evs = []) = ?fatal \<and> (?fatal \<longrightarrow> r = Inl (Error couldNotRemove))"
  proof (cases ?fatal)
    case True
    with out have o: "outcome (removeRBACObjects c w s) = Inr True" by simp
    have "evs = events (removeRBACObjects c w s)"
      unfolding evs by (simp add: replaceRBACObjects_def events_andThen o)
    moreover have "r = Inl (Error couldNotRemove)"
      unfolding r by (simp add: replaceRBACObjects_def outcome_andThen o)
    ultimately show ?thesis
      using True by (simp add: removeRBACObjects_run(2,3))
  next
    case False
    with out have o: "outcome (removeRBACObjects c w s) = Inr False" by simp
    have "evs = events (removeRBACObjects c w s) @ events (createRBACObjects c w ?t)"
      unfolding evs by (simp add: replaceRBACObjects_def events_andThen o)
    then show ?thesis
      using False createRBACObjects_events(3) [of c w ?t]
      by (auto simp add: removeRBACObjects_run(2,3) createRBACObjects_events(1,2))
  qed
  then show "filter isRBAC evs = rbacDeletions c w @ filter isRBACCreate evs"
    and "(filter isRBACCreate evs = []) = ?fatal"
    and "?fatal \<Longrightarrow> r = Inl (Error couldNotRemove)"
    by blast+
qed

text \<open>
  C1, as the code has it. A run that touches no RBAC object is a dry run or one that
  returned an error before. Any other run first attempts every removal (the cluster role
  binding, the cluster role, the service account and, on OpenShift, the entry in the
  security context constraint; for the external authorization service the detachment of
  the role, the deletion of the role and the service account), each of them whether or
  not the ones before failed, and only then creates RBAC objects. It creates none
  exactly when a removal whose failure counts has failed, and then the run ends with
  the error that asks for manual removal, having created no claim, volume or workload
  object. With the RBAC of the cluster every removal counts; with the external
  authorization service only that of the service account does: a failure to detach or
  to delete the role is logged and the installation goes on.
\<close>

theorem rbac_teardown_before_create:
  "(filter isRBAC (events (installTrident c w s)) = [] \<longrightarrow>
      dryRun c \<or> (\<exists>e. outcome (installTrident c w s) = Inl (Error e))) \<and>
   (filter isRBAC (events (installTrident c w s)) \<noteq> [] \<longrightarrow>
      filter isRBAC (events (installTrident c w s)) =
        rbacDeletions c w @ filter isRBACCreate (events (installTrident c w s)) \<and>
      ((filter isRBACCreate (events (installTrident c w s)) = []) =
        (\<exists>ev. ev \<in> set (fatalDeletions c w) \<and> fails w ev \<noteq> None)) \<and>
      ((\<exists>ev. ev \<in> set (fatalDeletions c w) \<and> fails w ev \<noteq> None) \<longrightarrow>
         outcome (installTrident c w s) = Inl (Error couldNotRemove) \<and>
         filter (\<lambda>e. isPVCCreate e \<or> isBackendAddVolume e \<or> isSecretCreate e \<or> isPVCreate e \<or>
                     isWorkload e) (events (installTrident c w s)) = []))"
proof (cases c w s rule: rbac_focus)
  case none
  then show ?thesis by (simp add: filter_isRBAC)
next
  case (some t r evs t')
  let ?E = "events (installTrident c w s)"
  have all: "filter isRBAC ?E = filter isRBAC evs"
    using some(2) by (simp add: filter_isRBAC)
  have "filter isRBACCreate ?E = filter isRBACCreate (filter isRBAC ?E)"
    by (rule filter_narrow) (simp add: isRBAC_def)
  also have "\<dots> = filter isRBACCreate (filter isRBAC evs)" by (simp only: all)
  also have "\<dots> = filter isRBACCreate evs"
    by (rule filter_narrow [symmetric]) (simp add: isRBAC_def)
  finally have created: "filter isRBACCreate ?E = filter isRBACCreate evs" .
  note run = replaceRBACObjects_run [OF some(1)]
  have abort: "outcome (installTrident c w s) = Inl (Error couldNotRemove) \<and>
      filter (\<lambda>e. isPVCCreate e \<or> isBackendAddVolume e \<or> isSecretCreate e \<or> isPVCreate e \<or>
                  isWorkload e) ?E = []"
    if "\<exists>ev. ev \<in> set (fatalDeletions c w) \<and> fails w ev \<noteq> None"
  proof -
    from run(3) [OF that] some(3) have "outcome (installTrident c w s) = Inl (Error couldNotRemove)"
      and later: "filter (\<lambda>e. phaseOf e = ClaimPhase \<or> phaseOf e = VolumePhase \<or>
                     phaseOf e = WorkloadPhase) ?E = []"
      by blast+
    moreover have "filter (\<lambda>e. isPVCCreate e \<or> isBackendAddVolume e \<or> isSecretCreate e \<or>
                     isPVCreate e \<or> isWorkload e) ?E = []"
      by (rule filter_empty_mono [OF later])
        (auto dest: isPVCCreate_phase isBackendAddVolume_phase isSecretCreate_phase
          isPVCreate_phase isWorkload_phase)
    ultimately show ?thesis by blast
  qed
  have "rbacDeletions c w \<noteq> []" by (simp add: rbacDeletions_def)
  with run(1) have "filter isRBAC evs \<noteq> []" by simp
  with run(1) run(2) abort show ?thesis
    unfolding all created by blast
qed

theorem rbac_teardown_before_create_witness:
  "DeleteObjectByYAML (GetServiceAccountYAML False) True
     \<in> set (fatalDeletions exampleConfig accountStuckWorld) \<and>
   fails accountStuckWorld (DeleteObjectByYAML (GetServiceAccountYAML False) True) =
     Some ''forbidden'' \<and>
   filter isRBAC (events (installTrident exampleConfig accountStuckWorld emptyCluster)) =
     rbacDeletions exampleConfig accountStuckWorld \<and>
   length (rbacDeletions exampleConfig accountStuckWorld) = 3 \<and>
   outcome (installTrident exampleConfig accountStuckWorld emptyCluster) =
     Inl (Error couldNotRemove)"
proof -
  let ?ev = "DeleteObjectByYAML (GetServiceAccountYAML False) True"
  have m: "?ev \<in> set (fatalDeletions exampleConfig accountStuckWorld)"
    by (simp add: fatalDeletions_def rbacDeletions_def exampleConfig_def)
  have f: "fails accountStuckWorld ?ev = Some ''forbidden''"
    by (simp add: accountStuckWorld_def)
  have n: "length (rbacDeletions exampleConfig accountStuckWorld) = 3"
    by (simp add: rbacDeletions_def exampleConfig_def accountStuckWorld_def exampleWorld_def)
  have reached: "filter isRBAC (events (installTrident exampleConfig accountStuckWorld emptyCluster)) \<noteq> []"
    by (simp add: install_defs action_defs example_defs accountStuckWorld_def isRBAC_def)
  from m f have fatal: "\<exists>ev. ev \<in> set (fatalDeletions exampleConfig accountStuckWorld) \<and>
      fails accountStuckWorld ev \<noteq> None"
    by (intro exI [of _ ?ev]) simp
  from rbac_teardown_before_create [of exampleConfig accountStuckWorld emptyCluster] reached fatal
  have "filter isRBAC (events (installTrident exampleConfig accountStuckWorld emptyCluster)) =
          rbacDeletions exampleConfig accountStuckWorld @
          filter isRBACCreate (events (installTrident exampleConfig accountStuckWorld emptyCluster))"
    and "filter isRBACCreate (events (installTrident exampleConfig accountStuckWorld emptyCluster)) = []"
    and "outcome (installTrident exampleConfig accountStuckWorld emptyCluster) =
          Inl (Error couldNotRemove)"
    by blast+
  with m f n show ?thesis by simp
qed

text \<open>
  C1, as stated, has the run abort when any removal fails, in both modes. With the
  external authorization service and a role that cannot be deleted, the installation
  goes on to create the RBAC objects and ends in success.
\<close>

theorem ucp_role_deletion_failure_is_not_fatal:
  "\<not> useKubernetesRBAC (exampleConfig\<lparr>useKubernetesRBAC := False\<rparr>) \<and>
   DeleteTridentRole \<in> set (rbacDeletions (exampleConfig\<lparr>useKubernetesRBAC := False\<rparr>) roleStuckWorld) \<and>
   fails roleStuckWorld DeleteTridentRole = Some ''role is in use'' \<and>
   filter isRBAC
     (events (installTrident (exampleConfig\<lparr>useKubernetesRBAC := False\<rparr>) roleStuckWorld emptyCluster)) =
     [RemoveTridentRoleFromServiceAccount ''trident'', DeleteTridentRole,
      DeleteObjectByYAML (GetServiceAccountYAML False) True,
      CreateObjectByYAML (GetServiceAccountYAML False), CreateTridentRole,
      AddTridentRoleToServiceAccount ''trident''] \<and>
   outcome (installTrident (exampleConfig\<lparr>useKubernetesRBAC := False\<rparr>) roleStuckWorld emptyCluster) =
     Inr ()"
  by (simp add: install_defs action_defs example_defs roleStuckWorld_def rbacDeletions_def
      isRBAC_def numeral_3_eq_3)

section \<open>Session credentials below the cluster's floor\<close>

lemma checkPV_absent:
  assumes "CheckPVExists w (pvName c) = Inr False"
  shows "checkPV c w q = succeed False"
  using assms by (simp add: checkPV_def)

lemma loadStorageDriver_loaded:
  assumes "ReadFileResult w backendConfigFilePath = Inr body"
    and "NewStorageBackend w body = Inr sb"
    and "outcome (loadStorageDriver c w s) = Inr sb'"
  shows "sb' = sb"
  using assms
  by (auto simp add: loadStorageDriver_def outcome_andThen split: option.splits sum.splits)

lemma preChecks_backend:
  assumes "CheckPVExists w (pvName c) = Inr False"
    and "ReadFileResult w backendConfigFilePath = Inr body"
    and "NewStorageBackend w body = Inr sb"
    and "preChecks c w s = (Inr (nsE, pvcE, pvE, sbo), evs0, s0)"
  shows "\<not> pvE \<and> sbo = Some sb"
proof -
  from assms(4) have "outcome (preChecks c w s) = Inr (nsE, pvcE, pvE, sbo)" by simp
  then show ?thesis
    using loadStorageDriver_loaded [OF assms(2,3)]
    by (auto simp add: preChecks_def existenceChecks_def loadDriverIfNeeded_def outcome_andThen
        checkPV_absent [OF assms(1)] split: sum.splits if_splits)
qed

lemma createPV_below_floor:
  assumes "\<not> AtLeast (Version w) (1, 7, 0)"
    and "Storage sb = pool # pools"
    and "AddVolume sb (volConfigOf c sb) pool = Inr v"
    and "NfsServerIP v = []" and "IscsiTargetPortal v \<noteq> []" and "IscsiTargetSecret v \<noteq> []"
  shows "createPVIfNecessary c w False (Some sb) t =
           (Inl (Error (chapFloorMessage c)), [BackendAddVolume (volConfigOf c sb) pool], t)"
  using assms
  by (simp add: createPVIfNecessary_def createPV_def getPVYAML_def Let_def wrapError_def
      andThen_def addVolume_def failWith_def chapFloorMessage_def)

text \<open>
  C6. Let the cluster be older than 1.7.0, the volume not exist, and the backend of the
  configuration file allocate, from its pool, a volume with no network-filesystem server,
  with a block-target portal and with a target secret. Then no run creates a secret, a
  persistent volume or a workload object, and every run but a dry one returns an error;
  a run that gets as far as asking the backend for the volume asks once and ends there,
  with the error that names the minimum version.
\<close>

theorem chap_below_floor_aborts_at_volume:
  assumes "\<not> AtLeast (Version w) (1, 7, 0)"
    and "CheckPVExists w (pvName c) = Inr False"
    and "ReadFileResult w backendConfigFilePath = Inr body"
    and "NewStorageBackend w body = Inr sb"
    and "Storage sb = pool # pools"
    and "AddVolume sb (volConfigOf c sb) pool = Inr v"
    and "NfsServerIP v = []" and "IscsiTargetPortal v \<noteq> []" and "IscsiTargetSecret v \<noteq> []"
  shows "filter isSecretCreate (events (installTrident c w s)) = [] \<and>
         filter isPVCreate (events (installTrident c w s)) = [] \<and>
         filter isWorkload (events (installTrident c w s)) = [] \<and>
         (\<not> dryRun c \<longrightarrow> (\<exists>e. outcome (installTrident c w s) = Inl (Error e))) \<and>
         (filter isBackendAddVolume (events (installTrident c w s)) \<noteq> [] \<longrightarrow>
            filter isBackendAddVolume (events (installTrident c w s)) =
              [BackendAddVolume (volConfigOf c sb) pool] \<and>
            outcome (installTrident c w s) = Inl (Error (chapFloorMessage c)))"
proof (cases c w s rule: volume_focus)
  case none
  let ?E = "events (installTrident c w s)"
  from none(1) have "filter isSecretCreate ?E = []" "filter isPVCreate ?E = []"
    "filter isBackendAddVolume ?E = []"
    by (auto elim!: filter_empty_mono
        dest: isSecretCreate_phase isPVCreate_phase isBackendAddVolume_phase)
  with none(2,3) show ?thesis by (auto simp add: filter_isWorkload)
next
  case (some nsE pvcE pvE sbo evs0 s0 t r evs t')
  let ?E = "events (installTrident c w s)"
  from preChecks_backend [OF assms(2-4) some(1)] have "\<not> pvE" "sbo = Some sb" by simp_all
  with some(2) createPV_below_floor [OF assms(1) assms(5-9), of t]
  have r: "r = Inl (Error (chapFloorMessage c))"
    and evs: "evs = [BackendAddVolume (volConfigOf c sb) pool]" by simp_all
  from some(4) [OF r] have out: "outcome (installTrident c w s) = Inl (Error (chapFloorMessage c))"
    and none: "filter (\<lambda>e. phaseOf e = WorkloadPhase) ?E = []" by blast+
  have vol: "filter (\<lambda>e. phaseOf e = VolumePhase) ?E = [BackendAddVolume (volConfigOf c sb) pool]"
    using some(3) evs by simp
  have "filter isSecretCreate ?E = filter isSecretCreate (filter (\<lambda>e. phaseOf e = VolumePhase) ?E)"
    by (rule filter_narrow) (rule isSecretCreate_phase)
  then have a: "filter isSecretCreate ?E = []" by (simp add: vol)
  have "filter isPVCreate ?E = filter isPVCreate (filter (\<lambda>e. phaseOf e = VolumePhase) ?E)"
    by (rule filter_narrow) (rule isPVCreate_phase)
  then have b: "filter isPVCreate ?E = []" by (simp add: vol)
  have "filter isBackendAddVolume ?E =
          filter isBackendAddVolume (filter (\<lambda>e. phaseOf e = VolumePhase) ?E)"
    by (rule filter_narrow) (rule isBackendAddVolume_phase)
  then have d: "filter isBackendAddVolume ?E = [BackendAddVolume (volConfigOf c sb) pool]"
    by (simp add: vol)
  from a b d out none show ?thesis by (simp add: filter_isWorkload)
qed

theorem chap_below_floor_aborts_at_volume_witness:
  "\<not> AtLeast (Version oldClusterWorld) (1, 7, 0) \<and>
   CheckPVExists oldClusterWorld (pvName exampleConfig) = Inr False \<and>
   ReadFileResult oldClusterWorld backendConfigFilePath = Inr ''{}'' \<and>
   NewStorageBackend oldClusterWorld ''{}'' = Inr chapBackend \<and>
   Storage chapBackend = ''aggr1'' # [] \<and>
   AddVolume chapBackend (volConfigOf exampleConfig chapBackend) ''aggr1'' = Inr chapVolume \<and>
   NfsServerIP chapVolume = [] \<and> IscsiTargetPortal chapVolume \<noteq> [] \<and>
   IscsiTargetSecret chapVolume \<noteq> [] \<and>
   filter isBackendAddVolume (events (installTrident exampleConfig oldClusterWorld emptyCluster)) =
     [BackendAddVolume (volConfigOf exampleConfig chapBackend) ''aggr1''] \<and>
   outcome (installTrident exampleConfig oldClusterWorld emptyCluster) =
     Inl (Error ''could not create PV trident; iSCSI CHAP requires Kubernetes 1.7.0 or later'') \<and>
   filter isSecretCreate (events (installTrident exampleConfig oldClusterWorld emptyCluster)) = [] \<and>
   filter isWorkload (events (installTrident exampleConfig oldClusterWorld emptyCluster)) = []"
proof -
  have h: "\<not> AtLeast (Version oldClusterWorld) (1, 7, 0)"
    "CheckPVExists oldClusterWorld (pvName exampleConfig) = Inr False"
    "ReadFileResult oldClusterWorld backendConfigFilePath = Inr ''{}''"
    "NewStorageBackend oldClusterWorld ''{}'' = Inr chapBackend"
    "Storage chapBackend = ''aggr1'' # []"
    "AddVolume chapBackend (volConfigOf exampleConfig chapBackend) ''aggr1'' = Inr chapVolume"
    "NfsServerIP chapVolume = []" "IscsiTargetPortal chapVolume \<noteq> []"
    "IscsiTargetSecret chapVolume \<noteq> []"
    by (simp_all add: oldClusterWorld_def chapWorld_def exampleWorld_def chapBackend_def
        chapVolume_def AtLeast_def)
  have reached: "filter isBackendAddVolume
      (events (installTrident exampleConfig oldClusterWorld emptyCluster)) \<noteq> []"
    by (simp add: install_defs action_defs example_defs oldClusterWorld_def chapWorld_def
        chapBackend_def chapVolume_def volConfigOf_def AtLeast_def)
  have msg: "chapFloorMessage exampleConfig =
      ''could not create PV trident; iSCSI CHAP requires Kubernetes 1.7.0 or later''"
    by (simp add: chapFloorMessage_def exampleConfig_def)
  from chap_below_floor_aborts_at_volume [OF h, of emptyCluster] reached
  have "filter isBackendAddVolume (events (installTrident exampleConfig oldClusterWorld emptyCluster)) =
          [BackendAddVolume (volConfigOf exampleConfig chapBackend) ''aggr1'']"
    and "outcome (installTrident exampleConfig oldClusterWorld emptyCluster) =
          Inl (Error (chapFloorMessage exampleConfig))"
    and "filter isSecretCreate (events (installTrident exampleConfig oldClusterWorld emptyCluster)) = []"
    and "filter isWorkload (events (installTrident exampleConfig oldClusterWorld emptyCluster)) = []"
    by blast+
  with h show ?thesis unfolding msg by blast
qed

end
